theory Spec2Isabelle
  imports Main
begin

section \<open>The debug command of runsc (runsc/cmd/debug.go)\<close>

text \<open>
  The command locates a sandbox (by container identifier or by sandbox process
  identifier) and runs the requested diagnostic actions against it.  The embedding
  follows \<^verbatim>\<open>Debug.Execute\<close> block by block.  Every call that leaves the function
  (registry, sandbox, operating system, logging) is recorded, with its arguments and
  its answer, as an event; an execution yields how the process ended and the list of
  events in the order in which they happened.
\<close>

subsection \<open>Data\<close>

text \<open>\<^verbatim>\<open>subcommands.ExitStatus\<close>, the three values the function returns.\<close>

datatype ExitStatus = ExitSuccess | ExitFailure | ExitUsageError

text \<open>\<^verbatim>\<open>log.Level\<close>; \<^verbatim>\<open>Warning\<close> is the zero value.\<close>

datatype Level = Warning | Info | Debug

text \<open>The flags of the command, lines 34 to 45.\<close>

record Debug =
  pid :: int
  stacks :: bool
  signal :: int
  profileHeap :: string
  profileCPU :: string
  profileDelay :: int
  trace :: string
  strace :: string
  logLevel :: string
  logPackets :: string

text \<open>
  The fields of a sandbox and of a container that the function reads.  A container
  whose \<^verbatim>\<open>Sandbox\<close> pointer is nil has \<open>None\<close>.
\<close>

record Sandbox =
  ID :: string
  Pid :: int

record Container =
  Sandbox :: "Sandbox option"

text \<open>
  Modelled from the spec: \<^verbatim>\<open>control.LoggingArgs\<close> is declared outside this file.  The
  spec's LoggingChangeSet gives its fields: three independent set flags, each paired
  with its value.
\<close>

record LoggingArgs =
  SetLevel :: bool
  Level :: Level
  SetLogPackets :: bool
  LogPackets :: bool
  SetStrace :: bool
  EnableStrace :: bool
  StraceWhitelist :: "string list"

text \<open>An open file is known by its descriptor; a Go error by its message.\<close>

type_synonym File = nat

text \<open>An argument of a format string.\<close>

datatype arg = S string | I int | L Level

datatype event =
    is_Usage: Call_Usage
  | is_List: Call_List string "string + string list"
  | is_Load: Call_Load string string "string + Container"
  | is_IsRunning: Call_IsRunning Sandbox bool
  | is_Infof: Call_Infof string "arg list"
  | is_Errorf: Call_Errorf string "arg list"
  | is_Fatalf: Call_Fatalf string "arg list"
  | is_Kill: Call_Kill int int "string option"
  | is_Stacks: Call_Stacks Sandbox "string + string"
  | is_Create: Call_Create string "string + File"
  | is_Close: Call_Close File
  | is_HeapProfile: Call_HeapProfile Sandbox File "string option"
  | is_StartCPUProfile: Call_StartCPUProfile Sandbox File "string option"
  | is_StopCPUProfile: Call_StopCPUProfile Sandbox "string option"
  | is_StartTrace: Call_StartTrace Sandbox File "string option"
  | is_StopTrace: Call_StopTrace Sandbox "string option"
  | is_ChangeLogging: Call_ChangeLogging Sandbox LoggingArgs "string option"
  | is_Sleep: Call_Sleep int

text \<open>
  What the function calls and does not define.  Each collaborator answers as a
  function of its arguments: \<open>Inl\<close> or \<open>Some\<close> carries the error it returns.
  \<open>unicode_ToLower\<close> is \<^verbatim>\<open>strings.Map(unicode.ToLower, s)\<close>, which
  \<^verbatim>\<open>strings.ToLower\<close> falls back to on a string that is not pure ASCII.
\<close>

record Env =
  container_List :: "string \<Rightarrow> string + string list"
  container_Load :: "string \<Rightarrow> string \<Rightarrow> string + Container"
  SandboxPid :: "Container \<Rightarrow> int"
  IsRunning :: "Sandbox \<Rightarrow> bool"
  syscall_Kill :: "int \<Rightarrow> int \<Rightarrow> string option"
  Stacks :: "Sandbox \<Rightarrow> string + string"
  os_Create :: "string \<Rightarrow> string + File"
  HeapProfile :: "Sandbox \<Rightarrow> File \<Rightarrow> string option"
  StartCPUProfile :: "Sandbox \<Rightarrow> File \<Rightarrow> string option"
  StopCPUProfile :: "Sandbox \<Rightarrow> string option"
  StartTrace :: "Sandbox \<Rightarrow> File \<Rightarrow> string option"
  StopTrace :: "Sandbox \<Rightarrow> string option"
  ChangeLogging :: "Sandbox \<Rightarrow> LoggingArgs \<Rightarrow> string option"
  unicode_ToLower :: "string \<Rightarrow> string"

subsection \<open>Library functions\<close>

text \<open>
  \<^verbatim>\<open>strings.ToLower\<close>: a string of ASCII bytes has each of \<^verbatim>\<open>'A'\<close> to \<^verbatim>\<open>'Z'\<close>
  moved by \<^verbatim>\<open>'a' - 'A'\<close>; any other string goes through the Unicode tables.
\<close>

definition isASCII :: "char \<Rightarrow> bool" where
  "isASCII c = ((of_char c :: nat) < 128)"

definition asciiLower :: "char \<Rightarrow> char" where
  "asciiLower c =
     (let n = (of_char c :: nat)
      in if 65 \<le> n \<and> n \<le> 90 then char_of (n + 32) else c)"

definition strings_ToLower :: "Env \<Rightarrow> string \<Rightarrow> string" where
  "strings_ToLower env s =
     (if list_all isASCII s then map asciiLower s else unicode_ToLower env s)"

text \<open>
  \<^verbatim>\<open>strings.Split(s, sep)\<close> for a separator of one byte: the pieces of \<open>s\<close> between
  the separators, one more than there are separators; the empty string gives one
  empty piece.
\<close>

fun strings_Split :: "string \<Rightarrow> char \<Rightarrow> string list" where
  "strings_Split [] sep = [[]]"
| "strings_Split (c # cs) sep =
     (if c = sep then [] # strings_Split cs sep
      else (case strings_Split cs sep of
              [] \<Rightarrow> [[c]]
            | x # xs \<Rightarrow> (c # x) # xs))"

text \<open>\<^verbatim>\<open>strconv.ParseBool\<close>: twelve spellings are accepted.\<close>

definition strconv_ParseBool :: "string \<Rightarrow> string + bool" where
  "strconv_ParseBool str =
     (if str \<in> set [''1'', ''t'', ''T'', ''TRUE'', ''true'', ''True''] then Inr True
      else if str \<in> set [''0'', ''f'', ''F'', ''FALSE'', ''false'', ''False''] then Inr False
      else Inl ''invalid syntax'')"

text \<open>
  \<^verbatim>\<open>time.Duration(d.profileDelay) * time.Second\<close>: a product of 64-bit signed
  integers, in nanoseconds, which wraps around.
\<close>

definition wrap64 :: "int \<Rightarrow> int" where
  "wrap64 x = (x + 2 ^ 63) mod 2 ^ 64 - 2 ^ 63"

definition sleepDuration :: "Debug \<Rightarrow> int" where
  "sleepDuration d = wrap64 (profileDelay d * 1000000000)"

subsection \<open>Blocks of the function\<close>

text \<open>
  A block of the function either falls through to the next block (\<open>ret = None\<close>)
  or makes the function return a status.  It emits events, may register deferred
  calls (the most recent first) and may set the local variable \<^verbatim>\<open>delay\<close>.
\<close>

datatype deferred = HeapClose File | CPUCleanup File | TraceCleanup File

record Block =
  ret :: "ExitStatus option"
  out :: "event list"
  defers :: "deferred list"
  setDelay :: bool

definition falls :: "event list \<Rightarrow> Block" where
  "falls es = \<lparr>ret = None, out = es, defers = [], setDelay = False\<rparr>"

text \<open>
  Modelled from the spec: \<^verbatim>\<open>Errorf\<close> is declared outside this file.  It reports the
  message and gives the failure status, which the caller returns.
\<close>

definition Errorf :: "event list \<Rightarrow> string \<Rightarrow> arg list \<Rightarrow> Block" where
  "Errorf es fmt as =
     \<lparr>ret = Some ExitFailure, out = es @ [Call_Errorf fmt as], defers = [], setDelay = False\<rparr>"

text \<open>Lines 102 to 111: the loop over the listed identifiers.\<close>

fun scan :: "Env \<Rightarrow> string \<Rightarrow> int \<Rightarrow> string list \<Rightarrow> (ExitStatus + Container option) \<times> event list" where
  "scan env root p [] = (Inr None, [])"
| "scan env root p (cid # ids) =
     (let r = container_Load env root cid
      in case r of
           Inl err \<Rightarrow>
             (Inl ExitFailure,
              [Call_Load root cid r, Call_Errorf ''loading container %q: %v'' [S cid, S err]])
         | Inr candidate \<Rightarrow>
             if SandboxPid env candidate = p then (Inr (Some candidate), [Call_Load root cid r])
             else (case scan env root p ids of
                     (res, es) \<Rightarrow> (res, Call_Load root cid r # es)))"

text \<open>
  Lines 81 to 115.  \<open>args\<close> are the positional arguments: \<^verbatim>\<open>f.NArg()\<close> is their
  number and \<^verbatim>\<open>f.Arg(0)\<close> the first of them.
\<close>

definition resolve :: "Env \<Rightarrow> string \<Rightarrow> Debug \<Rightarrow> string list \<Rightarrow> (ExitStatus + Container) \<times> event list" where
  "resolve env root d args =
     (if pid d = 0 then
        (if length args \<noteq> 1 then (Inl ExitUsageError, [Call_Usage])
         else
           (let r = container_Load env root (args ! 0)
            in case r of
                 Inl err \<Rightarrow>
                   (Inl ExitFailure,
                    [Call_Load root (args ! 0) r,
                     Call_Errorf ''loading container %q: %v'' [S (args ! 0), S err]])
               | Inr c \<Rightarrow> (Inr c, [Call_Load root (args ! 0) r])))
      else
        (if length args \<noteq> 0 then (Inl ExitUsageError, [Call_Usage])
         else
           (let r = container_List env root
            in case r of
                 Inl err \<Rightarrow>
                   (Inl ExitFailure,
                    [Call_List root r, Call_Errorf ''listing containers: %v'' [S err]])
               | Inr ids \<Rightarrow>
                   (case scan env root (pid d) ids of
                      (Inl st, es) \<Rightarrow> (Inl st, Call_List root r # es)
                    | (Inr None, es) \<Rightarrow>
                        (Inl ExitFailure,
                         Call_List root r # es
                           @ [Call_Errorf ''container with PID %d not found'' [I (pid d)]])
                    | (Inr (Some c), es) \<Rightarrow> (Inr c, Call_List root r # es)))))"

text \<open>Lines 117 to 120.\<close>

definition checkRunning :: "Env \<Rightarrow> Container \<Rightarrow> (ExitStatus + Sandbox) \<times> event list" where
  "checkRunning env c =
     (case Sandbox c of
        None \<Rightarrow> (Inl ExitFailure, [Call_Errorf ''container sandbox is not running'' []])
      | Some sb \<Rightarrow>
          if \<not> IsRunning env sb then
            (Inl ExitFailure,
             [Call_IsRunning sb False, Call_Errorf ''container sandbox is not running'' []])
          else
            (Inr sb,
             [Call_IsRunning sb True,
              Call_Infof ''Found sandbox %q, PID: %d'' [S (ID sb), I (Pid sb)]]))"

text \<open>Lines 122 to 127.\<close>

definition sendSignal :: "Env \<Rightarrow> Debug \<Rightarrow> Sandbox \<Rightarrow> Block" where
  "sendSignal env d sb =
     (if signal d > 0 then
        (let es = [Call_Infof ''Sending signal %d to process: %d'' [I (signal d), I (Pid sb)]];
             r = syscall_Kill env (Pid sb) (signal d);
             es = es @ [Call_Kill (Pid sb) (signal d) r]
         in case r of
              Some err \<Rightarrow>
                Errorf es ''failed to send signal %d to processs %d'' [I (signal d), I (Pid sb)]
            | None \<Rightarrow> falls es)
      else falls [])"

text \<open>Lines 128 to 135.\<close>

definition dumpStacks :: "Env \<Rightarrow> Debug \<Rightarrow> Sandbox \<Rightarrow> Block" where
  "dumpStacks env d sb =
     (if stacks d then
        (let es = [Call_Infof ''Retrieving sandbox stacks'' []];
             r = Stacks env sb;
             es = es @ [Call_Stacks sb r]
         in case r of
              Inl err \<Rightarrow> Errorf es ''retrieving stacks: %v'' [S err]
            | Inr st \<Rightarrow>
                falls (es @ [Call_Infof (''     *** Stack dump ***'' @ [CHR 0x0A] @ ''%s'') [S st]]))
      else falls [])"

text \<open>Lines 136 to 147.  The file is closed by a deferred call.\<close>

definition heapProfile :: "Env \<Rightarrow> Debug \<Rightarrow> Sandbox \<Rightarrow> Block" where
  "heapProfile env d sb =
     (if profileHeap d \<noteq> '''' then
        (let r = os_Create env (profileHeap d);
             es = [Call_Create (profileHeap d) r]
         in case r of
              Inl err \<Rightarrow> Errorf es err []
            | Inr f \<Rightarrow>
                (let r = HeapProfile env sb f;
                     es = es @ [Call_HeapProfile sb f r]
                 in case r of
                      Some err \<Rightarrow> (Errorf es err []) \<lparr>defers := [HeapClose f]\<rparr>
                    | None \<Rightarrow>
                        (falls (es @ [Call_Infof ''Heap profile written to %q'' [S (profileHeap d)]]))
                          \<lparr>defers := [HeapClose f]\<rparr>))
      else falls [])"

text \<open>
  Lines 150 to 167.  \<^verbatim>\<open>delay\<close> is set on entry; the cleanup is deferred once the
  file is created, before the profile is started.
\<close>

definition cpuProfile :: "Env \<Rightarrow> Debug \<Rightarrow> Sandbox \<Rightarrow> Block" where
  "cpuProfile env d sb =
     (if profileCPU d \<noteq> '''' then
        (let r = os_Create env (profileCPU d);
             es = [Call_Create (profileCPU d) r]
         in case r of
              Inl err \<Rightarrow> (Errorf es err []) \<lparr>setDelay := True\<rparr>
            | Inr f \<Rightarrow>
                (let r = StartCPUProfile env sb f;
                     es = es @ [Call_StartCPUProfile sb f r]
                 in case r of
                      Some err \<Rightarrow> (Errorf es err []) \<lparr>defers := [CPUCleanup f], setDelay := True\<rparr>
                    | None \<Rightarrow>
                        (falls (es @ [Call_Infof ''CPU profile started for %d sec, writing to %q''
                                        [I (profileDelay d), S (profileCPU d)]]))
                          \<lparr>defers := [CPUCleanup f], setDelay := True\<rparr>))
      else falls [])"

text \<open>Lines 168 to 186, of the same shape.\<close>

definition traceExecution :: "Env \<Rightarrow> Debug \<Rightarrow> Sandbox \<Rightarrow> Block" where
  "traceExecution env d sb =
     (if trace d \<noteq> '''' then
        (let r = os_Create env (trace d);
             es = [Call_Create (trace d) r]
         in case r of
              Inl err \<Rightarrow> (Errorf es err []) \<lparr>setDelay := True\<rparr>
            | Inr f \<Rightarrow>
                (let r = StartTrace env sb f;
                     es = es @ [Call_StartTrace sb f r]
                 in case r of
                      Some err \<Rightarrow> (Errorf es err []) \<lparr>defers := [TraceCleanup f], setDelay := True\<rparr>
                    | None \<Rightarrow>
                        (falls (es @ [Call_Infof ''Tracing started for %d sec, writing to %q''
                                        [I (profileDelay d), S (trace d)]]))
                          \<lparr>defers := [TraceCleanup f], setDelay := True\<rparr>))
      else falls [])"

text \<open>Lines 191 to 205: the strace part of the logging arguments.\<close>

definition straceArgs :: "Env \<Rightarrow> Debug \<Rightarrow> LoggingArgs \<Rightarrow> LoggingArgs \<times> event list" where
  "straceArgs env d args =
     (if strace d \<noteq> '''' then
        (if strings_ToLower env (strace d) = ''off'' then
           (args, [Call_Infof ''Disabling strace'' []])
         else
           (let args = args\<lparr>EnableStrace := True\<rparr>
            in if strings_ToLower env (strace d) = ''all'' then
                 (args, [Call_Infof ''Enabling all straces'' []])
               else
                 (args\<lparr>StraceWhitelist := strings_Split (strace d) CHR '',''\<rparr>,
                  [Call_Infof ''Enabling strace for syscalls: %s'' [S (strace d)]])))
      else (args, []))"

text \<open>Lines 207 to 220: the switch on the lower-cased level; \<open>None\<close> is its default case.\<close>

definition parseLevel :: "string \<Rightarrow> Level option" where
  "parseLevel l =
     (if l = ''warning'' \<or> l = ''0'' then Some Warning
      else if l = ''info'' \<or> l = ''1'' then Some Info
      else if l = ''debug'' \<or> l = ''2'' then Some Debug
      else None)"

definition levelArgs :: "Env \<Rightarrow> Debug \<Rightarrow> LoggingArgs \<Rightarrow> (ExitStatus + LoggingArgs) \<times> event list" where
  "levelArgs env d args =
     (if length (logLevel d) \<noteq> 0 then
        (let args = args\<lparr>SetLevel := True\<rparr>
         in case parseLevel (strings_ToLower env (logLevel d)) of
              None \<Rightarrow> (Inl ExitFailure, [Call_Errorf ''invalid log level %d'' [S (logLevel d)]])
            | Some lv \<Rightarrow>
                (Inr (args\<lparr>Level := lv\<rparr>), [Call_Infof ''Setting log level %v'' [L lv]]))
      else (Inr args, []))"

text \<open>Lines 222 to 234.\<close>

definition packetsArgs :: "Debug \<Rightarrow> LoggingArgs \<Rightarrow> (ExitStatus + LoggingArgs) \<times> event list" where
  "packetsArgs d args =
     (if length (logPackets d) \<noteq> 0 then
        (let args = args\<lparr>SetLogPackets := True\<rparr>
         in case strconv_ParseBool (logPackets d) of
              Inl err \<Rightarrow>
                (Inl ExitFailure,
                 [Call_Errorf ''invalid value for log_packets %q'' [S (logPackets d)]])
            | Inr lp \<Rightarrow>
                (Inr (args\<lparr>LogPackets := lp\<rparr>),
                 [if lp then Call_Infof ''Enabling package logging'' []
                  else Call_Infof ''Disabling package logging'' []]))
      else (Inr args, []))"

text \<open>Lines 188 to 240: the arguments are built, then sent in one call.\<close>

definition initialArgs :: LoggingArgs where
  "initialArgs =
     \<lparr>SetLevel = False, Level = Warning, SetLogPackets = False, LogPackets = False,
      SetStrace = True, EnableStrace = False, StraceWhitelist = []\<rparr>"

definition changeLogging :: "Env \<Rightarrow> Debug \<Rightarrow> Sandbox \<Rightarrow> Block" where
  "changeLogging env d sb =
     (if strace d \<noteq> '''' \<or> length (logLevel d) \<noteq> 0 \<or> length (logPackets d) \<noteq> 0 then
        (case straceArgs env d initialArgs of
           (args, e1) \<Rightarrow>
             (case levelArgs env d args of
                (Inl st, e2) \<Rightarrow>
                  \<lparr>ret = Some st, out = e1 @ e2, defers = [], setDelay = False\<rparr>
              | (Inr args, e2) \<Rightarrow>
                  (case packetsArgs d args of
                     (Inl st, e3) \<Rightarrow>
                       \<lparr>ret = Some st, out = e1 @ e2 @ e3, defers = [], setDelay = False\<rparr>
                   | (Inr args, e3) \<Rightarrow>
                       (let r = ChangeLogging env sb args;
                            es = e1 @ e2 @ e3 @ [Call_ChangeLogging sb args r]
                        in case r of
                             Some err \<Rightarrow> Errorf es err []
                           | None \<Rightarrow> falls (es @ [Call_Infof ''Logging options changed'' []])))))
      else falls [])"

subsection \<open>The whole function\<close>

text \<open>
  Blocks in sequence: the first block that returns ends the sequence; what the
  blocks before it emitted, deferred and set stays.
\<close>

fun run :: "Block list \<Rightarrow> Block" where
  "run [] = falls []"
| "run (b # bs) =
     (case ret b of
        Some st \<Rightarrow> b
      | None \<Rightarrow>
          (let r = run bs
           in \<lparr>ret = ret r, out = out b @ out r, defers = defers r @ defers b,
               setDelay = (setDelay b \<or> setDelay r)\<rparr>))"

text \<open>
  The deferred calls of lines 141, 156 to 162 and 174 to 180.
  Modelled from the spec: \<^verbatim>\<open>Fatalf\<close> is declared outside this file; it reports the
  message and ends the process at once, so that no later deferred call runs.  The
  flag of the result says whether that happened.
\<close>

fun runDeferred :: "Env \<Rightarrow> Debug \<Rightarrow> Sandbox \<Rightarrow> deferred \<Rightarrow> bool \<times> event list" where
  "runDeferred env d sb (HeapClose f) = (False, [Call_Close f])"
| "runDeferred env d sb (CPUCleanup f) =
     (let r = StopCPUProfile env sb;
          es = [Call_Close f, Call_StopCPUProfile sb r]
      in case r of
           Some err \<Rightarrow> (True, es @ [Call_Fatalf err []])
         | None \<Rightarrow> (False, es @ [Call_Infof ''CPU profile written to %q'' [S (profileCPU d)]]))"
| "runDeferred env d sb (TraceCleanup f) =
     (let r = StopTrace env sb;
          es = [Call_Close f, Call_StopTrace sb r]
      in case r of
           Some err \<Rightarrow> (True, es @ [Call_Fatalf err []])
         | None \<Rightarrow> (False, es @ [Call_Infof ''Trace written to %q'' [S (trace d)]]))"

fun runDefers :: "Env \<Rightarrow> Debug \<Rightarrow> Sandbox \<Rightarrow> deferred list \<Rightarrow> bool \<times> event list" where
  "runDefers env d sb [] = (False, [])"
| "runDefers env d sb (x # xs) =
     (case runDeferred env d sb x of
        (True, es) \<Rightarrow> (True, es)
      | (False, es) \<Rightarrow>
          (case runDefers env d sb xs of
             (fatal, es') \<Rightarrow> (fatal, es @ es')))"

text \<open>How the process ends: the function returns a status, or \<^verbatim>\<open>Fatalf\<close> ends it.\<close>

datatype outcome = Returned ExitStatus | Terminated

text \<open>
  Lines 122 to 246: the six actions in their order, then the sleep of lines 242 to
  244 and the return of line 246 when no action returned before.
\<close>

definition mainSequence :: "Env \<Rightarrow> Debug \<Rightarrow> Sandbox \<Rightarrow> Block" where
  "mainSequence env d sb =
     run [sendSignal env d sb, dumpStacks env d sb, heapProfile env d sb,
          cpuProfile env d sb, traceExecution env d sb, changeLogging env d sb]"

definition body :: "Env \<Rightarrow> Debug \<Rightarrow> Sandbox \<Rightarrow> ExitStatus \<times> event list" where
  "body env d sb =
     (let m = mainSequence env d sb
      in case ret m of
           Some st \<Rightarrow> (st, out m)
         | None \<Rightarrow>
             (ExitSuccess,
              out m @ (if setDelay m then [Call_Sleep (sleepDuration d)] else [])))"

text \<open>
  \<^verbatim>\<open>Debug.Execute\<close>: \<open>root\<close> is \<^verbatim>\<open>conf.RootDir\<close>.  The deferred calls run when the
  body has returned.
\<close>

definition Execute :: "Env \<Rightarrow> string \<Rightarrow> Debug \<Rightarrow> string list \<Rightarrow> outcome \<times> event list" where
  "Execute env root d args =
     (case resolve env root d args of
        (Inl st, e0) \<Rightarrow> (Returned st, e0)
      | (Inr c, e0) \<Rightarrow>
          (case checkRunning env c of
             (Inl st, e1) \<Rightarrow> (Returned st, e0 @ e1)
           | (Inr sb, e1) \<Rightarrow>
               (case body env d sb of
                  (st, e2) \<Rightarrow>
                    (case runDefers env d sb (defers (mainSequence env d sb)) of
                       (True, e3) \<Rightarrow> (Terminated, e0 @ e1 @ e2 @ e3)
                     | (False, e3) \<Rightarrow> (Returned st, e0 @ e1 @ e2 @ e3)))))"

subsection \<open>A concrete world\<close>

text \<open>
  A registry with three containers under one root directory, of which the third
  cannot be loaded, and two under another; in \<open>okEnv\<close> every other call succeeds.
\<close>

definition okEnv :: Env where
  "okEnv =
     \<lparr>container_List =
        (\<lambda>root. if root = ''/run/a'' then Inr [''x'', ''abc'', ''z'']
                else if root = ''/run/b'' then Inr [''x'', ''abc'']
                else Inl ''no such directory''),
      container_Load =
        (\<lambda>root cid.
           if cid = ''x'' then Inr \<lparr>Sandbox = Some \<lparr>ID = ''x'', Pid = 7\<rparr>\<rparr>
           else if cid = ''abc'' then Inr \<lparr>Sandbox = Some \<lparr>ID = ''abc'', Pid = 42\<rparr>\<rparr>
           else Inl ''file does not exist''),
      SandboxPid = (\<lambda>c. case Sandbox c of None \<Rightarrow> - 1 | Some sb \<Rightarrow> Pid sb),
      IsRunning = (\<lambda>sb. True),
      syscall_Kill = (\<lambda>p s. None),
      Stacks = (\<lambda>sb. Inr ''goroutine 1 [running]''),
      os_Create =
        (\<lambda>path. if path = ''/tmp/heap'' then Inr 3
                else if path = ''/tmp/cpu'' then Inr 4
                else if path = ''/tmp/trace'' then Inr 5
                else Inl ''permission denied''),
      HeapProfile = (\<lambda>sb f. None),
      StartCPUProfile = (\<lambda>sb f. None),
      StopCPUProfile = (\<lambda>sb. None),
      StartTrace = (\<lambda>sb f. None),
      StopTrace = (\<lambda>sb. None),
      ChangeLogging = (\<lambda>sb args. None),
      unicode_ToLower = (\<lambda>s. s)\<rparr>"

text \<open>The flags as \<^verbatim>\<open>SetFlags\<close> leaves them when none is given (lines 63 to 74).\<close>

definition noFlags :: Debug where
  "noFlags =
     \<lparr>pid = 0, stacks = False, signal = - 1, profileHeap = '''', profileCPU = '''',
      profileDelay = 5, trace = '''', strace = '''', logLevel = '''', logPackets = ''''\<rparr>"

definition sandbox_abc :: Sandbox where
  "sandbox_abc = \<lparr>ID = ''abc'', Pid = 42\<rparr>"

text \<open>The same world, except that the signal cannot be delivered.\<close>

definition killFails :: Env where
  "killFails = okEnv\<lparr>syscall_Kill := (\<lambda>p s. Some ''operation not permitted'')\<rparr>"

text \<open>
  The events of loading the listed identifiers one after the other, each with the
  answer of the registry.
\<close>

definition loads :: "Env \<Rightarrow> string \<Rightarrow> string list \<Rightarrow> event list" where
  "loads env root ids = map (\<lambda>x. Call_Load root x (container_Load env root x)) ids"

text \<open>
  \<^verbatim>\<open>strings.Join(elems, sep)\<close> for a separator of one byte, to say what the pieces
  of a split are: the elements, with the separator between each two of them.
\<close>

fun strings_Join :: "string list \<Rightarrow> char \<Rightarrow> string" where
  "strings_Join [] sep = []"
| "strings_Join [x] sep = x"
| "strings_Join (x # y # ys) sep = x @ sep # strings_Join (y # ys) sep"

text \<open>The same world, except that no profile and no trace can be started or stopped.\<close>

definition startFails :: Env where
  "startFails =
     okEnv\<lparr>StartCPUProfile := (\<lambda>sb f. Some ''cpu profiling already started''),
           StopCPUProfile := (\<lambda>sb. Some ''cpu profiling not started''),
           StartTrace := (\<lambda>sb f. Some ''tracing already started''),
           StopTrace := (\<lambda>sb. Some ''tracing not started'')\<rparr>"

text \<open>A world in which stopping a trace fails.\<close>

definition traceStopFails :: Env where
  "traceStopFails = okEnv\<lparr>StopTrace := (\<lambda>sb. Some ''tracing not started'')\<rparr>"

section \<open>Properties\<close>

subsection \<open>Which events a block can emit\<close>

lemma scan_kinds:
  "scan env root p ids = (r, es) \<Longrightarrow> e \<in> set es \<Longrightarrow> is_Load e \<or> is_Errorf e"
  by (induction ids arbitrary: r es)
     (auto simp: Let_def split: sum.splits if_splits prod.splits)

lemma resolve_kinds:
  "resolve env root d args = (r, es) \<Longrightarrow> e \<in> set es \<Longrightarrow>
     is_Usage e \<or> is_List e \<or> is_Load e \<or> is_Errorf e"
  by (auto simp: resolve_def Let_def split: sum.splits if_splits prod.splits option.splits
           dest: scan_kinds)

lemma checkRunning_kinds:
  "checkRunning env c = (r, es) \<Longrightarrow> e \<in> set es \<Longrightarrow>
     is_IsRunning e \<or> is_Infof e \<or> is_Errorf e"
  by (auto simp: checkRunning_def split: option.splits if_splits)

lemma sendSignal_kinds:
  "e \<in> set (out (sendSignal env d sb)) \<Longrightarrow> is_Infof e \<or> is_Kill e \<or> is_Errorf e"
  by (auto simp: sendSignal_def falls_def Errorf_def Let_def split: option.splits if_splits)

lemma dumpStacks_kinds:
  "e \<in> set (out (dumpStacks env d sb)) \<Longrightarrow> is_Infof e \<or> is_Stacks e \<or> is_Errorf e"
  by (auto simp: dumpStacks_def falls_def Errorf_def Let_def split: sum.splits if_splits)

lemma heapProfile_kinds:
  "e \<in> set (out (heapProfile env d sb)) \<Longrightarrow>
     is_Infof e \<or> is_Create e \<or> is_HeapProfile e \<or> is_Errorf e"
  by (auto simp: heapProfile_def falls_def Errorf_def Let_def split: sum.splits option.splits if_splits)

lemma cpuProfile_kinds:
  "e \<in> set (out (cpuProfile env d sb)) \<Longrightarrow>
     is_Infof e \<or> is_Create e \<or> is_StartCPUProfile e \<or> is_Errorf e"
  by (auto simp: cpuProfile_def falls_def Errorf_def Let_def split: sum.splits option.splits if_splits)

lemma traceExecution_kinds:
  "e \<in> set (out (traceExecution env d sb)) \<Longrightarrow>
     is_Infof e \<or> is_Create e \<or> is_StartTrace e \<or> is_Errorf e"
  by (auto simp: traceExecution_def falls_def Errorf_def Let_def split: sum.splits option.splits if_splits)

lemma changeLogging_kinds:
  "e \<in> set (out (changeLogging env d sb)) \<Longrightarrow>
     is_Infof e \<or> is_ChangeLogging e \<or> is_Errorf e"
  by (auto simp: changeLogging_def straceArgs_def levelArgs_def packetsArgs_def falls_def Errorf_def Let_def
           split: sum.splits option.splits if_splits prod.splits)

lemma runDeferred_kinds:
  "runDeferred env d sb x = (fatal, es) \<Longrightarrow> e \<in> set es \<Longrightarrow>
     is_Close e \<or> is_StopCPUProfile e \<or> is_StopTrace e \<or> is_Fatalf e \<or> is_Infof e"
  by (cases x) (auto simp: Let_def split: option.splits)

lemma runDefers_kinds:
  "runDefers env d sb ds = (fatal, es) \<Longrightarrow> e \<in> set es \<Longrightarrow>
     is_Close e \<or> is_StopCPUProfile e \<or> is_StopTrace e \<or> is_Fatalf e \<or> is_Infof e"
proof (induction ds arbitrary: fatal es)
  case Nil
  then show ?case by simp
next
  case (Cons x xs)
  obtain f1 e1 where x: "runDeferred env d sb x = (f1, e1)" by (cases "runDeferred env d sb x")
  obtain f2 e2 where xs: "runDefers env d sb xs = (f2, e2)" by (cases "runDefers env d sb xs")
  from Cons.prems x xs have "e \<in> set e1 \<or> e \<in> set e2"
    by (cases f1) auto
  then show ?case
    using runDeferred_kinds [OF x] Cons.IH [OF xs] by blast
qed

lemma run_out:
  "e \<in> set (out (run bs)) \<Longrightarrow> \<exists>b\<in>set bs. e \<in> set (out b)"
  by (induction bs) (auto simp: falls_def Let_def split: option.splits)

lemma run_defers:
  "x \<in> set (defers (run bs)) \<Longrightarrow> \<exists>b\<in>set bs. x \<in> set (defers b)"
  by (induction bs) (auto simp: falls_def Let_def split: option.splits)

lemma run_None:
  "ret (run bs) = None \<Longrightarrow>
     (\<forall>b\<in>set bs. ret b = None) \<and> out (run bs) = concat (map out bs) \<and>
     defers (run bs) = concat (rev (map defers bs)) \<and>
     setDelay (run bs) = (\<exists>b\<in>set bs. setDelay b)"
  by (induction bs) (auto simp: falls_def Let_def split: option.splits)

subsection \<open>The shape of an execution\<close>

lemma Execute_cases [case_names resolve_failed not_running ran]:
  obtains
    (resolve_failed) st e0 where
      "resolve env root d args = (Inl st, e0)"
      "Execute env root d args = (Returned st, e0)"
  | (not_running) c e0 st e1 where
      "resolve env root d args = (Inr c, e0)"
      "checkRunning env c = (Inl st, e1)"
      "Execute env root d args = (Returned st, e0 @ e1)"
  | (ran) c e0 sb e1 st e2 fatal e3 where
      "resolve env root d args = (Inr c, e0)"
      "checkRunning env c = (Inr sb, e1)"
      "body env d sb = (st, e2)"
      "runDefers env d sb (defers (mainSequence env d sb)) = (fatal, e3)"
      "Execute env root d args = (if fatal then Terminated else Returned st, e0 @ e1 @ e2 @ e3)"
proof -
  obtain r0 e0 where r: "resolve env root d args = (r0, e0)"
    by (cases "resolve env root d args")
  show thesis
  proof (cases r0)
    case (Inl st)
    with r show thesis by (intro resolve_failed [of st e0]) (simp_all add: Execute_def)
  next
    case (Inr c)
    obtain r1 e1 where k: "checkRunning env c = (r1, e1)"
      by (cases "checkRunning env c")
    show thesis
    proof (cases r1)
      case (Inl st)
      with r Inr k show thesis
        by (intro not_running [of c e0 st e1]) (simp_all add: Execute_def)
    next
      case (Inr sb)
      obtain st e2 where b: "body env d sb = (st, e2)" by (cases "body env d sb")
      obtain fatal e3 where f: "runDefers env d sb (defers (mainSequence env d sb)) = (fatal, e3)"
        by (cases "runDefers env d sb (defers (mainSequence env d sb))")
      from r \<open>r0 = Inr c\<close> k Inr b f show thesis
        by (intro ran [of c e0 sb e1 st e2 fatal e3]) (simp_all add: Execute_def)
    qed
  qed
qed

lemma mainSequence_out:
  "e \<in> set (out (mainSequence env d sb)) \<Longrightarrow>
     e \<in> set (out (sendSignal env d sb)) \<or> e \<in> set (out (dumpStacks env d sb)) \<or>
     e \<in> set (out (heapProfile env d sb)) \<or> e \<in> set (out (cpuProfile env d sb)) \<or>
     e \<in> set (out (traceExecution env d sb)) \<or> e \<in> set (out (changeLogging env d sb))"
  unfolding mainSequence_def by (drule run_out) auto

lemma mainSequence_kinds:
  "e \<in> set (out (mainSequence env d sb)) \<Longrightarrow>
     is_Infof e \<or> is_Errorf e \<or> is_Kill e \<or> is_Stacks e \<or> is_Create e \<or> is_HeapProfile e \<or>
     is_StartCPUProfile e \<or> is_StartTrace e \<or> is_ChangeLogging e"
  by (auto dest!: mainSequence_out
           dest: sendSignal_kinds dumpStacks_kinds heapProfile_kinds cpuProfile_kinds
             traceExecution_kinds changeLogging_kinds)

lemma body_events:
  "body env d sb = (st, e2) \<Longrightarrow> e \<in> set e2 \<Longrightarrow>
     e \<in> set (out (mainSequence env d sb)) \<or> e = Call_Sleep (sleepDuration d)"
  by (auto simp: body_def Let_def split: option.splits if_splits)

subsection \<open>Argument count\<close>

text \<open>
  C5.  With no process identifier given, any number of positional arguments other
  than one ends the command with the usage status; with a process identifier given,
  any number other than zero does.  In both cases the usage text is all that
  happens: nothing is listed, loaded or sent.
\<close>

theorem usage_error_on_argument_count:
  assumes "(pid d = 0 \<and> length args \<noteq> 1) \<or> (pid d \<noteq> 0 \<and> length args \<noteq> 0)"
  shows "Execute env root d args = (Returned ExitUsageError, [Call_Usage])"
  using assms by (auto simp: Execute_def resolve_def)

theorem usage_error_on_argument_count_witness:
  "((pid noFlags = 0 \<and> length ([] :: string list) \<noteq> 1) \<or>
     (pid noFlags \<noteq> 0 \<and> length ([] :: string list) \<noteq> 0)) \<and>
   Execute okEnv ''/run/a'' noFlags [] = (Returned ExitUsageError, [Call_Usage]) \<and>
   ((pid (noFlags\<lparr>pid := 42\<rparr>) = 0 \<and> length [''abc''] \<noteq> 1) \<or>
     (pid (noFlags\<lparr>pid := 42\<rparr>) \<noteq> 0 \<and> length [''abc''] \<noteq> 0)) \<and>
   Execute okEnv ''/run/a'' (noFlags\<lparr>pid := 42\<rparr>) [''abc''] =
     (Returned ExitUsageError, [Call_Usage])"
  using usage_error_on_argument_count [where d = noFlags and args = "[]" and env = okEnv
      and root = "''/run/a''"]
    usage_error_on_argument_count [where d = "noFlags\<lparr>pid := 42\<rparr>" and args = "[''abc'']"
      and env = okEnv and root = "''/run/a''"]
  by (simp add: noFlags_def)

subsection \<open>Signal delivery\<close>

lemma resolve_no_Kill: "resolve env root d args = (r, es) \<Longrightarrow> filter is_Kill es = []"
  by (auto simp: filter_empty_conv dest: resolve_kinds)

lemma checkRunning_no_Kill: "checkRunning env c = (r, es) \<Longrightarrow> filter is_Kill es = []"
  by (auto simp: filter_empty_conv dest: checkRunning_kinds)

lemma runDefers_no_Kill: "runDefers env d sb ds = (fatal, es) \<Longrightarrow> filter is_Kill es = []"
  by (auto simp: filter_empty_conv dest: runDefers_kinds)

lemma run_filter_empty:
  assumes "\<And>b e. b \<in> set bs \<Longrightarrow> e \<in> set (out b) \<Longrightarrow> \<not> P e"
  shows "filter P (out (run bs)) = []"
  using assms run_out by (fastforce simp: filter_empty_conv)

lemma sendSignal_Kill:
  "filter is_Kill (out (sendSignal env d sb)) =
     (if 0 < signal d then [Call_Kill (Pid sb) (signal d) (syscall_Kill env (Pid sb) (signal d))]
      else [])"
  by (simp add: sendSignal_def falls_def Errorf_def Let_def split: option.splits)

lemma mainSequence_Kill:
  "filter is_Kill (out (mainSequence env d sb)) = filter is_Kill (out (sendSignal env d sb))"
proof (cases "ret (sendSignal env d sb)")
  case None
  have "filter is_Kill (out (run [dumpStacks env d sb, heapProfile env d sb, cpuProfile env d sb,
          traceExecution env d sb, changeLogging env d sb])) = []"
    by (rule run_filter_empty)
       (auto dest: dumpStacks_kinds heapProfile_kinds cpuProfile_kinds traceExecution_kinds
               changeLogging_kinds)
  with None show ?thesis by (simp add: mainSequence_def Let_def)
next
  case (Some st)
  then show ?thesis by (simp add: mainSequence_def)
qed

lemma body_Kill:
  "body env d sb = (st, e2) \<Longrightarrow> filter is_Kill e2 = filter is_Kill (out (sendSignal env d sb))"
  by (auto simp: body_def Let_def mainSequence_Kill split: option.splits)

lemma Execute_Kill:
  assumes "resolve env root d args = (Inr c, e0)" and "checkRunning env c = (Inr sb, e1)"
  shows "filter is_Kill (snd (Execute env root d args)) = filter is_Kill (out (sendSignal env d sb))"
proof (cases rule: Execute_cases [of env root d args])
  case (resolve_failed st e0)
  with assms show ?thesis by simp
next
  case (not_running c e0 st e1)
  with assms show ?thesis by simp
next
  case (ran c' e0' sb' e1' st e2 fatal e3)
  with assms have [simp]: "c' = c" "sb' = sb" by simp_all
  from ran show ?thesis
    by (simp add: resolve_no_Kill checkRunning_no_Kill runDefers_no_Kill body_Kill)
qed

lemma Execute_no_Kill:
  assumes "signal d \<le> 0" and "e \<in> set (snd (Execute env root d args))"
  shows "\<not> is_Kill e"
proof (cases rule: Execute_cases [of env root d args])
  case (resolve_failed st e0)
  with assms show ?thesis by (auto dest: resolve_kinds)
next
  case (not_running c e0 st e1)
  with assms show ?thesis by (auto dest: resolve_kinds checkRunning_kinds)
next
  case (ran c e0 sb e1 st e2 fatal e3)
  have "filter is_Kill (snd (Execute env root d args)) = []"
    using Execute_Kill [OF ran(1,2)] assms(1) by (simp add: sendSignal_Kill)
  with assms(2) show ?thesis by (auto simp: filter_empty_conv)
qed

lemma Execute_Kill_failed:
  assumes "resolve env root d args = (Inr c, e0)" and "checkRunning env c = (Inr sb, e1)"
    and "0 < signal d" and "syscall_Kill env (Pid sb) (signal d) = Some err"
  shows "Execute env root d args =
           (Returned ExitFailure,
            e0 @ e1 @
            [Call_Infof ''Sending signal %d to process: %d'' [I (signal d), I (Pid sb)],
             Call_Kill (Pid sb) (signal d) (Some err),
             Call_Errorf ''failed to send signal %d to processs %d'' [I (signal d), I (Pid sb)]])"
proof -
  have b: "sendSignal env d sb =
             \<lparr>ret = Some ExitFailure,
              out = [Call_Infof ''Sending signal %d to process: %d'' [I (signal d), I (Pid sb)],
                     Call_Kill (Pid sb) (signal d) (Some err),
                     Call_Errorf ''failed to send signal %d to processs %d'' [I (signal d), I (Pid sb)]],
              defers = [], setDelay = False\<rparr>"
    using assms(3,4) by (simp add: sendSignal_def Errorf_def Let_def)
  have m: "mainSequence env d sb = sendSignal env d sb"
    by (simp add: mainSequence_def b)
  show ?thesis
    using assms(1,2) by (simp add: Execute_def body_def m b)
qed

text \<open>
  C8.  A signal that is not positive is never delivered, in no execution, and the
  signal block then falls through without an event: the step is skipped and is no
  error.  A positive signal, once the sandbox is resolved and running, is delivered
  exactly once, to the process identifier of that sandbox; if the delivery fails,
  the command returns the failure status right after reporting the signal number
  and the process identifier.
\<close>

theorem signal_delivery:
  "(signal d \<le> 0 \<longrightarrow>
      sendSignal env d sb = falls [] \<and>
      (\<forall>e\<in>set (snd (Execute env root d args)). \<not> is_Kill e))
   \<and> (0 < signal d \<and> resolve env root d args = (Inr c, e0) \<and> checkRunning env c = (Inr sb, e1) \<longrightarrow>
        filter is_Kill (snd (Execute env root d args)) =
          [Call_Kill (Pid sb) (signal d) (syscall_Kill env (Pid sb) (signal d))]
        \<and> (\<forall>err. syscall_Kill env (Pid sb) (signal d) = Some err \<longrightarrow>
              Execute env root d args =
                (Returned ExitFailure,
                 e0 @ e1 @
                 [Call_Infof ''Sending signal %d to process: %d'' [I (signal d), I (Pid sb)],
                  Call_Kill (Pid sb) (signal d) (Some err),
                  Call_Errorf ''failed to send signal %d to processs %d''
                    [I (signal d), I (Pid sb)]])))"
proof (intro conjI impI allI ballI)
  assume "signal d \<le> 0"
  then show "sendSignal env d sb = falls []" by (simp add: sendSignal_def)
next
  fix e
  assume "signal d \<le> 0" and "e \<in> set (snd (Execute env root d args))"
  then show "\<not> is_Kill e" by (rule Execute_no_Kill)
next
  assume h: "0 < signal d \<and> resolve env root d args = (Inr c, e0) \<and> checkRunning env c = (Inr sb, e1)"
  then show "filter is_Kill (snd (Execute env root d args)) =
          [Call_Kill (Pid sb) (signal d) (syscall_Kill env (Pid sb) (signal d))]"
    using Execute_Kill [of env root d args c e0 sb e1] by (simp add: sendSignal_Kill)
next
  fix err
  assume h: "0 < signal d \<and> resolve env root d args = (Inr c, e0) \<and> checkRunning env c = (Inr sb, e1)"
    and k: "syscall_Kill env (Pid sb) (signal d) = Some err"
  then show "Execute env root d args =
                (Returned ExitFailure,
                 e0 @ e1 @
                 [Call_Infof ''Sending signal %d to process: %d'' [I (signal d), I (Pid sb)],
                  Call_Kill (Pid sb) (signal d) (Some err),
                  Call_Errorf ''failed to send signal %d to processs %d''
                    [I (signal d), I (Pid sb)]])"
    using Execute_Kill_failed [of env root d args c e0 sb e1 err] by simp
qed

theorem signal_delivery_witness:
  "signal noFlags \<le> 0 \<and>
   filter is_Kill (snd (Execute okEnv ''/run/a'' noFlags [''abc''])) = [] \<and>
   0 < signal (noFlags\<lparr>signal := 9\<rparr>) \<and>
   resolve killFails ''/run/a'' (noFlags\<lparr>signal := 9\<rparr>) [''abc''] =
     (Inr \<lparr>Sandbox = Some sandbox_abc\<rparr>,
      [Call_Load ''/run/a'' ''abc'' (Inr \<lparr>Sandbox = Some sandbox_abc\<rparr>)]) \<and>
   checkRunning killFails \<lparr>Sandbox = Some sandbox_abc\<rparr> =
     (Inr sandbox_abc,
      [Call_IsRunning sandbox_abc True,
       Call_Infof ''Found sandbox %q, PID: %d'' [S ''abc'', I 42]]) \<and>
   syscall_Kill killFails (Pid sandbox_abc) 9 = Some ''operation not permitted'' \<and>
   filter is_Kill (snd (Execute killFails ''/run/a'' (noFlags\<lparr>signal := 9\<rparr>) [''abc''])) =
     [Call_Kill 42 9 (Some ''operation not permitted'')] \<and>
   Execute killFails ''/run/a'' (noFlags\<lparr>signal := 9\<rparr>) [''abc''] =
     (Returned ExitFailure,
      [Call_Load ''/run/a'' ''abc'' (Inr \<lparr>Sandbox = Some sandbox_abc\<rparr>),
       Call_IsRunning sandbox_abc True,
       Call_Infof ''Found sandbox %q, PID: %d'' [S ''abc'', I 42],
       Call_Infof ''Sending signal %d to process: %d'' [I 9, I 42],
       Call_Kill 42 9 (Some ''operation not permitted''),
       Call_Errorf ''failed to send signal %d to processs %d'' [I 9, I 42]])"
proof -
  have r: "resolve killFails ''/run/a'' (noFlags\<lparr>signal := 9\<rparr>) [''abc''] =
     (Inr \<lparr>Sandbox = Some sandbox_abc\<rparr>,
      [Call_Load ''/run/a'' ''abc'' (Inr \<lparr>Sandbox = Some sandbox_abc\<rparr>)])"
    by (simp add: resolve_def killFails_def okEnv_def noFlags_def sandbox_abc_def)
  have k: "checkRunning killFails \<lparr>Sandbox = Some sandbox_abc\<rparr> =
     (Inr sandbox_abc,
      [Call_IsRunning sandbox_abc True,
       Call_Infof ''Found sandbox %q, PID: %d'' [S ''abc'', I 42]])"
    by (simp add: checkRunning_def killFails_def okEnv_def sandbox_abc_def)
  have s: "syscall_Kill killFails (Pid sandbox_abc) 9 = Some ''operation not permitted''"
    by (simp add: killFails_def)
  show ?thesis
    using r k s
      signal_delivery [where d = noFlags and env = okEnv and root = "''/run/a''"
        and args = "[''abc'']"]
      signal_delivery [where d = "noFlags\<lparr>signal := 9\<rparr>" and env = killFails
        and root = "''/run/a''" and args = "[''abc'']" and sb = sandbox_abc
        and c = "\<lparr>Sandbox = Some sandbox_abc\<rparr>"]
    by (simp add: noFlags_def sandbox_abc_def filter_empty_conv)
qed

subsection \<open>Finding the sandbox by its process identifier\<close>

lemma scan_match:
  assumes "\<forall>x\<in>set pre. \<exists>c. container_Load env root x = Inr c \<and> SandboxPid env c \<noteq> p"
    and "container_Load env root cid = Inr c" and "SandboxPid env c = p"
  shows "scan env root p (pre @ cid # post) = (Inr (Some c), loads env root (pre @ [cid]))"
  using assms by (induction pre) (auto simp: loads_def)

lemma scan_load_failed:
  assumes "\<forall>x\<in>set pre. \<exists>c. container_Load env root x = Inr c \<and> SandboxPid env c \<noteq> p"
    and "container_Load env root cid = Inl err"
  shows "scan env root p (pre @ cid # post) =
           (Inl ExitFailure,
            loads env root (pre @ [cid]) @
            [Call_Errorf ''loading container %q: %v'' [S cid, S err]])"
  using assms by (induction pre) (auto simp: loads_def)

lemma scan_no_match:
  assumes "\<forall>x\<in>set ids. \<exists>c. container_Load env root x = Inr c \<and> SandboxPid env c \<noteq> p"
  shows "scan env root p ids = (Inr None, loads env root ids)"
  using assms by (induction ids) (auto simp: loads_def)

lemma after_resolve_no_Load:
  assumes "resolve env root d args = (Inr c, e0)"
  shows "\<exists>rest. snd (Execute env root d args) = e0 @ rest \<and> filter is_Load rest = []"
proof (cases rule: Execute_cases [of env root d args])
  case (resolve_failed st e0)
  with assms show ?thesis by simp
next
  case (not_running c' e0' st e1)
  with assms show ?thesis
    by (auto simp: filter_empty_conv dest: checkRunning_kinds)
next
  case (ran c' e0' sb e1 st e2 fatal e3)
  have "filter is_Load (e1 @ e2 @ e3) = []"
  proof -
    have "\<not> is_Load e" if "e \<in> set e1" for e
      using checkRunning_kinds [OF ran(2) that] by auto
    moreover have "\<not> is_Load e" if "e \<in> set e2" for e
      using body_events [OF ran(3) that] mainSequence_kinds [of e env d sb] by auto
    moreover have "\<not> is_Load e" if "e \<in> set e3" for e
      using runDefers_kinds [OF ran(4) that] by auto
    ultimately show ?thesis by (auto simp: filter_empty_conv)
  qed
  with assms ran show ?thesis by simp
qed

text \<open>
  C4.  With a process identifier given and no positional argument, the identifiers
  under the root directory are listed and loaded in their order.  The first
  container whose sandbox has the requested process identifier is the one selected,
  and no identifier after it is loaded, neither by the scan nor later in the
  execution.  An identifier that cannot be loaded before any match ends the command
  with the failure status, after the loads up to it.  When every identifier loads
  and none matches, the command fails with the message that no container has that
  process identifier.
\<close>

theorem pid_scan:
  assumes "pid d \<noteq> 0" and "container_List env root = Inr ids"
  shows
    "(ids = pre @ cid # post \<and>
      (\<forall>x\<in>set pre. \<exists>c'. container_Load env root x = Inr c' \<and> SandboxPid env c' \<noteq> pid d) \<and>
      container_Load env root cid = Inr c \<and> SandboxPid env c = pid d \<longrightarrow>
        resolve env root d [] =
          (Inr c, Call_List root (Inr ids) # loads env root (pre @ [cid])) \<and>
        (\<exists>rest. snd (Execute env root d []) =
                  (Call_List root (Inr ids) # loads env root (pre @ [cid])) @ rest \<and>
                filter is_Load rest = [])) \<and>
     (ids = pre @ cid # post \<and>
      (\<forall>x\<in>set pre. \<exists>c'. container_Load env root x = Inr c' \<and> SandboxPid env c' \<noteq> pid d) \<and>
      container_Load env root cid = Inl err \<longrightarrow>
        Execute env root d [] =
          (Returned ExitFailure,
           Call_List root (Inr ids) # loads env root (pre @ [cid]) @
           [Call_Errorf ''loading container %q: %v'' [S cid, S err]])) \<and>
     ((\<forall>x\<in>set ids. \<exists>c'. container_Load env root x = Inr c' \<and> SandboxPid env c' \<noteq> pid d) \<longrightarrow>
        Execute env root d [] =
          (Returned ExitFailure,
           Call_List root (Inr ids) # loads env root ids @
           [Call_Errorf ''container with PID %d not found'' [I (pid d)]]))"
proof (intro conjI impI)
  assume h: "ids = pre @ cid # post \<and>
      (\<forall>x\<in>set pre. \<exists>c'. container_Load env root x = Inr c' \<and> SandboxPid env c' \<noteq> pid d) \<and>
      container_Load env root cid = Inr c \<and> SandboxPid env c = pid d"
  then have s: "scan env root (pid d) ids = (Inr (Some c), loads env root (pre @ [cid]))"
    using scan_match [of pre env root "pid d" cid c post] by simp
  with assms show r: "resolve env root d [] =
          (Inr c, Call_List root (Inr ids) # loads env root (pre @ [cid]))"
    by (simp add: resolve_def)
  from after_resolve_no_Load [OF r]
  show "\<exists>rest. snd (Execute env root d []) =
                  (Call_List root (Inr ids) # loads env root (pre @ [cid])) @ rest \<and>
                filter is_Load rest = []" .
next
  assume h: "ids = pre @ cid # post \<and>
      (\<forall>x\<in>set pre. \<exists>c'. container_Load env root x = Inr c' \<and> SandboxPid env c' \<noteq> pid d) \<and>
      container_Load env root cid = Inl err"
  then have "scan env root (pid d) ids =
           (Inl ExitFailure,
            loads env root (pre @ [cid]) @
            [Call_Errorf ''loading container %q: %v'' [S cid, S err]])"
    using scan_load_failed [of pre env root "pid d" cid err post] by simp
  with assms show "Execute env root d [] =
          (Returned ExitFailure,
           Call_List root (Inr ids) # loads env root (pre @ [cid]) @
           [Call_Errorf ''loading container %q: %v'' [S cid, S err]])"
    by (simp add: Execute_def resolve_def)
next
  assume "\<forall>x\<in>set ids. \<exists>c'. container_Load env root x = Inr c' \<and> SandboxPid env c' \<noteq> pid d"
  then have "scan env root (pid d) ids = (Inr None, loads env root ids)"
    by (rule scan_no_match)
  with assms show "Execute env root d [] =
          (Returned ExitFailure,
           Call_List root (Inr ids) # loads env root ids @
           [Call_Errorf ''container with PID %d not found'' [I (pid d)]])"
    by (simp add: Execute_def resolve_def)
qed
theorem pid_scan_witness:
  "pid (noFlags\<lparr>pid := 42\<rparr>) \<noteq> 0 \<and>
   container_List okEnv ''/run/a'' = Inr [''x'', ''abc'', ''z''] \<and>
   container_Load okEnv ''/run/a'' ''x'' = Inr \<lparr>Sandbox = Some \<lparr>ID = ''x'', Pid = 7\<rparr>\<rparr> \<and>
   SandboxPid okEnv \<lparr>Sandbox = Some \<lparr>ID = ''x'', Pid = 7\<rparr>\<rparr> \<noteq> 42 \<and>
   container_Load okEnv ''/run/a'' ''abc'' = Inr \<lparr>Sandbox = Some sandbox_abc\<rparr> \<and>
   SandboxPid okEnv \<lparr>Sandbox = Some sandbox_abc\<rparr> = 42 \<and>
   resolve okEnv ''/run/a'' (noFlags\<lparr>pid := 42\<rparr>) [] =
     (Inr \<lparr>Sandbox = Some sandbox_abc\<rparr>,
      [Call_List ''/run/a'' (Inr [''x'', ''abc'', ''z'']),
       Call_Load ''/run/a'' ''x'' (Inr \<lparr>Sandbox = Some \<lparr>ID = ''x'', Pid = 7\<rparr>\<rparr>),
       Call_Load ''/run/a'' ''abc'' (Inr \<lparr>Sandbox = Some sandbox_abc\<rparr>)]) \<and>
   filter is_Load (snd (Execute okEnv ''/run/a'' (noFlags\<lparr>pid := 42\<rparr>) [])) =
     [Call_Load ''/run/a'' ''x'' (Inr \<lparr>Sandbox = Some \<lparr>ID = ''x'', Pid = 7\<rparr>\<rparr>),
      Call_Load ''/run/a'' ''abc'' (Inr \<lparr>Sandbox = Some sandbox_abc\<rparr>)] \<and>
   container_Load okEnv ''/run/a'' ''z'' = Inl ''file does not exist'' \<and>
   Execute okEnv ''/run/a'' (noFlags\<lparr>pid := 99\<rparr>) [] =
     (Returned ExitFailure,
      [Call_List ''/run/a'' (Inr [''x'', ''abc'', ''z'']),
       Call_Load ''/run/a'' ''x'' (Inr \<lparr>Sandbox = Some \<lparr>ID = ''x'', Pid = 7\<rparr>\<rparr>),
       Call_Load ''/run/a'' ''abc'' (Inr \<lparr>Sandbox = Some sandbox_abc\<rparr>),
       Call_Load ''/run/a'' ''z'' (Inl ''file does not exist''),
       Call_Errorf ''loading container %q: %v'' [S ''z'', S ''file does not exist'']]) \<and>
   container_List okEnv ''/run/b'' = Inr [''x'', ''abc''] \<and>
   Execute okEnv ''/run/b'' (noFlags\<lparr>pid := 99\<rparr>) [] =
     (Returned ExitFailure,
      [Call_List ''/run/b'' (Inr [''x'', ''abc'']),
       Call_Load ''/run/b'' ''x'' (Inr \<lparr>Sandbox = Some \<lparr>ID = ''x'', Pid = 7\<rparr>\<rparr>),
       Call_Load ''/run/b'' ''abc'' (Inr \<lparr>Sandbox = Some sandbox_abc\<rparr>),
       Call_Errorf ''container with PID %d not found'' [I 99]])"
proof -
  have l: "container_List okEnv ''/run/a'' = Inr [''x'', ''abc'', ''z'']"
    "container_List okEnv ''/run/b'' = Inr [''x'', ''abc'']"
    by (simp_all add: okEnv_def)
  have x: "container_Load okEnv r ''x'' = Inr \<lparr>Sandbox = Some \<lparr>ID = ''x'', Pid = 7\<rparr>\<rparr>"
    "container_Load okEnv r ''abc'' = Inr \<lparr>Sandbox = Some sandbox_abc\<rparr>"
    "container_Load okEnv r ''z'' = Inl ''file does not exist''" for r
    by (simp_all add: okEnv_def sandbox_abc_def)
  have p: "SandboxPid okEnv \<lparr>Sandbox = Some \<lparr>ID = ''x'', Pid = 7\<rparr>\<rparr> = 7"
    "SandboxPid okEnv \<lparr>Sandbox = Some sandbox_abc\<rparr> = 42"
    by (simp_all add: okEnv_def sandbox_abc_def)
  have a: "resolve okEnv ''/run/a'' (noFlags\<lparr>pid := 42\<rparr>) [] =
     (Inr \<lparr>Sandbox = Some sandbox_abc\<rparr>,
      [Call_List ''/run/a'' (Inr [''x'', ''abc'', ''z'']),
       Call_Load ''/run/a'' ''x'' (Inr \<lparr>Sandbox = Some \<lparr>ID = ''x'', Pid = 7\<rparr>\<rparr>),
       Call_Load ''/run/a'' ''abc'' (Inr \<lparr>Sandbox = Some sandbox_abc\<rparr>)])"
    and a': "\<exists>rest. snd (Execute okEnv ''/run/a'' (noFlags\<lparr>pid := 42\<rparr>) []) =
       ([Call_List ''/run/a'' (Inr [''x'', ''abc'', ''z'']),
       Call_Load ''/run/a'' ''x'' (Inr \<lparr>Sandbox = Some \<lparr>ID = ''x'', Pid = 7\<rparr>\<rparr>),
       Call_Load ''/run/a'' ''abc'' (Inr \<lparr>Sandbox = Some sandbox_abc\<rparr>)]) @ rest \<and>
       filter is_Load rest = []"
    using pid_scan [where d = "noFlags\<lparr>pid := 42\<rparr>" and env = okEnv and root = "''/run/a''"
        and ids = "[''x'', ''abc'', ''z'']" and pre = "[''x'']" and cid = "''abc''"
        and post = "[''z'']" and c = "\<lparr>Sandbox = Some sandbox_abc\<rparr>"]
    by (simp_all add: l x p loads_def noFlags_def)
  have b: "Execute okEnv ''/run/a'' (noFlags\<lparr>pid := 99\<rparr>) [] =
     (Returned ExitFailure,
      [Call_List ''/run/a'' (Inr [''x'', ''abc'', ''z'']),
       Call_Load ''/run/a'' ''x'' (Inr \<lparr>Sandbox = Some \<lparr>ID = ''x'', Pid = 7\<rparr>\<rparr>),
       Call_Load ''/run/a'' ''abc'' (Inr \<lparr>Sandbox = Some sandbox_abc\<rparr>),
       Call_Load ''/run/a'' ''z'' (Inl ''file does not exist''),
       Call_Errorf ''loading container %q: %v'' [S ''z'', S ''file does not exist'']])"
    using pid_scan [where d = "noFlags\<lparr>pid := 99\<rparr>" and env = okEnv and root = "''/run/a''"
        and ids = "[''x'', ''abc'', ''z'']" and pre = "[''x'', ''abc'']" and cid = "''z''"
        and post = "[]" and err = "''file does not exist''"]
    by (simp add: l x p loads_def noFlags_def)
  have c: "Execute okEnv ''/run/b'' (noFlags\<lparr>pid := 99\<rparr>) [] =
     (Returned ExitFailure,
      [Call_List ''/run/b'' (Inr [''x'', ''abc'']),
       Call_Load ''/run/b'' ''x'' (Inr \<lparr>Sandbox = Some \<lparr>ID = ''x'', Pid = 7\<rparr>\<rparr>),
       Call_Load ''/run/b'' ''abc'' (Inr \<lparr>Sandbox = Some sandbox_abc\<rparr>),
       Call_Errorf ''container with PID %d not found'' [I 99]])"
    using pid_scan [where d = "noFlags\<lparr>pid := 99\<rparr>" and env = okEnv and root = "''/run/b''"
        and ids = "[''x'', ''abc'']"]
    by (simp add: l x p loads_def noFlags_def)
  from a' have f: "filter is_Load (snd (Execute okEnv ''/run/a'' (noFlags\<lparr>pid := 42\<rparr>) [])) =
     [Call_Load ''/run/a'' ''x'' (Inr \<lparr>Sandbox = Some \<lparr>ID = ''x'', Pid = 7\<rparr>\<rparr>),
      Call_Load ''/run/a'' ''abc'' (Inr \<lparr>Sandbox = Some sandbox_abc\<rparr>)]"
    by auto
  show ?thesis
    using a b c f by (simp add: l x p noFlags_def)
qed

subsection \<open>Splitting at a separator\<close>

lemma Split_not_Nil: "strings_Split s sep \<noteq> []"
  by (induction s) (auto split: list.splits)

lemma Join_Split: "strings_Join (strings_Split s sep) sep = s"
proof (induction s)
  case Nil
  then show ?case by simp
next
  case (Cons c cs)
  obtain x xs where x: "strings_Split cs sep = x # xs"
    using Split_not_Nil [of cs sep] by (cases "strings_Split cs sep") auto
  with Cons show ?case by (cases xs) auto
qed

lemma Split_no_sep: "w \<in> set (strings_Split s sep) \<Longrightarrow> sep \<notin> set w"
  by (induction s arbitrary: w) (auto split: list.splits if_splits)

lemma length_Split: "length (strings_Split s sep) = Suc (count_list s sep)"
  by (induction s) (auto split: list.splits simp: Split_not_Nil)

lemma Split_unique:
  assumes "strings_Join ws sep = s" and "\<forall>w\<in>set ws. sep \<notin> set w" and "ws \<noteq> []"
  shows "ws = strings_Split s sep"
  using assms
proof (induction s arbitrary: ws)
  case Nil
  then show ?case
    by (cases "(ws, sep)" rule: strings_Join.cases) auto
next
  case (Cons c cs)
  show ?case
  proof (cases "(ws, sep)" rule: strings_Join.cases)
    case (1 sep')
    with Cons.prems show ?thesis by simp
  next
    case (2 x sep')
    with Cons.prems have x: "x = c # cs" "sep \<notin> set (c # cs)" by auto
    then have "strings_Join [cs] sep = cs" "\<forall>w\<in>set [cs]. sep \<notin> set w" by auto
    from Cons.IH [OF this] have "strings_Split cs sep = [cs]" by simp
    with 2 x show ?thesis by auto
  next
    case (3 x y ys sep')
    show ?thesis
    proof (cases x)
      case Nil
      with 3 Cons.prems have "c = sep" "strings_Join (y # ys) sep = cs" by auto
      moreover from 3 Cons.prems have "\<forall>w\<in>set (y # ys). sep \<notin> set w" by auto
      ultimately have "y # ys = strings_Split cs sep" using Cons.IH by blast
      with 3 Nil \<open>c = sep\<close> show ?thesis by simp
    next
      case (Cons a x')
      with 3 Cons.prems have a: "a = c" "strings_Join (x' # y # ys) sep = cs" "c \<noteq> sep"
        by auto
      moreover from 3 Cons Cons.prems have "\<forall>w\<in>set (x' # y # ys). sep \<notin> set w" by auto
      ultimately have "x' # y # ys = strings_Split cs sep" using Cons.IH by blast
      then show ?thesis using 3 Cons a by (auto split: list.splits)
    qed
  qed
qed

subsection \<open>The logging arguments that are sent\<close>

lemma changeLogging_sent:
  assumes "Call_ChangeLogging sb' args r \<in> set (out (changeLogging env d sb))"
  shows "sb' = sb" and "r = ChangeLogging env sb args" and "SetStrace args"
    and "EnableStrace args \<longleftrightarrow> strace d \<noteq> '''' \<and> strings_ToLower env (strace d) \<noteq> ''off''"
    and "StraceWhitelist args =
           (if strace d \<noteq> '''' \<and> strings_ToLower env (strace d) \<noteq> ''off'' \<and>
               strings_ToLower env (strace d) \<noteq> ''all''
            then strings_Split (strace d) CHR '','' else [])"
    and "SetLevel args \<longleftrightarrow> logLevel d \<noteq> ''''"
    and "logLevel d \<noteq> '''' \<Longrightarrow> parseLevel (strings_ToLower env (logLevel d)) = Some (Level args)"
    and "SetLogPackets args \<longleftrightarrow> logPackets d \<noteq> ''''"
    and "logPackets d \<noteq> '''' \<Longrightarrow> strconv_ParseBool (logPackets d) = Inr (LogPackets args)"
  using assms
  by (auto simp: changeLogging_def straceArgs_def levelArgs_def packetsArgs_def initialArgs_def
        falls_def Errorf_def Let_def
      split: if_splits option.splits sum.splits prod.splits)

lemma Execute_ChangeLogging:
  assumes "Call_ChangeLogging sb args r \<in> set (snd (Execute env root d as))"
  shows "Call_ChangeLogging sb args r \<in> set (out (changeLogging env d sb))"
proof (cases rule: Execute_cases [of env root d as])
  case (resolve_failed st e0)
  with assms show ?thesis by (auto dest: resolve_kinds)
next
  case (not_running c e0 st e1)
  with assms show ?thesis by (auto dest: resolve_kinds checkRunning_kinds)
next
  case (ran c e0 sb0 e1 st e2 fatal e3)
  let ?e = "Call_ChangeLogging sb args r"
  have "?e \<notin> set e0" using resolve_kinds [OF ran(1), of ?e] by auto
  moreover have "?e \<notin> set e1" using checkRunning_kinds [OF ran(2), of ?e] by auto
  moreover have "?e \<notin> set e3" using runDefers_kinds [OF ran(4), of ?e] by auto
  ultimately have "?e \<in> set e2" using assms ran(5) by auto
  then have "?e \<in> set (out (mainSequence env d sb0))"
    using body_events [OF ran(3)] by auto
  then have m: "?e \<in> set (out (changeLogging env d sb0))"
    using mainSequence_out [of ?e env d sb0]
      sendSignal_kinds [of ?e env d sb0] dumpStacks_kinds [of ?e env d sb0]
      heapProfile_kinds [of ?e env d sb0] cpuProfile_kinds [of ?e env d sb0]
      traceExecution_kinds [of ?e env d sb0]
    by auto
  from changeLogging_sent(1) [OF m] m show ?thesis by simp
qed

text \<open>Evaluating the function in the concrete world.\<close>

lemmas exec_defs =
  Execute_def resolve_def checkRunning_def body_def mainSequence_def sendSignal_def
  dumpStacks_def heapProfile_def cpuProfile_def traceExecution_def changeLogging_def
  straceArgs_def levelArgs_def packetsArgs_def initialArgs_def parseLevel_def
  strconv_ParseBool_def falls_def Errorf_def sleepDuration_def wrap64_def Let_def

lemma ToLower_examples:
  "strings_ToLower env ''read,write'' = ''read,write''"
  "strings_ToLower env ''OFF'' = ''off''"
  "strings_ToLower env ''All'' = ''all''"
  "strings_ToLower env ''A, B,'' = ''a, b,''"
  "strings_ToLower env ''DEBUG'' = ''debug''"
  "strings_ToLower env ''Info'' = ''info''"
  "strings_ToLower env ''info'' = ''info''"
  "strings_ToLower env ''0'' = ''0''"
  "strings_ToLower env ''bogus'' = ''bogus''"
  unfolding strings_ToLower_def by code_simp+

lemma run_strace_list:
  "Execute okEnv ''/run/a'' (noFlags\<lparr>strace := ''read,write''\<rparr>) [''abc''] =
     (Returned ExitSuccess,
      [Call_Load ''/run/a'' ''abc'' (Inr \<lparr>Sandbox = Some sandbox_abc\<rparr>),
       Call_IsRunning sandbox_abc True,
       Call_Infof ''Found sandbox %q, PID: %d'' [S ''abc'', I 42],
       Call_Infof ''Enabling strace for syscalls: %s'' [S ''read,write''],
       Call_ChangeLogging sandbox_abc
         \<lparr>SetLevel = False, Level = Warning, SetLogPackets = False, LogPackets = False,
          SetStrace = True, EnableStrace = True, StraceWhitelist = [''read'', ''write'']\<rparr> None,
       Call_Infof ''Logging options changed'' []])"
  by (simp add: exec_defs okEnv_def noFlags_def sandbox_abc_def ToLower_examples)

lemma run_strace_off:
  "Execute okEnv ''/run/a'' (noFlags\<lparr>strace := ''OFF''\<rparr>) [''abc''] =
     (Returned ExitSuccess,
      [Call_Load ''/run/a'' ''abc'' (Inr \<lparr>Sandbox = Some sandbox_abc\<rparr>),
       Call_IsRunning sandbox_abc True,
       Call_Infof ''Found sandbox %q, PID: %d'' [S ''abc'', I 42],
       Call_Infof ''Disabling strace'' [],
       Call_ChangeLogging sandbox_abc
         \<lparr>SetLevel = False, Level = Warning, SetLogPackets = False, LogPackets = False,
          SetStrace = True, EnableStrace = False, StraceWhitelist = []\<rparr> None,
       Call_Infof ''Logging options changed'' []])"
  by (simp add: exec_defs okEnv_def noFlags_def sandbox_abc_def ToLower_examples)

lemma run_strace_all:
  "Execute okEnv ''/run/a'' (noFlags\<lparr>strace := ''All''\<rparr>) [''abc''] =
     (Returned ExitSuccess,
      [Call_Load ''/run/a'' ''abc'' (Inr \<lparr>Sandbox = Some sandbox_abc\<rparr>),
       Call_IsRunning sandbox_abc True,
       Call_Infof ''Found sandbox %q, PID: %d'' [S ''abc'', I 42],
       Call_Infof ''Enabling all straces'' [],
       Call_ChangeLogging sandbox_abc
         \<lparr>SetLevel = False, Level = Warning, SetLogPackets = False, LogPackets = False,
          SetStrace = True, EnableStrace = True, StraceWhitelist = []\<rparr> None,
       Call_Infof ''Logging options changed'' []])"
  by (simp add: exec_defs okEnv_def noFlags_def sandbox_abc_def ToLower_examples)

lemma run_strace_spaces:
  "Execute okEnv ''/run/a'' (noFlags\<lparr>strace := ''A, B,''\<rparr>) [''abc''] =
     (Returned ExitSuccess,
      [Call_Load ''/run/a'' ''abc'' (Inr \<lparr>Sandbox = Some sandbox_abc\<rparr>),
       Call_IsRunning sandbox_abc True,
       Call_Infof ''Found sandbox %q, PID: %d'' [S ''abc'', I 42],
       Call_Infof ''Enabling strace for syscalls: %s'' [S ''A, B,''],
       Call_ChangeLogging sandbox_abc
         \<lparr>SetLevel = False, Level = Warning, SetLogPackets = False, LogPackets = False,
          SetStrace = True, EnableStrace = True, StraceWhitelist = [''A'', '' B'', '''']\<rparr> None,
       Call_Infof ''Logging options changed'' []])"
  by (simp add: exec_defs okEnv_def noFlags_def sandbox_abc_def ToLower_examples)

text \<open>
  C7.  With a strace value given, every logging change that an execution sends has
  the strace flag set.  When the lower-cased value is \<open>off\<close>, strace is not enabled;
  when it is \<open>all\<close>, strace is enabled with an empty whitelist; for any other value
  strace is enabled and the whitelist is the value split at its commas.
\<close>

theorem strace_spec:
  assumes "strace d \<noteq> ''''"
    and "Call_ChangeLogging sb args r \<in> set (snd (Execute env root d as))"
  shows "SetStrace args \<and>
         (strings_ToLower env (strace d) = ''off'' \<longrightarrow> \<not> EnableStrace args) \<and>
         (strings_ToLower env (strace d) = ''all'' \<longrightarrow>
            EnableStrace args \<and> StraceWhitelist args = []) \<and>
         (strings_ToLower env (strace d) \<noteq> ''off'' \<and> strings_ToLower env (strace d) \<noteq> ''all'' \<longrightarrow>
            EnableStrace args \<and> StraceWhitelist args = strings_Split (strace d) CHR '','')"
  using changeLogging_sent(3,4,5) [OF Execute_ChangeLogging [OF assms(2)]] assms(1)
  by simp

theorem strace_spec_witness:
  "strace (noFlags\<lparr>strace := ''OFF''\<rparr>) \<noteq> '''' \<and>
   strings_ToLower okEnv (strace (noFlags\<lparr>strace := ''OFF''\<rparr>)) = ''off'' \<and>
   filter is_ChangeLogging (snd (Execute okEnv ''/run/a'' (noFlags\<lparr>strace := ''OFF''\<rparr>) [''abc''])) =
     [Call_ChangeLogging sandbox_abc
       \<lparr>SetLevel = False, Level = Warning, SetLogPackets = False, LogPackets = False,
        SetStrace = True, EnableStrace = False, StraceWhitelist = []\<rparr> None] \<and>
   strace (noFlags\<lparr>strace := ''All''\<rparr>) \<noteq> '''' \<and>
   strings_ToLower okEnv (strace (noFlags\<lparr>strace := ''All''\<rparr>)) = ''all'' \<and>
   filter is_ChangeLogging (snd (Execute okEnv ''/run/a'' (noFlags\<lparr>strace := ''All''\<rparr>) [''abc''])) =
     [Call_ChangeLogging sandbox_abc
       \<lparr>SetLevel = False, Level = Warning, SetLogPackets = False, LogPackets = False,
        SetStrace = True, EnableStrace = True, StraceWhitelist = []\<rparr> None] \<and>
   strace (noFlags\<lparr>strace := ''read,write''\<rparr>) \<noteq> '''' \<and>
   strings_ToLower okEnv (strace (noFlags\<lparr>strace := ''read,write''\<rparr>)) \<noteq> ''off'' \<and>
   strings_ToLower okEnv (strace (noFlags\<lparr>strace := ''read,write''\<rparr>)) \<noteq> ''all'' \<and>
   filter is_ChangeLogging
     (snd (Execute okEnv ''/run/a'' (noFlags\<lparr>strace := ''read,write''\<rparr>) [''abc''])) =
     [Call_ChangeLogging sandbox_abc
       \<lparr>SetLevel = False, Level = Warning, SetLogPackets = False, LogPackets = False,
        SetStrace = True, EnableStrace = True, StraceWhitelist = [''read'', ''write'']\<rparr> None]"
proof -
  note t1 = strace_spec [where d = "noFlags\<lparr>strace := ''OFF''\<rparr>" and env = okEnv
      and root = "''/run/a''" and as = "[''abc'']" and sb = sandbox_abc and r = None
      and args = "\<lparr>SetLevel = False, Level = Warning, SetLogPackets = False, LogPackets = False,
        SetStrace = True, EnableStrace = False, StraceWhitelist = []\<rparr>"]
  note t2 = strace_spec [where d = "noFlags\<lparr>strace := ''All''\<rparr>" and env = okEnv
      and root = "''/run/a''" and as = "[''abc'']" and sb = sandbox_abc and r = None
      and args = "\<lparr>SetLevel = False, Level = Warning, SetLogPackets = False, LogPackets = False,
        SetStrace = True, EnableStrace = True, StraceWhitelist = []\<rparr>"]
  note t3 = strace_spec [where d = "noFlags\<lparr>strace := ''read,write''\<rparr>" and env = okEnv
      and root = "''/run/a''" and as = "[''abc'']" and sb = sandbox_abc and r = None
      and args = "\<lparr>SetLevel = False, Level = Warning, SetLogPackets = False, LogPackets = False,
        SetStrace = True, EnableStrace = True, StraceWhitelist = [''read'', ''write'']\<rparr>"]
  show ?thesis
    using t1 t2 t3
    by (simp add: run_strace_off run_strace_all run_strace_list ToLower_examples)
qed

text \<open>
  C10.  For a strace value that is neither \<open>off\<close> nor \<open>all\<close> in lower case, the
  whitelist that is sent is made of the pieces of the value as it was typed: joined
  again with commas the entries give back the value, byte for byte, so that order,
  letter case and blanks are kept; no entry holds a comma; there is one entry more
  than there are commas, so that two commas in a row or a comma at the end give
  empty entries; and no other list has these properties.
\<close>

theorem strace_whitelist_entries:
  assumes "strace d \<noteq> ''''"
    and "strings_ToLower env (strace d) \<noteq> ''off''"
    and "strings_ToLower env (strace d) \<noteq> ''all''"
    and "Call_ChangeLogging sb args r \<in> set (snd (Execute env root d as))"
  shows "strings_Join (StraceWhitelist args) CHR '','' = strace d \<and>
         (\<forall>w\<in>set (StraceWhitelist args). CHR '','' \<notin> set w) \<and>
         length (StraceWhitelist args) = Suc (count_list (strace d) CHR '','') \<and>
         (\<forall>ws. ws \<noteq> [] \<and> strings_Join ws CHR '','' = strace d \<and>
               (\<forall>w\<in>set ws. CHR '','' \<notin> set w) \<longrightarrow> ws = StraceWhitelist args)"
proof -
  have w: "StraceWhitelist args = strings_Split (strace d) CHR '',''"
    using changeLogging_sent(5) [OF Execute_ChangeLogging [OF assms(4)]] assms(1,2,3) by simp
  show ?thesis
    unfolding w
    using Split_unique [of _ "CHR '',''" "strace d"]
    by (auto simp: Join_Split length_Split dest: Split_no_sep)
qed

theorem strace_whitelist_entries_witness:
  "strace (noFlags\<lparr>strace := ''A, B,''\<rparr>) \<noteq> '''' \<and>
   strings_ToLower okEnv (strace (noFlags\<lparr>strace := ''A, B,''\<rparr>)) \<noteq> ''off'' \<and>
   strings_ToLower okEnv (strace (noFlags\<lparr>strace := ''A, B,''\<rparr>)) \<noteq> ''all'' \<and>
   filter is_ChangeLogging
     (snd (Execute okEnv ''/run/a'' (noFlags\<lparr>strace := ''A, B,''\<rparr>) [''abc''])) =
     [Call_ChangeLogging sandbox_abc
       \<lparr>SetLevel = False, Level = Warning, SetLogPackets = False, LogPackets = False,
        SetStrace = True, EnableStrace = True, StraceWhitelist = [''A'', '' B'', '''']\<rparr> None] \<and>
   strings_Join [''A'', '' B'', ''''] CHR '','' = ''A, B,'' \<and>
   length [''A'', '' B'', ''''] = Suc (count_list ''A, B,'' CHR '','')"
proof -
  note t = strace_whitelist_entries [where d = "noFlags\<lparr>strace := ''A, B,''\<rparr>"
      and env = okEnv and root = "''/run/a''" and as = "[''abc'']" and sb = sandbox_abc
      and r = None
      and args = "\<lparr>SetLevel = False, Level = Warning, SetLogPackets = False, LogPackets = False,
        SetStrace = True, EnableStrace = True, StraceWhitelist = [''A'', '' B'', '''']\<rparr>"]
  show ?thesis
    using t by (simp add: run_strace_spaces ToLower_examples)
qed

subsection \<open>A start request that fails\<close>

lemma run_Cons_None:
  "ret b = None \<Longrightarrow>
     run (b # bs) =
       \<lparr>ret = ret (run bs), out = out b @ out (run bs), defers = defers (run bs) @ defers b,
        setDelay = (setDelay b \<or> setDelay (run bs))\<rparr>"
  by (simp add: Let_def)

lemma run_Cons_Some: "ret b \<noteq> None \<Longrightarrow> run (b # bs) = b"
  by auto

lemma sendSignal_defers [simp]: "defers (sendSignal env d sb) = []"
  by (simp add: sendSignal_def falls_def Errorf_def Let_def split: option.splits)

lemma dumpStacks_defers [simp]: "defers (dumpStacks env d sb) = []"
  by (simp add: dumpStacks_def falls_def Errorf_def Let_def split: sum.splits)

lemma changeLogging_defers [simp]: "defers (changeLogging env d sb) = []"
  by (simp add: changeLogging_def falls_def Errorf_def Let_def
      split: sum.splits option.splits prod.splits)

lemma cpuProfile_start_failed:
  assumes "Call_StartCPUProfile sb' f (Some err) \<in> set (out (cpuProfile env d sb))"
  shows "sb' = sb"
    and "cpuProfile env d sb =
           \<lparr>ret = Some ExitFailure,
            out = [Call_Create (profileCPU d) (Inr f), Call_StartCPUProfile sb f (Some err),
                   Call_Errorf err []],
            defers = [CPUCleanup f], setDelay = True\<rparr>"
  using assms
  by (auto simp: cpuProfile_def falls_def Errorf_def Let_def
      split: if_splits sum.splits option.splits)

lemma traceExecution_start_failed:
  assumes "Call_StartTrace sb' f (Some err) \<in> set (out (traceExecution env d sb))"
  shows "sb' = sb"
    and "traceExecution env d sb =
           \<lparr>ret = Some ExitFailure,
            out = [Call_Create (trace d) (Inr f), Call_StartTrace sb f (Some err),
                   Call_Errorf err []],
            defers = [TraceCleanup f], setDelay = True\<rparr>"
  using assms
  by (auto simp: traceExecution_def falls_def Errorf_def Let_def
      split: if_splits sum.splits option.splits)

text \<open>An event of the main sequence that only one block emits was emitted by that block,
  and the blocks before it fell through.\<close>

lemma in_mainSequence_cpu:
  assumes "e \<in> set (out (mainSequence env d sb))" and "is_StartCPUProfile e"
  shows "e \<in> set (out (cpuProfile env d sb)) \<and>
         ret (sendSignal env d sb) = None \<and> ret (dumpStacks env d sb) = None \<and>
         ret (heapProfile env d sb) = None"
proof -
  have n: "e \<notin> set (out (sendSignal env d sb))" "e \<notin> set (out (dumpStacks env d sb))"
    "e \<notin> set (out (heapProfile env d sb))" "e \<notin> set (out (traceExecution env d sb))"
    "e \<notin> set (out (changeLogging env d sb))"
    using assms(2) sendSignal_kinds [of e env d sb] dumpStacks_kinds [of e env d sb]
      heapProfile_kinds [of e env d sb] traceExecution_kinds [of e env d sb]
      changeLogging_kinds [of e env d sb]
    by auto
  have c: "e \<in> set (out (cpuProfile env d sb))"
    using mainSequence_out [OF assms(1)] n by auto
  have 1: "ret (sendSignal env d sb) = None"
    using assms(1) n(1) by (cases "ret (sendSignal env d sb)") (auto simp: mainSequence_def)
  have 2: "ret (dumpStacks env d sb) = None"
    using assms(1) n(1,2) 1
    by (cases "ret (dumpStacks env d sb)") (auto simp: mainSequence_def Let_def)
  have 3: "ret (heapProfile env d sb) = None"
    using assms(1) n(1,2,3) 1 2
    by (cases "ret (heapProfile env d sb)") (auto simp: mainSequence_def Let_def)
  from c 1 2 3 show ?thesis by simp
qed

lemma in_mainSequence_trace:
  assumes "e \<in> set (out (mainSequence env d sb))" and "is_StartTrace e"
  shows "e \<in> set (out (traceExecution env d sb)) \<and>
         ret (sendSignal env d sb) = None \<and> ret (dumpStacks env d sb) = None \<and>
         ret (heapProfile env d sb) = None \<and> ret (cpuProfile env d sb) = None"
proof -
  have n: "e \<notin> set (out (sendSignal env d sb))" "e \<notin> set (out (dumpStacks env d sb))"
    "e \<notin> set (out (heapProfile env d sb))" "e \<notin> set (out (cpuProfile env d sb))"
    "e \<notin> set (out (changeLogging env d sb))"
    using assms(2) sendSignal_kinds [of e env d sb] dumpStacks_kinds [of e env d sb]
      heapProfile_kinds [of e env d sb] cpuProfile_kinds [of e env d sb]
      changeLogging_kinds [of e env d sb]
    by auto
  have c: "e \<in> set (out (traceExecution env d sb))"
    using mainSequence_out [OF assms(1)] n by auto
  have 1: "ret (sendSignal env d sb) = None"
    using assms(1) n(1) by (cases "ret (sendSignal env d sb)") (auto simp: mainSequence_def)
  have 2: "ret (dumpStacks env d sb) = None"
    using assms(1) n(1,2) 1
    by (cases "ret (dumpStacks env d sb)") (auto simp: mainSequence_def Let_def)
  have 3: "ret (heapProfile env d sb) = None"
    using assms(1) n(1,2,3) 1 2
    by (cases "ret (heapProfile env d sb)") (auto simp: mainSequence_def Let_def)
  have 4: "ret (cpuProfile env d sb) = None"
    using assms(1) n(1,2,3,4) 1 2 3
    by (cases "ret (cpuProfile env d sb)") (auto simp: mainSequence_def Let_def)
  from c 1 2 3 4 show ?thesis by simp
qed

text \<open>An event that only the main sequence emits.\<close>

lemma Execute_in_mainSequence:
  assumes "e \<in> set (snd (Execute env root d as))"
    and "is_StartCPUProfile e \<or> is_StartTrace e"
  obtains c e0 sb e1 st e2 fatal e3 where
    "resolve env root d as = (Inr c, e0)" "checkRunning env c = (Inr sb, e1)"
    "body env d sb = (st, e2)"
    "runDefers env d sb (defers (mainSequence env d sb)) = (fatal, e3)"
    "Execute env root d as = (if fatal then Terminated else Returned st, e0 @ e1 @ e2 @ e3)"
    "e \<in> set (out (mainSequence env d sb))"
proof (cases rule: Execute_cases [of env root d as])
  case (resolve_failed st e0)
  with assms show ?thesis by (auto dest: resolve_kinds)
next
  case (not_running c e0 st e1)
  with assms show ?thesis by (auto dest: resolve_kinds checkRunning_kinds)
next
  case (ran c e0 sb e1 st e2 fatal e3)
  have "e \<notin> set e0" using resolve_kinds [OF ran(1), of e] assms(2) by auto
  moreover have "e \<notin> set e1" using checkRunning_kinds [OF ran(2), of e] assms(2) by auto
  moreover have "e \<notin> set e3" using runDefers_kinds [OF ran(4), of e] assms(2) by auto
  ultimately have "e \<in> set e2" using assms(1) ran(5) by auto
  from body_events [OF ran(3) this] have "e \<in> set (out (mainSequence env d sb))"
    using assms(2) by auto
  with ran that show ?thesis by blast
qed

lemma cpu_start_failed_trace:
  assumes "Call_StartCPUProfile sb f (Some err) \<in> set (snd (Execute env root d as))"
  shows "\<exists>pre post. snd (Execute env root d as) =
            pre @ [Call_StartCPUProfile sb f (Some err), Call_Errorf err [], Call_Close f,
                   Call_StopCPUProfile sb (StopCPUProfile env sb)] @ post \<and>
          (\<forall>err'. StopCPUProfile env sb = Some err' \<longrightarrow>
             post = [Call_Fatalf err' []] \<and> fst (Execute env root d as) = Terminated)"
proof -
  let ?e = "Call_StartCPUProfile sb f (Some err)"
  from assms obtain c e0 sb0 e1 st e2 fatal e3 where
    x: "body env d sb0 = (st, e2)"
      "runDefers env d sb0 (defers (mainSequence env d sb0)) = (fatal, e3)"
      "Execute env root d as = (if fatal then Terminated else Returned st, e0 @ e1 @ e2 @ e3)"
      "?e \<in> set (out (mainSequence env d sb0))"
    by (rule Execute_in_mainSequence) auto
  from in_mainSequence_cpu [OF x(4)] have
    b: "?e \<in> set (out (cpuProfile env d sb0))" "ret (sendSignal env d sb0) = None"
      "ret (dumpStacks env d sb0) = None" "ret (heapProfile env d sb0) = None"
    by simp_all
  from cpuProfile_start_failed [OF b(1)] have sb [simp]: "sb0 = sb"
    and cpu: "cpuProfile env d sb =
           \<lparr>ret = Some ExitFailure,
            out = [Call_Create (profileCPU d) (Inr f), ?e, Call_Errorf err []],
            defers = [CPUCleanup f], setDelay = True\<rparr>"
    by simp_all
  have m: "ret (mainSequence env d sb) = Some ExitFailure"
    "out (mainSequence env d sb) =
       out (sendSignal env d sb) @ out (dumpStacks env d sb) @ out (heapProfile env d sb) @
       [Call_Create (profileCPU d) (Inr f), ?e, Call_Errorf err []]"
    "defers (mainSequence env d sb) = CPUCleanup f # defers (heapProfile env d sb)"
    using b(2,3,4) by (simp_all add: mainSequence_def run_Cons_None run_Cons_Some cpu del: run.simps)
  from x(1) m have e2: "e2 = out (mainSequence env d sb)"
    by (simp add: body_def)
  obtain fatal' es' where r: "runDefers env d sb (defers (heapProfile env d sb)) = (fatal', es')"
    by (cases "runDefers env d sb (defers (heapProfile env d sb))")
  show ?thesis
  proof (cases "StopCPUProfile env sb")
    case None
    with x(2) m(3) r have "e3 = [Call_Close f, Call_StopCPUProfile sb None,
        Call_Infof ''CPU profile written to %q'' [S (profileCPU d)]] @ es'"
      by (simp add: Let_def)
    with x(3) e2 m(2) None show ?thesis
      by (intro exI [of _ "e0 @ e1 @ out (sendSignal env d sb) @ out (dumpStacks env d sb) @
            out (heapProfile env d sb) @ [Call_Create (profileCPU d) (Inr f)]"]
          exI [of _ "Call_Infof ''CPU profile written to %q'' [S (profileCPU d)] # es'"]) simp
  next
    case (Some err')
    with x(2) m(3) have "fatal" "e3 = [Call_Close f, Call_StopCPUProfile sb (Some err'),
        Call_Fatalf err' []]"
      by (simp_all add: Let_def)
    with x(3) e2 m(2) Some show ?thesis
      by (intro exI [of _ "e0 @ e1 @ out (sendSignal env d sb) @ out (dumpStacks env d sb) @
            out (heapProfile env d sb) @ [Call_Create (profileCPU d) (Inr f)]"]
          exI [of _ "[Call_Fatalf err' []]"]) simp
  qed
qed

lemma trace_start_failed_trace:
  assumes "Call_StartTrace sb f (Some err) \<in> set (snd (Execute env root d as))"
  shows "\<exists>pre post. snd (Execute env root d as) =
            pre @ [Call_StartTrace sb f (Some err), Call_Errorf err [], Call_Close f,
                   Call_StopTrace sb (StopTrace env sb)] @ post \<and>
          (\<forall>err'. StopTrace env sb = Some err' \<longrightarrow>
             post = [Call_Fatalf err' []] \<and> fst (Execute env root d as) = Terminated)"
proof -
  let ?e = "Call_StartTrace sb f (Some err)"
  from assms obtain c e0 sb0 e1 st e2 fatal e3 where
    x: "body env d sb0 = (st, e2)"
      "runDefers env d sb0 (defers (mainSequence env d sb0)) = (fatal, e3)"
      "Execute env root d as = (if fatal then Terminated else Returned st, e0 @ e1 @ e2 @ e3)"
      "?e \<in> set (out (mainSequence env d sb0))"
    by (rule Execute_in_mainSequence) auto
  from in_mainSequence_trace [OF x(4)] have
    b: "?e \<in> set (out (traceExecution env d sb0))" "ret (sendSignal env d sb0) = None"
      "ret (dumpStacks env d sb0) = None" "ret (heapProfile env d sb0) = None"
      "ret (cpuProfile env d sb0) = None"
    by simp_all
  from traceExecution_start_failed [OF b(1)] have sb [simp]: "sb0 = sb"
    and tr: "traceExecution env d sb =
           \<lparr>ret = Some ExitFailure,
            out = [Call_Create (trace d) (Inr f), ?e, Call_Errorf err []],
            defers = [TraceCleanup f], setDelay = True\<rparr>"
    by simp_all
  let ?ds = "defers (cpuProfile env d sb) @ defers (heapProfile env d sb)"
  have m: "ret (mainSequence env d sb) = Some ExitFailure"
    "out (mainSequence env d sb) =
       out (sendSignal env d sb) @ out (dumpStacks env d sb) @ out (heapProfile env d sb) @
       out (cpuProfile env d sb) @
       [Call_Create (trace d) (Inr f), ?e, Call_Errorf err []]"
    "defers (mainSequence env d sb) = TraceCleanup f # ?ds"
    using b(2,3,4,5) by (simp_all add: mainSequence_def run_Cons_None run_Cons_Some tr del: run.simps)
  from x(1) m have e2: "e2 = out (mainSequence env d sb)"
    by (simp add: body_def)
  obtain fatal' es' where r: "runDefers env d sb ?ds = (fatal', es')"
    by (cases "runDefers env d sb ?ds")
  let ?pre = "e0 @ e1 @ out (sendSignal env d sb) @ out (dumpStacks env d sb) @
            out (heapProfile env d sb) @ out (cpuProfile env d sb) @
            [Call_Create (trace d) (Inr f)]"
  show ?thesis
  proof (cases "StopTrace env sb")
    case None
    with x(2) m(3) r have "e3 = [Call_Close f, Call_StopTrace sb None,
        Call_Infof ''Trace written to %q'' [S (trace d)]] @ es'"
      by (simp add: Let_def)
    with x(3) e2 m(2) None show ?thesis
      by (intro exI [of _ ?pre]
          exI [of _ "Call_Infof ''Trace written to %q'' [S (trace d)] # es'"]) simp
  next
    case (Some err')
    with x(2) m(3) have "fatal" "e3 = [Call_Close f, Call_StopTrace sb (Some err'),
        Call_Fatalf err' []]"
      by (simp_all add: Let_def)
    with x(3) e2 m(2) Some show ?thesis
      by (intro exI [of _ ?pre] exI [of _ "[Call_Fatalf err' []]"]) simp
  qed
qed

text \<open>
  C9.  The cleanup of a profile or of a trace is deferred as soon as the output file
  is created, whatever the start request answers.  So when the start request fails,
  the execution reports the error and then closes the file and issues the stop
  request; if that stop request fails too, the process is ended by the fatal report,
  which is the last event.
\<close>

theorem stop_after_failed_start:
  "(profileCPU d \<noteq> '''' \<and> os_Create env (profileCPU d) = Inr f \<longrightarrow>
      defers (cpuProfile env d sb) = [CPUCleanup f]) \<and>
   (Call_StartCPUProfile sb f (Some err) \<in> set (snd (Execute env root d as)) \<longrightarrow>
      (\<exists>pre post. snd (Execute env root d as) =
            pre @ [Call_StartCPUProfile sb f (Some err), Call_Errorf err [], Call_Close f,
                   Call_StopCPUProfile sb (StopCPUProfile env sb)] @ post \<and>
          (\<forall>err'. StopCPUProfile env sb = Some err' \<longrightarrow>
             post = [Call_Fatalf err' []] \<and> fst (Execute env root d as) = Terminated))) \<and>
   (trace d \<noteq> '''' \<and> os_Create env (trace d) = Inr f \<longrightarrow>
      defers (traceExecution env d sb) = [TraceCleanup f]) \<and>
   (Call_StartTrace sb f (Some err) \<in> set (snd (Execute env root d as)) \<longrightarrow>
      (\<exists>pre post. snd (Execute env root d as) =
            pre @ [Call_StartTrace sb f (Some err), Call_Errorf err [], Call_Close f,
                   Call_StopTrace sb (StopTrace env sb)] @ post \<and>
          (\<forall>err'. StopTrace env sb = Some err' \<longrightarrow>
             post = [Call_Fatalf err' []] \<and> fst (Execute env root d as) = Terminated)))"
proof (intro conjI impI)
  assume "profileCPU d \<noteq> '''' \<and> os_Create env (profileCPU d) = Inr f"
  then show "defers (cpuProfile env d sb) = [CPUCleanup f]"
    by (simp add: cpuProfile_def falls_def Errorf_def Let_def split: option.splits)
next
  assume "trace d \<noteq> '''' \<and> os_Create env (trace d) = Inr f"
  then show "defers (traceExecution env d sb) = [TraceCleanup f]"
    by (simp add: traceExecution_def falls_def Errorf_def Let_def split: option.splits)
qed (erule cpu_start_failed_trace trace_start_failed_trace)+

lemma run_cpu_start_fails:
  "Execute startFails ''/run/a'' (noFlags\<lparr>profileCPU := ''/tmp/cpu''\<rparr>) [''abc''] =
     (Terminated,
      [Call_Load ''/run/a'' ''abc'' (Inr \<lparr>Sandbox = Some sandbox_abc\<rparr>),
       Call_IsRunning sandbox_abc True,
       Call_Infof ''Found sandbox %q, PID: %d'' [S ''abc'', I 42],
       Call_Create ''/tmp/cpu'' (Inr 4),
       Call_StartCPUProfile sandbox_abc 4 (Some ''cpu profiling already started''),
       Call_Errorf ''cpu profiling already started'' [],
       Call_Close 4,
       Call_StopCPUProfile sandbox_abc (Some ''cpu profiling not started''),
       Call_Fatalf ''cpu profiling not started'' []])"
  by (simp add: exec_defs startFails_def okEnv_def noFlags_def sandbox_abc_def)

lemma run_trace_start_fails:
  "Execute startFails ''/run/a'' (noFlags\<lparr>trace := ''/tmp/trace''\<rparr>) [''abc''] =
     (Terminated,
      [Call_Load ''/run/a'' ''abc'' (Inr \<lparr>Sandbox = Some sandbox_abc\<rparr>),
       Call_IsRunning sandbox_abc True,
       Call_Infof ''Found sandbox %q, PID: %d'' [S ''abc'', I 42],
       Call_Create ''/tmp/trace'' (Inr 5),
       Call_StartTrace sandbox_abc 5 (Some ''tracing already started''),
       Call_Errorf ''tracing already started'' [],
       Call_Close 5,
       Call_StopTrace sandbox_abc (Some ''tracing not started''),
       Call_Fatalf ''tracing not started'' []])"
  by (simp add: exec_defs startFails_def okEnv_def noFlags_def sandbox_abc_def)

theorem stop_after_failed_start_witness:
  "profileCPU (noFlags\<lparr>profileCPU := ''/tmp/cpu''\<rparr>) \<noteq> '''' \<and>
   os_Create startFails ''/tmp/cpu'' = Inr 4 \<and>
   defers (cpuProfile startFails (noFlags\<lparr>profileCPU := ''/tmp/cpu''\<rparr>) sandbox_abc) =
     [CPUCleanup 4] \<and>
   Call_StartCPUProfile sandbox_abc 4 (Some ''cpu profiling already started'')
     \<in> set (snd (Execute startFails ''/run/a'' (noFlags\<lparr>profileCPU := ''/tmp/cpu''\<rparr>) [''abc''])) \<and>
   StopCPUProfile startFails sandbox_abc = Some ''cpu profiling not started'' \<and>
   fst (Execute startFails ''/run/a'' (noFlags\<lparr>profileCPU := ''/tmp/cpu''\<rparr>) [''abc'']) =
     Terminated \<and>
   trace (noFlags\<lparr>trace := ''/tmp/trace''\<rparr>) \<noteq> '''' \<and>
   os_Create startFails ''/tmp/trace'' = Inr 5 \<and>
   defers (traceExecution startFails (noFlags\<lparr>trace := ''/tmp/trace''\<rparr>) sandbox_abc) =
     [TraceCleanup 5] \<and>
   Call_StartTrace sandbox_abc 5 (Some ''tracing already started'')
     \<in> set (snd (Execute startFails ''/run/a'' (noFlags\<lparr>trace := ''/tmp/trace''\<rparr>) [''abc''])) \<and>
   StopTrace startFails sandbox_abc = Some ''tracing not started'' \<and>
   fst (Execute startFails ''/run/a'' (noFlags\<lparr>trace := ''/tmp/trace''\<rparr>) [''abc'']) =
     Terminated"
proof -
  have c: "os_Create startFails ''/tmp/cpu'' = Inr 4" "os_Create startFails ''/tmp/trace'' = Inr 5"
    "StopCPUProfile startFails sandbox_abc = Some ''cpu profiling not started''"
    "StopTrace startFails sandbox_abc = Some ''tracing not started''"
    by (simp_all add: startFails_def okEnv_def)
  have i: "Call_StartCPUProfile sandbox_abc 4 (Some ''cpu profiling already started'')
     \<in> set (snd (Execute startFails ''/run/a'' (noFlags\<lparr>profileCPU := ''/tmp/cpu''\<rparr>) [''abc'']))"
    "Call_StartTrace sandbox_abc 5 (Some ''tracing already started'')
     \<in> set (snd (Execute startFails ''/run/a'' (noFlags\<lparr>trace := ''/tmp/trace''\<rparr>) [''abc'']))"
    by (simp_all add: run_cpu_start_fails run_trace_start_fails)
  note t1 = stop_after_failed_start [where d = "noFlags\<lparr>profileCPU := ''/tmp/cpu''\<rparr>"
      and env = startFails and f = 4 and sb = sandbox_abc and root = "''/run/a''"
      and as = "[''abc'']" and err = "''cpu profiling already started''"]
  note t2 = stop_after_failed_start [where d = "noFlags\<lparr>trace := ''/tmp/trace''\<rparr>"
      and env = startFails and f = 5 and sb = sandbox_abc and root = "''/run/a''"
      and as = "[''abc'']" and err = "''tracing already started''"]
  from t1 c i have 1:
    "defers (cpuProfile startFails (noFlags\<lparr>profileCPU := ''/tmp/cpu''\<rparr>) sandbox_abc) =
       [CPUCleanup 4]"
    "fst (Execute startFails ''/run/a'' (noFlags\<lparr>profileCPU := ''/tmp/cpu''\<rparr>) [''abc'']) =
       Terminated"
    by (auto simp: noFlags_def)
  from t2 c i have 2:
    "defers (traceExecution startFails (noFlags\<lparr>trace := ''/tmp/trace''\<rparr>) sandbox_abc) =
       [TraceCleanup 5]"
    "fst (Execute startFails ''/run/a'' (noFlags\<lparr>trace := ''/tmp/trace''\<rparr>) [''abc'']) =
       Terminated"
    by (auto simp: noFlags_def)
  from 1 2 c i show ?thesis by (simp add: noFlags_def)
qed

subsection \<open>More executions in the concrete world\<close>

lemma noFlags_fields [simp]:
  "pid noFlags = 0" "stacks noFlags = False" "signal noFlags = - 1" "profileHeap noFlags = ''''"
  "profileCPU noFlags = ''''" "profileDelay noFlags = 5" "trace noFlags = ''''"
  "strace noFlags = ''''" "logLevel noFlags = ''''" "logPackets noFlags = ''''"
  by (simp_all add: noFlags_def)

lemma run_level_info:
  "Execute okEnv ''/run/a'' (noFlags\<lparr>logLevel := ''info''\<rparr>) [''abc''] =
     (Returned ExitSuccess,
      [Call_Load ''/run/a'' ''abc'' (Inr \<lparr>Sandbox = Some sandbox_abc\<rparr>),
       Call_IsRunning sandbox_abc True,
       Call_Infof ''Found sandbox %q, PID: %d'' [S ''abc'', I 42],
       Call_Infof ''Setting log level %v'' [L Info],
       Call_ChangeLogging sandbox_abc
         \<lparr>SetLevel = True, Level = Info, SetLogPackets = False, LogPackets = False,
          SetStrace = True, EnableStrace = False, StraceWhitelist = []\<rparr> None,
       Call_Infof ''Logging options changed'' []])"
  by (simp add: exec_defs okEnv_def noFlags_def sandbox_abc_def ToLower_examples)

lemma run_level_debug:
  "Execute okEnv ''/run/a'' (noFlags\<lparr>logLevel := ''DEBUG''\<rparr>) [''abc''] =
     (Returned ExitSuccess,
      [Call_Load ''/run/a'' ''abc'' (Inr \<lparr>Sandbox = Some sandbox_abc\<rparr>),
       Call_IsRunning sandbox_abc True,
       Call_Infof ''Found sandbox %q, PID: %d'' [S ''abc'', I 42],
       Call_Infof ''Setting log level %v'' [L Debug],
       Call_ChangeLogging sandbox_abc
         \<lparr>SetLevel = True, Level = Debug, SetLogPackets = False, LogPackets = False,
          SetStrace = True, EnableStrace = False, StraceWhitelist = []\<rparr> None,
       Call_Infof ''Logging options changed'' []])"
  by (simp add: exec_defs okEnv_def noFlags_def sandbox_abc_def ToLower_examples)

lemma run_level_bogus:
  "Execute okEnv ''/run/a'' (noFlags\<lparr>logLevel := ''bogus''\<rparr>) [''x''] =
     (Returned ExitFailure,
      [Call_Load ''/run/a'' ''x'' (Inr \<lparr>Sandbox = Some \<lparr>ID = ''x'', Pid = 7\<rparr>\<rparr>),
       Call_IsRunning \<lparr>ID = ''x'', Pid = 7\<rparr> True,
       Call_Infof ''Found sandbox %q, PID: %d'' [S ''x'', I 7],
       Call_Errorf ''invalid log level %d'' [S ''bogus'']])"
  by (simp add: exec_defs okEnv_def noFlags_def sandbox_abc_def ToLower_examples)

lemma run_cpu:
  "Execute okEnv ''/run/a'' (noFlags\<lparr>profileCPU := ''/tmp/cpu''\<rparr>) [''abc''] =
     (Returned ExitSuccess,
      [Call_Load ''/run/a'' ''abc'' (Inr \<lparr>Sandbox = Some sandbox_abc\<rparr>),
       Call_IsRunning sandbox_abc True,
       Call_Infof ''Found sandbox %q, PID: %d'' [S ''abc'', I 42],
       Call_Create ''/tmp/cpu'' (Inr 4),
       Call_StartCPUProfile sandbox_abc 4 None,
       Call_Infof ''CPU profile started for %d sec, writing to %q'' [I 5, S ''/tmp/cpu''],
       Call_Sleep 5000000000,
       Call_Close 4,
       Call_StopCPUProfile sandbox_abc None,
       Call_Infof ''CPU profile written to %q'' [S ''/tmp/cpu'']])"
  by (simp add: exec_defs okEnv_def noFlags_def sandbox_abc_def ToLower_examples)

lemma run_cpu_trace:
  "Execute okEnv ''/run/a'' (noFlags\<lparr>profileCPU := ''/tmp/cpu'', trace := ''/tmp/trace''\<rparr>) [''abc''] =
     (Returned ExitSuccess,
      [Call_Load ''/run/a'' ''abc'' (Inr \<lparr>Sandbox = Some sandbox_abc\<rparr>),
       Call_IsRunning sandbox_abc True,
       Call_Infof ''Found sandbox %q, PID: %d'' [S ''abc'', I 42],
       Call_Create ''/tmp/cpu'' (Inr 4),
       Call_StartCPUProfile sandbox_abc 4 None,
       Call_Infof ''CPU profile started for %d sec, writing to %q'' [I 5, S ''/tmp/cpu''],
       Call_Create ''/tmp/trace'' (Inr 5),
       Call_StartTrace sandbox_abc 5 None,
       Call_Infof ''Tracing started for %d sec, writing to %q'' [I 5, S ''/tmp/trace''],
       Call_Sleep 5000000000,
       Call_Close 5,
       Call_StopTrace sandbox_abc None,
       Call_Infof ''Trace written to %q'' [S ''/tmp/trace''],
       Call_Close 4,
       Call_StopCPUProfile sandbox_abc None,
       Call_Infof ''CPU profile written to %q'' [S ''/tmp/cpu'']])"
  by (simp add: exec_defs okEnv_def noFlags_def sandbox_abc_def ToLower_examples)

lemma run_cpu_level_bogus:
  "Execute okEnv ''/run/a'' (noFlags\<lparr>profileCPU := ''/tmp/cpu'', logLevel := ''bogus''\<rparr>) [''abc''] =
     (Returned ExitFailure,
      [Call_Load ''/run/a'' ''abc'' (Inr \<lparr>Sandbox = Some sandbox_abc\<rparr>),
       Call_IsRunning sandbox_abc True,
       Call_Infof ''Found sandbox %q, PID: %d'' [S ''abc'', I 42],
       Call_Create ''/tmp/cpu'' (Inr 4),
       Call_StartCPUProfile sandbox_abc 4 None,
       Call_Infof ''CPU profile started for %d sec, writing to %q'' [I 5, S ''/tmp/cpu''],
       Call_Errorf ''invalid log level %d'' [S ''bogus''],
       Call_Close 4,
       Call_StopCPUProfile sandbox_abc None,
       Call_Infof ''CPU profile written to %q'' [S ''/tmp/cpu'']])"
  by (simp add: exec_defs okEnv_def noFlags_def sandbox_abc_def ToLower_examples)

lemma run_stacks_heap:
  "Execute okEnv ''/run/a'' (noFlags\<lparr>stacks := True, profileHeap := ''/tmp/heap''\<rparr>) [''abc''] =
     (Returned ExitSuccess,
      [Call_Load ''/run/a'' ''abc'' (Inr \<lparr>Sandbox = Some sandbox_abc\<rparr>),
       Call_IsRunning sandbox_abc True,
       Call_Infof ''Found sandbox %q, PID: %d'' [S ''abc'', I 42],
       Call_Infof ''Retrieving sandbox stacks'' [],
       Call_Stacks sandbox_abc (Inr ''goroutine 1 [running]''),
       Call_Infof (''     *** Stack dump ***'' @ [CHR 0x0A] @ ''%s'') [S ''goroutine 1 [running]''],
       Call_Create ''/tmp/heap'' (Inr 3),
       Call_HeapProfile sandbox_abc 3 None,
       Call_Infof ''Heap profile written to %q'' [S ''/tmp/heap''],
       Call_Close 3])"
  by (simp add: exec_defs okEnv_def noFlags_def sandbox_abc_def ToLower_examples)

subsection \<open>Closing the file and stopping the session\<close>

lemma just_before_append:
  assumes xs: "\<And>pre post. xs = pre @ e # post \<Longrightarrow> \<exists>pre' y. pre = pre' @ [y] \<and> R y"
    and ys: "\<And>pre post. ys = pre @ e # post \<Longrightarrow> \<exists>pre' y. pre = pre' @ [y] \<and> R y"
    and eq: "xs @ ys = pre @ e # post"
  shows "\<exists>pre' y. pre = pre' @ [y] \<and> R y"
proof -
  from eq obtain us where
    "(xs = pre @ us \<and> us @ ys = e # post) \<or> (xs @ us = pre \<and> ys = us @ e # post)"
    by (auto simp: append_eq_append_conv2)
  then show ?thesis
  proof
    assume h: "xs = pre @ us \<and> us @ ys = e # post"
    show ?thesis
    proof (cases us)
      case Nil
      with h have "ys = [] @ e # post" by simp
      from ys [OF this] show ?thesis by simp
    next
      case (Cons u us')
      with h have "xs = pre @ e # us'" by simp
      from xs [OF this] show ?thesis .
    qed
  next
    assume h: "xs @ us = pre \<and> ys = us @ e # post"
    then have "ys = us @ e # post" by simp
    from ys [OF this] obtain pre' y where "us = pre' @ [y]" "R y" by blast
    with h have "pre = (xs @ pre') @ [y] \<and> R y" by auto
    then show ?thesis by blast
  qed
qed

lemma runDeferred_close_then_stop:
  assumes "runDeferred env d sb x = (fatal, es)" and "es = pre @ e # post"
    and "is_StopCPUProfile e \<or> is_StopTrace e"
  shows "\<exists>pre' y. pre = pre' @ [y] \<and>
           (\<exists>f. y = Call_Close f \<and> (is_StopCPUProfile e \<longrightarrow> x = CPUCleanup f) \<and>
                (is_StopTrace e \<longrightarrow> x = TraceCleanup f))"
  using assms
  by (cases x)
     (auto simp: Let_def Cons_eq_append_conv split: option.splits)

lemma runDefers_close_then_stop:
  assumes "runDefers env d sb ds = (fatal, es)" and "es = pre @ e # post"
    and "is_StopCPUProfile e \<or> is_StopTrace e"
  shows "\<exists>pre' y. pre = pre' @ [y] \<and>
           (\<exists>f. y = Call_Close f \<and> (is_StopCPUProfile e \<longrightarrow> CPUCleanup f \<in> set ds) \<and>
                (is_StopTrace e \<longrightarrow> TraceCleanup f \<in> set ds))"
  using assms(1,2)
proof (induction ds arbitrary: fatal es pre post)
  case Nil
  then show ?case by simp
next
  case (Cons x xs)
  let ?R = "\<lambda>ds y. \<exists>f. y = Call_Close f \<and> (is_StopCPUProfile e \<longrightarrow> CPUCleanup f \<in> set ds) \<and>
                (is_StopTrace e \<longrightarrow> TraceCleanup f \<in> set ds)"
  obtain f1 e1 where x: "runDeferred env d sb x = (f1, e1)" by (cases "runDeferred env d sb x")
  obtain f2 e2 where xs: "runDefers env d sb xs = (f2, e2)" by (cases "runDefers env d sb xs")
  have 1: "\<exists>pre' y. p = pre' @ [y] \<and> ?R (x # xs) y" if "e1 = p @ e # q" for p q
    using runDeferred_close_then_stop [OF x that assms(3)] by auto
  have 2: "\<exists>pre' y. p = pre' @ [y] \<and> ?R (x # xs) y" if "e2 = p @ e # q" for p q
    using Cons.IH [OF xs that] by auto
  show ?case
  proof (cases f1)
    case True
    with Cons.prems x have "e1 = pre @ e # post" by simp
    from 1 [OF this] show ?thesis .
  next
    case False
    with Cons.prems x xs have "e1 @ e2 = pre @ e # post" by simp
    show ?thesis
      by (rule just_before_append [where xs = e1 and ys = e2 and e = e and post = post])
         (use 1 2 \<open>e1 @ e2 = pre @ e # post\<close> in blast)+
  qed
qed

lemma heapProfile_defers:
  "x \<in> set (defers (heapProfile env d sb)) \<Longrightarrow> \<exists>f. x = HeapClose f"
  by (auto simp: heapProfile_def falls_def Errorf_def Let_def
      split: if_splits sum.splits option.splits)

lemma cpuProfile_defers:
  "x \<in> set (defers (cpuProfile env d sb)) \<Longrightarrow>
     \<exists>f. x = CPUCleanup f \<and> os_Create env (profileCPU d) = Inr f"
  by (auto simp: cpuProfile_def falls_def Errorf_def Let_def
      split: if_splits sum.splits option.splits)

lemma traceExecution_defers:
  "x \<in> set (defers (traceExecution env d sb)) \<Longrightarrow>
     \<exists>f. x = TraceCleanup f \<and> os_Create env (trace d) = Inr f"
  by (auto simp: traceExecution_def falls_def Errorf_def Let_def
      split: if_splits sum.splits option.splits)

lemma mainSequence_defers:
  assumes "x \<in> set (defers (mainSequence env d sb))"
  shows "(\<exists>f. x = HeapClose f) \<or>
         (\<exists>f. x = CPUCleanup f \<and> os_Create env (profileCPU d) = Inr f) \<or>
         (\<exists>f. x = TraceCleanup f \<and> os_Create env (trace d) = Inr f)"
proof -
  from assms obtain b where
    "b \<in> set [sendSignal env d sb, dumpStacks env d sb, heapProfile env d sb,
               cpuProfile env d sb, traceExecution env d sb, changeLogging env d sb]"
    "x \<in> set (defers b)"
    unfolding mainSequence_def by (blast dest: run_defers)
  then show ?thesis
    using heapProfile_defers [of x env d sb] cpuProfile_defers [of x env d sb]
      traceExecution_defers [of x env d sb]
    by auto
qed

lemma stop_follows_close:
  assumes "snd (Execute env root d as) = pre @ e # post"
    and "is_StopCPUProfile e \<or> is_StopTrace e"
  shows "\<exists>pre' f. pre = pre' @ [Call_Close f] \<and>
           (is_StopCPUProfile e \<longrightarrow> os_Create env (profileCPU d) = Inr f) \<and>
           (is_StopTrace e \<longrightarrow> os_Create env (trace d) = Inr f)"
proof (cases rule: Execute_cases [of env root d as])
  case (resolve_failed st e0)
  with assms have "e \<in> set e0" by simp
  with resolve_kinds [OF resolve_failed(1), of e] assms(2) show ?thesis by (cases e) auto
next
  case (not_running c e0 st e1)
  with assms have "e \<in> set e0 \<or> e \<in> set e1" by (metis Un_iff in_set_conv_decomp set_append snd_conv)
  with resolve_kinds [OF not_running(1), of e] checkRunning_kinds [OF not_running(2), of e]
    assms(2) show ?thesis by (cases e) auto
next
  case (ran c e0 sb e1 st e2 fatal e3)
  let ?R = "\<lambda>y. \<exists>f. y = Call_Close f \<and>
              (is_StopCPUProfile e \<longrightarrow> CPUCleanup f \<in> set (defers (mainSequence env d sb))) \<and>
              (is_StopTrace e \<longrightarrow> TraceCleanup f \<in> set (defers (mainSequence env d sb)))"
  have n: "e \<notin> set (e0 @ e1 @ e2)"
    using resolve_kinds [OF ran(1), of e] checkRunning_kinds [OF ran(2), of e]
      body_events [OF ran(3), of e] mainSequence_kinds [of e env d sb] assms(2)
    by (cases e) auto
  have 1: "\<exists>pre' y. p = pre' @ [y] \<and> ?R y" if "e0 @ e1 @ e2 = p @ e # q" for p q
    using n that by (metis in_set_conv_decomp)
  have 2: "\<exists>pre' y. p = pre' @ [y] \<and> ?R y" if "e3 = p @ e # q" for p q
    using runDefers_close_then_stop [OF ran(4) that assms(2)] .
  from ran(5) assms(1) have "(e0 @ e1 @ e2) @ e3 = pre @ e # post" by simp
  have "\<exists>pre' y. pre = pre' @ [y] \<and> ?R y"
    by (rule just_before_append [where xs = "e0 @ e1 @ e2" and ys = e3 and e = e and post = post])
       (use 1 2 \<open>(e0 @ e1 @ e2) @ e3 = pre @ e # post\<close> in blast)+
  then obtain pre' f where p: "pre = pre' @ [Call_Close f]"
    "is_StopCPUProfile e \<longrightarrow> CPUCleanup f \<in> set (defers (mainSequence env d sb))"
    "is_StopTrace e \<longrightarrow> TraceCleanup f \<in> set (defers (mainSequence env d sb))"
    by blast
  have "is_StopCPUProfile e \<longrightarrow> os_Create env (profileCPU d) = Inr f"
    using p(2) mainSequence_defers [of "CPUCleanup f" env d sb] by auto
  moreover have "is_StopTrace e \<longrightarrow> os_Create env (trace d) = Inr f"
    using p(3) mainSequence_defers [of "TraceCleanup f" env d sb] by auto
  ultimately show ?thesis using p(1) by blast
qed

subsection \<open>The delay\<close>

lemma scan_failed_Errorf:
  "scan env root p ids = (Inl st, es) \<Longrightarrow> \<exists>e\<in>set es. is_Errorf e"
  by (induction ids arbitrary: es)
     (auto simp: Let_def split: sum.splits if_splits prod.splits)

lemma scan_ok_no_Errorf:
  "scan env root p ids = (Inr x, es) \<Longrightarrow> e \<in> set es \<Longrightarrow> is_Load e"
  by (induction ids arbitrary: es)
     (auto simp: Let_def split: sum.splits if_splits prod.splits)

lemma resolve_failed_reported:
  "resolve env root d as = (Inl st, es) \<Longrightarrow> \<exists>e\<in>set es. is_Errorf e \<or> is_Usage e"
  by (auto simp: resolve_def Let_def split: sum.splits if_splits prod.splits option.splits
      dest!: scan_failed_Errorf)

lemma resolve_ok_quiet:
  "resolve env root d as = (Inr c, es) \<Longrightarrow> e \<in> set es \<Longrightarrow> is_List e \<or> is_Load e"
  by (auto simp: resolve_def Let_def split: sum.splits if_splits prod.splits option.splits
      dest: scan_ok_no_Errorf)

lemma checkRunning_failed_reported:
  "checkRunning env c = (Inl st, es) \<Longrightarrow> \<exists>e\<in>set es. is_Errorf e"
  by (auto simp: checkRunning_def split: option.splits if_splits)

lemma checkRunning_ok_quiet:
  "checkRunning env c = (Inr sb, es) \<Longrightarrow> e \<in> set es \<Longrightarrow> is_IsRunning e \<or> is_Infof e"
  by (auto simp: checkRunning_def split: option.splits if_splits)

text \<open>A block returns exactly when it reports an error.\<close>

lemma sendSignal_ret:
  "ret (sendSignal env d sb) = None \<longleftrightarrow> (\<forall>e\<in>set (out (sendSignal env d sb)). \<not> is_Errorf e)"
  by (auto simp: sendSignal_def falls_def Errorf_def Let_def split: option.splits)

lemma dumpStacks_ret:
  "ret (dumpStacks env d sb) = None \<longleftrightarrow> (\<forall>e\<in>set (out (dumpStacks env d sb)). \<not> is_Errorf e)"
  by (auto simp: dumpStacks_def falls_def Errorf_def Let_def split: sum.splits)

lemma heapProfile_ret:
  "ret (heapProfile env d sb) = None \<longleftrightarrow> (\<forall>e\<in>set (out (heapProfile env d sb)). \<not> is_Errorf e)"
  by (auto simp: heapProfile_def falls_def Errorf_def Let_def split: sum.splits option.splits)

lemma cpuProfile_ret:
  "ret (cpuProfile env d sb) = None \<longleftrightarrow> (\<forall>e\<in>set (out (cpuProfile env d sb)). \<not> is_Errorf e)"
  by (auto simp: cpuProfile_def falls_def Errorf_def Let_def split: sum.splits option.splits)

lemma traceExecution_ret:
  "ret (traceExecution env d sb) = None \<longleftrightarrow>
     (\<forall>e\<in>set (out (traceExecution env d sb)). \<not> is_Errorf e)"
  by (auto simp: traceExecution_def falls_def Errorf_def Let_def split: sum.splits option.splits)

lemma straceArgs_quiet: "e \<in> set (snd (straceArgs env d a)) \<Longrightarrow> \<not> is_Errorf e"
  by (auto simp: straceArgs_def Let_def split: if_splits)

lemma levelArgs_ret:
  "levelArgs env d a = (r, es) \<Longrightarrow>
     (case r of Inl st \<Rightarrow> \<exists>e\<in>set es. is_Errorf e | Inr a' \<Rightarrow> \<forall>e\<in>set es. \<not> is_Errorf e)"
  by (auto simp: levelArgs_def Let_def split: if_splits option.splits)

lemma packetsArgs_ret:
  "packetsArgs d a = (r, es) \<Longrightarrow>
     (case r of Inl st \<Rightarrow> \<exists>e\<in>set es. is_Errorf e | Inr a' \<Rightarrow> \<forall>e\<in>set es. \<not> is_Errorf e)"
  by (auto simp: packetsArgs_def Let_def split: if_splits sum.splits)

lemma changeLogging_ret:
  "ret (changeLogging env d sb) = None \<longleftrightarrow>
     (\<forall>e\<in>set (out (changeLogging env d sb)). \<not> is_Errorf e)"
proof (cases "strace d \<noteq> '''' \<or> length (logLevel d) \<noteq> 0 \<or> length (logPackets d) \<noteq> 0")
  case False
  then show ?thesis by (simp add: changeLogging_def falls_def)
next
  case True
  obtain a1 e1 where s: "straceArgs env d initialArgs = (a1, e1)"
    by (cases "straceArgs env d initialArgs")
  have q1: "\<forall>e\<in>set e1. \<not> is_Errorf e"
    using straceArgs_quiet [of _ env d initialArgs] s by auto
  obtain r2 e2 where l: "levelArgs env d a1 = (r2, e2)" by (cases "levelArgs env d a1")
  show ?thesis
  proof (cases r2)
    case (Inl st)
    with levelArgs_ret [OF l] True s l show ?thesis
      by (auto simp: changeLogging_def)
  next
    case (Inr a2)
    with levelArgs_ret [OF l] have q2: "\<forall>e\<in>set e2. \<not> is_Errorf e" by auto
    obtain r3 e3 where p: "packetsArgs d a2 = (r3, e3)" by (cases "packetsArgs d a2")
    show ?thesis
    proof (cases r3)
      case (Inl st)
      with packetsArgs_ret [OF p] True s l Inr p show ?thesis
        by (auto simp: changeLogging_def)
    next
      case (Inr a3)
      with packetsArgs_ret [OF p] have q3: "\<forall>e\<in>set e3. \<not> is_Errorf e" by auto
      from True s l \<open>r2 = Inr a2\<close> p Inr q1 q2 q3 show ?thesis
        by (cases "ChangeLogging env sb a3")
           (auto simp: changeLogging_def falls_def Errorf_def Let_def)
    qed
  qed
qed

lemma run_ret:
  assumes "\<forall>b\<in>set bs. ret b = None \<longleftrightarrow> (\<forall>e\<in>set (out b). \<not> P e)"
  shows "ret (run bs) = None \<longleftrightarrow> (\<forall>e\<in>set (out (run bs)). \<not> P e)"
  using assms by (induction bs) (auto simp: falls_def Let_def split: option.splits)

lemma mainSequence_ret:
  "ret (mainSequence env d sb) = None \<longleftrightarrow>
     (\<forall>e\<in>set (out (mainSequence env d sb)). \<not> is_Errorf e)"
  unfolding mainSequence_def
  by (rule run_ret)
     (simp add: sendSignal_ret dumpStacks_ret heapProfile_ret cpuProfile_ret traceExecution_ret
        changeLogging_ret del: run.simps)

lemma setDelay_blocks [simp]:
  "setDelay (sendSignal env d sb) = False" "setDelay (dumpStacks env d sb) = False"
  "setDelay (heapProfile env d sb) = False"
  "setDelay (cpuProfile env d sb) = (profileCPU d \<noteq> '''')"
  "setDelay (traceExecution env d sb) = (trace d \<noteq> '''')"
  "setDelay (changeLogging env d sb) = False"
  by (auto simp: sendSignal_def dumpStacks_def heapProfile_def cpuProfile_def traceExecution_def
        changeLogging_def falls_def Errorf_def Let_def
      split: sum.splits option.splits prod.splits)

lemma mainSequence_setDelay:
  "ret (mainSequence env d sb) = None \<Longrightarrow>
     setDelay (mainSequence env d sb) = (profileCPU d \<noteq> '''' \<or> trace d \<noteq> '''')"
  unfolding mainSequence_def by (drule run_None) (simp del: run.simps)

lemma body_ok:
  "ret (mainSequence env d sb) = None \<Longrightarrow>
     body env d sb =
       (ExitSuccess,
        out (mainSequence env d sb) @
        (if profileCPU d \<noteq> '''' \<or> trace d \<noteq> '''' then [Call_Sleep (sleepDuration d)] else []))"
  by (simp add: body_def mainSequence_setDelay)

lemma body_failed:
  "ret (mainSequence env d sb) = Some st \<Longrightarrow> body env d sb = (st, out (mainSequence env d sb))"
  by (simp add: body_def)

lemma sleepDuration_seconds:
  assumes "0 \<le> profileDelay d" and "profileDelay d \<le> 9223372036"
  shows "sleepDuration d = profileDelay d * 1000000000"
proof -
  have "0 \<le> profileDelay d * 1000000000 + 2 ^ 63" using assms(1) by simp
  moreover have "profileDelay d * 1000000000 + 2 ^ 63 < (2 ^ 64 :: int)" using assms(2) by simp
  ultimately show ?thesis by (simp add: sleepDuration_def wrap64_def)
qed

lemma resolve_no_Sleep: "resolve env root d as = (r0, e0) \<Longrightarrow> filter is_Sleep e0 = []"
  unfolding filter_empty_conv
proof
  fix e assume "resolve env root d as = (r0, e0)" "e \<in> set e0"
  from resolve_kinds [OF this] show "\<not> is_Sleep e" by (cases e) auto
qed

lemma checkRunning_no_Sleep: "checkRunning env c = (r1, e1) \<Longrightarrow> filter is_Sleep e1 = []"
  unfolding filter_empty_conv
proof
  fix e assume "checkRunning env c = (r1, e1)" "e \<in> set e1"
  from checkRunning_kinds [OF this] show "\<not> is_Sleep e" by (cases e) auto
qed

lemma runDefers_no_Sleep: "runDefers env d sb ds = (fatal, e3) \<Longrightarrow> filter is_Sleep e3 = []"
  unfolding filter_empty_conv
proof
  fix e assume "runDefers env d sb ds = (fatal, e3)" "e \<in> set e3"
  from runDefers_kinds [OF this] show "\<not> is_Sleep e" by (cases e) auto
qed

lemma mainSequence_no_Sleep: "filter is_Sleep (out (mainSequence env d sb)) = []"
  unfolding filter_empty_conv
proof
  fix e assume "e \<in> set (out (mainSequence env d sb))"
  from mainSequence_kinds [OF this] show "\<not> is_Sleep e" by (cases e) auto
qed

lemma no_delay_no_Sleep:
  assumes "profileCPU d = '''' \<and> trace d = ''''"
  shows "filter is_Sleep (snd (Execute env root d as)) = []"
proof (cases rule: Execute_cases [of env root d as])
  case (resolve_failed st e0)
  then show ?thesis by (simp add: resolve_no_Sleep)
next
  case (not_running c e0 st e1)
  then show ?thesis by (simp add: resolve_no_Sleep checkRunning_no_Sleep)
next
  case (ran c e0 sb e1 st e2 fatal e3)
  have "filter is_Sleep e2 = []"
  proof (cases "ret (mainSequence env d sb)")
    case None
    from body_ok [OF this] ran(3) assms have "e2 = out (mainSequence env d sb)" by simp
    then show ?thesis by (simp add: mainSequence_no_Sleep)
  next
    case (Some s)
    from body_failed [OF this] ran(3) have "e2 = out (mainSequence env d sb)" by simp
    then show ?thesis by (simp add: mainSequence_no_Sleep)
  qed
  with ran(1,2,4,5) show ?thesis
    by (simp add: resolve_no_Sleep checkRunning_no_Sleep runDefers_no_Sleep)
qed

lemma failure_no_Sleep:
  assumes "\<exists>e\<in>set (snd (Execute env root d as)). is_Errorf e \<or> is_Usage e"
  shows "filter is_Sleep (snd (Execute env root d as)) = []"
proof (cases rule: Execute_cases [of env root d as])
  case (resolve_failed st e0)
  then show ?thesis by (simp add: resolve_no_Sleep)
next
  case (not_running c e0 st e1)
  then show ?thesis by (simp add: resolve_no_Sleep checkRunning_no_Sleep)
next
  case (ran c e0 sb e1 st e2 fatal e3)
  from assms ran(5) obtain e where e: "e \<in> set e0 \<or> e \<in> set e1 \<or> e \<in> set e2 \<or> e \<in> set e3"
    "is_Errorf e \<or> is_Usage e" by auto
  have "e \<notin> set e0" using resolve_ok_quiet [OF ran(1), of e] e(2) by (cases e) auto
  moreover have "e \<notin> set e1" using checkRunning_ok_quiet [OF ran(2), of e] e(2) by (cases e) auto
  moreover have "e \<notin> set e3" using runDefers_kinds [OF ran(4), of e] e(2) by (cases e) auto
  ultimately have "e \<in> set e2" using e(1) by simp
  from body_events [OF ran(3) this] e(2) have m: "e \<in> set (out (mainSequence env d sb))" by auto
  with mainSequence_kinds [OF m] e(2) have "is_Errorf e" by (cases e) auto
  with m mainSequence_ret [of env d sb] obtain s where "ret (mainSequence env d sb) = Some s"
    by (cases "ret (mainSequence env d sb)") auto
  from body_failed [OF this] ran(3) have "e2 = out (mainSequence env d sb)" by simp
  then have "filter is_Sleep e2 = []" by (simp add: mainSequence_no_Sleep)
  with ran(1,2,4,5) show ?thesis
    by (simp add: resolve_no_Sleep checkRunning_no_Sleep runDefers_no_Sleep)
qed

subsection \<open>The log level\<close>

lemma parseLevel_iff:
  "parseLevel l = Some Warning \<longleftrightarrow> l \<in> {''warning'', ''0''}"
  "parseLevel l = Some Info \<longleftrightarrow> l \<in> {''info'', ''1''}"
  "parseLevel l = Some Debug \<longleftrightarrow> l \<in> {''debug'', ''2''}"
  "parseLevel l = None \<longleftrightarrow> l \<notin> {''warning'', ''0'', ''info'', ''1'', ''debug'', ''2''}"
  by (auto simp: parseLevel_def)

lemma levelArgs_accepted:
  assumes "logLevel d \<noteq> ''''" and "parseLevel (strings_ToLower env (logLevel d)) = Some lv"
  shows "levelArgs env d a =
           (Inr (a\<lparr>SetLevel := True, Level := lv\<rparr>), [Call_Infof ''Setting log level %v'' [L lv]])"
  using assms by (simp add: levelArgs_def)

lemma levelArgs_rejected:
  assumes "logLevel d \<noteq> ''''" and "parseLevel (strings_ToLower env (logLevel d)) = None"
  shows "levelArgs env d a =
           (Inl ExitFailure, [Call_Errorf ''invalid log level %d'' [S (logLevel d)]])"
  using assms by (simp add: levelArgs_def)

lemma changeLogging_rejected:
  assumes "logLevel d \<noteq> ''''" and "parseLevel (strings_ToLower env (logLevel d)) = None"
  shows "changeLogging env d sb =
           \<lparr>ret = Some ExitFailure,
            out = snd (straceArgs env d initialArgs) @
                  [Call_Errorf ''invalid log level %d'' [S (logLevel d)]],
            defers = [], setDelay = False\<rparr>"
  using assms
  by (simp add: changeLogging_def levelArgs_rejected split: prod.splits)

lemma rejected_nothing_sent:
  assumes "logLevel d \<noteq> ''''" and "parseLevel (strings_ToLower env (logLevel d)) = None"
  shows "filter is_ChangeLogging (snd (Execute env root d as)) = []"
  unfolding filter_empty_conv
proof
  fix e assume e: "e \<in> set (snd (Execute env root d as))"
  show "\<not> is_ChangeLogging e"
  proof
    assume "is_ChangeLogging e"
    then obtain sb args r where "e = Call_ChangeLogging sb args r" by (cases e) auto
    with e have "Call_ChangeLogging sb args r \<in> set (out (changeLogging env d sb))"
      by (simp add: Execute_ChangeLogging)
    from changeLogging_sent(7) [OF this assms(1)] assms(2) show False by simp
  qed
qed

lemma scan_formats:
  "scan env root p ids = (r, es) \<Longrightarrow> Call_Errorf fmt as \<in> set es \<Longrightarrow>
     fmt = ''loading container %q: %v''"
  by (induction ids arbitrary: r es)
     (auto simp: Let_def split: sum.splits if_splits prod.splits)

lemma resolve_formats:
  "resolve env root d xs = (r, es) \<Longrightarrow> Call_Errorf fmt as \<in> set es \<Longrightarrow>
     fmt \<in> {''loading container %q: %v'', ''listing containers: %v'',
            ''container with PID %d not found''}"
  by (auto simp: resolve_def Let_def split: sum.splits if_splits prod.splits option.splits
      dest: scan_formats)

lemma checkRunning_formats:
  "checkRunning env c = (r, es) \<Longrightarrow> Call_Errorf fmt as \<in> set es \<Longrightarrow>
     fmt = ''container sandbox is not running''"
  by (auto simp: checkRunning_def split: option.splits if_splits)

subsection \<open>The set flags of a logging change\<close>

lemma no_logging_input_nothing_sent:
  assumes "strace d = ''''" and "logLevel d = ''''" and "logPackets d = ''''"
  shows "changeLogging env d sb = falls []"
  using assms by (simp add: changeLogging_def)

lemma set_flags_follow_level_and_packets:
  assumes "Call_ChangeLogging sb args r \<in> set (snd (Execute env root d as))"
  shows "(SetLevel args \<longleftrightarrow> logLevel d \<noteq> '''') \<and> (SetLogPackets args \<longleftrightarrow> logPackets d \<noteq> '''') \<and>
         SetStrace args"
  using changeLogging_sent(3,6,8) [OF Execute_ChangeLogging [OF assms]] by simp

text \<open>
  C1.  The claim has the strace flag of the logging change set only when a strace
  value is given.  With a log level alone, the one logging change that is sent has
  the strace flag set all the same, with strace not enabled: line 189 sets the flag
  before line 191 looks at the strace value.
\<close>

theorem level_only_sets_strace:
  "strace (noFlags\<lparr>logLevel := ''info''\<rparr>) = '''' \<and>
   filter is_ChangeLogging (snd (Execute okEnv ''/run/a'' (noFlags\<lparr>logLevel := ''info''\<rparr>) [''abc''])) =
     [Call_ChangeLogging sandbox_abc
        \<lparr>SetLevel = True, Level = Info, SetLogPackets = False, LogPackets = False,
          SetStrace = True, EnableStrace = False, StraceWhitelist = []\<rparr> None]"
  by (simp add: run_level_info)

subsection \<open>The cleanup of a started session\<close>

lemma cpuProfile_started:
  assumes "Call_StartCPUProfile sb' f r \<in> set (out (cpuProfile env d sb))"
  shows "sb' = sb" and "r = StartCPUProfile env sb f"
    and "defers (cpuProfile env d sb) = [CPUCleanup f]"
    and "os_Create env (profileCPU d) = Inr f"
  using assms
  by (auto simp: cpuProfile_def falls_def Errorf_def Let_def
      split: if_splits sum.splits option.splits)

lemma traceExecution_started:
  assumes "Call_StartTrace sb' f r \<in> set (out (traceExecution env d sb))"
  shows "sb' = sb" and "r = StartTrace env sb f"
    and "defers (traceExecution env d sb) = [TraceCleanup f]"
    and "os_Create env (trace d) = Inr f"
  using assms
  by (auto simp: traceExecution_def falls_def Errorf_def Let_def
      split: if_splits sum.splits option.splits)

lemma traceExecution_defers_cases:
  "(defers (traceExecution env d sb) = [] \<and>
      (\<forall>e\<in>set (out (traceExecution env d sb)). \<not> is_StartTrace e)) \<or>
   (\<exists>f. defers (traceExecution env d sb) = [TraceCleanup f] \<and>
        Call_StartTrace sb f (StartTrace env sb f) \<in> set (out (traceExecution env d sb)))"
  by (auto simp: traceExecution_def falls_def Errorf_def Let_def
      split: if_splits sum.splits option.splits)

lemma heapProfile_heapProfile_defers [simp]: "defers (falls es) = []"
  by (simp add: falls_def)

lemma run_changeLogging_defers [simp]: "defers (run [changeLogging env d sb]) = []"
  by (cases "ret (changeLogging env d sb)") (simp_all add: falls_def Let_def)

text \<open>The deferred calls of the main sequence once the first three blocks fell through.\<close>

lemma mainSequence_defers_after_heap:
  assumes "ret (sendSignal env d sb) = None" and "ret (dumpStacks env d sb) = None"
    and "ret (heapProfile env d sb) = None"
  shows "defers (mainSequence env d sb) =
           (if ret (cpuProfile env d sb) = None then defers (traceExecution env d sb) else []) @
           defers (cpuProfile env d sb) @ defers (heapProfile env d sb)"
proof (cases "ret (cpuProfile env d sb)")
  case None
  show ?thesis
  proof (cases "ret (traceExecution env d sb)")
    case n: None
    with assms None show ?thesis
      by (simp add: mainSequence_def run_Cons_None del: run.simps)
  next
    case (Some st)
    with assms None show ?thesis
      by (simp add: mainSequence_def run_Cons_None run_Cons_Some del: run.simps)
  qed
next
  case (Some st)
  with assms show ?thesis
    by (simp add: mainSequence_def run_Cons_None run_Cons_Some del: run.simps)
qed

lemma mainSequence_out_subset:
  assumes "ret (sendSignal env d sb) = None" and "ret (dumpStacks env d sb) = None"
    and "ret (heapProfile env d sb) = None" and "ret (cpuProfile env d sb) = None"
  shows "set (out (traceExecution env d sb)) \<subseteq> set (out (mainSequence env d sb))"
proof (cases "ret (traceExecution env d sb)")
  case None
  with assms show ?thesis
    by (auto simp: mainSequence_def run_Cons_None simp del: run.simps)
next
  case (Some st)
  with assms show ?thesis
    by (auto simp: mainSequence_def run_Cons_None run_Cons_Some simp del: run.simps)
qed

lemma body_out_subset: "body env d sb = (st, e2) \<Longrightarrow> set (out (mainSequence env d sb)) \<subseteq> set e2"
  by (auto simp: body_def Let_def split: option.splits if_splits)

lemma runDefers_TraceCleanup:
  "\<exists>rest. snd (runDefers env d sb (TraceCleanup f # ds)) =
            [Call_Close f, Call_StopTrace sb (StopTrace env sb)] @ rest"
  by (cases "StopTrace env sb"; cases "runDefers env d sb ds") (auto simp: Let_def)

lemma runDefers_CPUCleanup:
  "\<exists>rest. snd (runDefers env d sb (CPUCleanup f # ds)) =
            [Call_Close f, Call_StopCPUProfile sb (StopCPUProfile env sb)] @ rest"
  by (cases "StopCPUProfile env sb"; cases "runDefers env d sb ds") (auto simp: Let_def)

text \<open>
  The shape of an execution in which a session was given its start request: the
  cleanup of that session is among the deferred calls when the body returns.
\<close>

lemma trace_started_shape:
  assumes "Call_StartTrace sb f r \<in> set (snd (Execute env root d as))"
  obtains c e0 e1 st e2 fatal e3 where
    "resolve env root d as = (Inr c, e0)" "checkRunning env c = (Inr sb, e1)"
    "body env d sb = (st, e2)"
    "runDefers env d sb (defers (mainSequence env d sb)) = (fatal, e3)"
    "Execute env root d as = (if fatal then Terminated else Returned st, e0 @ e1 @ e2 @ e3)"
    "Call_StartTrace sb f r \<in> set (out (mainSequence env d sb))"
    "defers (mainSequence env d sb) =
       TraceCleanup f # defers (cpuProfile env d sb) @ defers (heapProfile env d sb)"
proof -
  let ?e = "Call_StartTrace sb f r"
  from assms obtain c e0 sb0 e1 st e2 fatal e3 where
    x: "resolve env root d as = (Inr c, e0)" "checkRunning env c = (Inr sb0, e1)"
      "body env d sb0 = (st, e2)"
      "runDefers env d sb0 (defers (mainSequence env d sb0)) = (fatal, e3)"
      "Execute env root d as = (if fatal then Terminated else Returned st, e0 @ e1 @ e2 @ e3)"
      "?e \<in> set (out (mainSequence env d sb0))"
    by (rule Execute_in_mainSequence) auto
  from in_mainSequence_trace [OF x(6)] have
    b: "?e \<in> set (out (traceExecution env d sb0))" "ret (sendSignal env d sb0) = None"
      "ret (dumpStacks env d sb0) = None" "ret (heapProfile env d sb0) = None"
      "ret (cpuProfile env d sb0) = None"
    by simp_all
  from traceExecution_started [OF b(1)] have sb: "sb0 = sb"
    and ds: "defers (traceExecution env d sb0) = [TraceCleanup f]"
    by simp_all
  have "defers (mainSequence env d sb0) =
      TraceCleanup f # defers (cpuProfile env d sb0) @ defers (heapProfile env d sb0)"
    using mainSequence_defers_after_heap [of env d sb0] b(2-5) ds by simp
  with x sb that show thesis by simp
qed

lemma cpu_started_shape:
  assumes "Call_StartCPUProfile sb f r \<in> set (snd (Execute env root d as))"
  obtains c e0 e1 st e2 fatal e3 X where
    "resolve env root d as = (Inr c, e0)" "checkRunning env c = (Inr sb, e1)"
    "body env d sb = (st, e2)"
    "runDefers env d sb (defers (mainSequence env d sb)) = (fatal, e3)"
    "Execute env root d as = (if fatal then Terminated else Returned st, e0 @ e1 @ e2 @ e3)"
    "Call_StartCPUProfile sb f r \<in> set (out (mainSequence env d sb))"
    "defers (mainSequence env d sb) = X @ CPUCleanup f # defers (heapProfile env d sb)"
    "X = [] \<or> (\<exists>g. X = [TraceCleanup g])"
    "(\<exists>e\<in>set (snd (Execute env root d as)). is_StartTrace e) \<longleftrightarrow> X \<noteq> []"
proof -
  let ?e = "Call_StartCPUProfile sb f r"
  let ?tr = "snd (Execute env root d as)"
  from assms obtain c e0 sb0 e1 st e2 fatal e3 where
    x: "resolve env root d as = (Inr c, e0)" "checkRunning env c = (Inr sb0, e1)"
      "body env d sb0 = (st, e2)"
      "runDefers env d sb0 (defers (mainSequence env d sb0)) = (fatal, e3)"
      "Execute env root d as = (if fatal then Terminated else Returned st, e0 @ e1 @ e2 @ e3)"
      "?e \<in> set (out (mainSequence env d sb0))"
    by (rule Execute_in_mainSequence) auto
  from in_mainSequence_cpu [OF x(6)] have
    b: "?e \<in> set (out (cpuProfile env d sb0))" "ret (sendSignal env d sb0) = None"
      "ret (dumpStacks env d sb0) = None" "ret (heapProfile env d sb0) = None"
    by simp_all
  from cpuProfile_started [OF b(1)] have sb [simp]: "sb0 = sb"
    and dc: "defers (cpuProfile env d sb) = [CPUCleanup f]"
    by simp_all
  let ?X = "if ret (cpuProfile env d sb) = None then defers (traceExecution env d sb) else []"
  have dm: "defers (mainSequence env d sb) = ?X @ CPUCleanup f # defers (heapProfile env d sb)"
    using mainSequence_defers_after_heap [of env d sb] b(2-4) dc by simp
  have cases: "?X = [] \<or> (\<exists>g. ?X = [TraceCleanup g])"
    using traceExecution_defers_cases [of env d sb] by auto
  have started_iff: "(\<exists>e\<in>set ?tr. is_StartTrace e) \<longleftrightarrow> ?X \<noteq> []"
  proof
    assume "\<exists>e\<in>set ?tr. is_StartTrace e"
    then obtain e where e: "e \<in> set ?tr" "is_StartTrace e" by blast
    from e(2) obtain sb' g r' where eq: "e = Call_StartTrace sb' g r'" by (cases e) auto
    from e(1) obtain c' e0' sb1 e1' where
      y: "resolve env root d as = (Inr c', e0')" "checkRunning env c' = (Inr sb1, e1')"
        "e \<in> set (out (mainSequence env d sb1))"
      by (rule Execute_in_mainSequence) (use e(2) in auto)
    with x(1,2) have "sb1 = sb" by simp
    with y(3) e(2) in_mainSequence_trace [of e env d sb]
    have t: "e \<in> set (out (traceExecution env d sb))" "ret (cpuProfile env d sb) = None"
      by simp_all
    from traceExecution_started(3) [OF t(1) [unfolded eq]] t(2) show "?X \<noteq> []" by simp
  next
    assume n: "?X \<noteq> []"
    then have r: "ret (cpuProfile env d sb) = None" "defers (traceExecution env d sb) \<noteq> []"
      by (auto split: if_splits)
    with traceExecution_defers_cases [of env d sb] obtain g where
      "Call_StartTrace sb g (StartTrace env sb g) \<in> set (out (traceExecution env d sb))"
      by auto
    with mainSequence_out_subset [OF b(2-4) [simplified] r(1)] body_out_subset [OF x(3)]
    have "Call_StartTrace sb g (StartTrace env sb g) \<in> set e2" by auto
    with x(5) show "\<exists>e\<in>set ?tr. is_StartTrace e" by force
  qed
  from x [simplified] dm cases started_iff that show thesis by blast
qed

lemma before_finalization_no_stop:
  assumes "resolve env root d as = (Inr c, e0)" and "checkRunning env c = (Inr sb, e1)"
    and "body env d sb = (st, e2)" and "e \<in> set (e0 @ e1 @ e2)"
  shows "\<not> is_Close e \<and> \<not> is_StopCPUProfile e \<and> \<not> is_StopTrace e \<and> \<not> is_Fatalf e"
proof -
  from assms(4) have "e \<in> set e0 \<or> e \<in> set e1 \<or> e \<in> set e2" by simp
  then have "is_Usage e \<or> is_List e \<or> is_Load e \<or> is_IsRunning e \<or> is_Infof e \<or>
      is_Errorf e \<or> is_Kill e \<or> is_Stacks e \<or> is_Create e \<or> is_HeapProfile e \<or>
      is_StartCPUProfile e \<or> is_StartTrace e \<or> is_ChangeLogging e \<or> is_Sleep e"
    using resolve_kinds [OF assms(1), of e] checkRunning_kinds [OF assms(2), of e]
      body_events [OF assms(3), of e] mainSequence_kinds [of e env d sb]
    by auto
  then show ?thesis by (cases e) auto
qed

lemma trace_cleanup_runs:
  assumes "Call_StartTrace sb f r \<in> set (snd (Execute env root d as))"
  shows "\<exists>pre post. snd (Execute env root d as) =
            pre @ [Call_Close f, Call_StopTrace sb (StopTrace env sb)] @ post \<and>
          Call_StartTrace sb f r \<in> set pre"
proof -
  from assms obtain c e0 e1 st e2 fatal e3 where
    x: "body env d sb = (st, e2)"
      "runDefers env d sb (defers (mainSequence env d sb)) = (fatal, e3)"
      "Execute env root d as = (if fatal then Terminated else Returned st, e0 @ e1 @ e2 @ e3)"
      "Call_StartTrace sb f r \<in> set (out (mainSequence env d sb))"
      "defers (mainSequence env d sb) =
         TraceCleanup f # defers (cpuProfile env d sb) @ defers (heapProfile env d sb)"
    by (rule trace_started_shape)
  from x(2,5) runDefers_TraceCleanup [of env d sb f
      "defers (cpuProfile env d sb) @ defers (heapProfile env d sb)"]
  obtain rest where e3: "e3 = [Call_Close f, Call_StopTrace sb (StopTrace env sb)] @ rest"
    by auto
  have "Call_StartTrace sb f r \<in> set e2" using body_out_subset [OF x(1)] x(4) by auto
  then have "Call_StartTrace sb f r \<in> set (e0 @ e1 @ e2)" by simp
  moreover have "snd (Execute env root d as) =
      (e0 @ e1 @ e2) @ [Call_Close f, Call_StopTrace sb (StopTrace env sb)] @ rest"
    using x(3) e3 by simp
  ultimately show ?thesis by blast
qed

lemma cpu_cleanup_runs:
  assumes "Call_StartCPUProfile sb f r \<in> set (snd (Execute env root d as))"
  shows "if (\<exists>e\<in>set (snd (Execute env root d as)). is_StartTrace e) \<and> StopTrace env sb \<noteq> None
         then fst (Execute env root d as) = Terminated \<and>
              filter is_StopCPUProfile (snd (Execute env root d as)) = []
         else (\<exists>pre post. snd (Execute env root d as) =
                  pre @ [Call_Close f, Call_StopCPUProfile sb (StopCPUProfile env sb)] @ post \<and>
                Call_StartCPUProfile sb f r \<in> set pre)"
proof -
  let ?e = "Call_StartCPUProfile sb f r"
  let ?tr = "snd (Execute env root d as)"
  let ?dh = "defers (heapProfile env d sb)"
  from assms obtain c e0 e1 st e2 fatal e3 X where
    x: "resolve env root d as = (Inr c, e0)" "checkRunning env c = (Inr sb, e1)"
      "body env d sb = (st, e2)"
      "runDefers env d sb (defers (mainSequence env d sb)) = (fatal, e3)"
      "Execute env root d as = (if fatal then Terminated else Returned st, e0 @ e1 @ e2 @ e3)"
      "?e \<in> set (out (mainSequence env d sb))"
    and dm: "defers (mainSequence env d sb) = X @ CPUCleanup f # ?dh"
    and X: "X = [] \<or> (\<exists>g. X = [TraceCleanup g])"
    and started_iff: "(\<exists>e\<in>set ?tr. is_StartTrace e) \<longleftrightarrow> X \<noteq> []"
    by (rule cpu_started_shape)
  have e2: "?e \<in> set (e0 @ e1 @ e2)" using body_out_subset [OF x(3)] x(6) by auto
  show ?thesis
  proof (cases "X = []")
    case True
    with dm x(4) runDefers_CPUCleanup [of env d sb f ?dh]
    obtain rest where "e3 = [Call_Close f, Call_StopCPUProfile sb (StopCPUProfile env sb)] @ rest"
      by auto
    with x(5) have "?tr =
        (e0 @ e1 @ e2) @ [Call_Close f, Call_StopCPUProfile sb (StopCPUProfile env sb)] @ rest"
      by simp
    with e2 True started_iff show ?thesis by (simp only: if_False simp_thms) blast
  next
    case False
    with X obtain g where Xg: "X = [TraceCleanup g]" by auto
    show ?thesis
    proof (cases "StopTrace env sb")
      case None
      obtain rest where rest: "snd (runDefers env d sb (CPUCleanup f # ?dh)) =
          [Call_Close f, Call_StopCPUProfile sb (StopCPUProfile env sb)] @ rest"
        using runDefers_CPUCleanup [of env d sb f ?dh] by blast
      let ?t = "[Call_Close g, Call_StopTrace sb None,
                 Call_Infof ''Trace written to %q'' [S (trace d)]]"
      from x(4) dm Xg None rest have "e3 = ?t @
          [Call_Close f, Call_StopCPUProfile sb (StopCPUProfile env sb)] @ rest"
        by (cases "runDefers env d sb (CPUCleanup f # ?dh)") (simp add: Let_def)
      with x(5) have "?tr = (e0 @ e1 @ e2 @ ?t) @
          [Call_Close f, Call_StopCPUProfile sb (StopCPUProfile env sb)] @ rest"
        by simp
      moreover from e2 have "?e \<in> set (e0 @ e1 @ e2 @ ?t)" by simp
      ultimately show ?thesis using None by (simp only: simp_thms if_False) blast
    next
      case (Some err)
      from x(4) dm Xg Some have f: "fatal"
        and e3: "e3 = [Call_Close g, Call_StopTrace sb (Some err), Call_Fatalf err []]"
        by (simp_all add: Let_def)
      have "filter is_StopCPUProfile ?tr = []"
        unfolding filter_empty_conv
      proof
        fix e assume "e \<in> set ?tr"
        with x(5) e3 have "e \<in> set (e0 @ e1 @ e2) \<or>
            e \<in> {Call_Close g, Call_StopTrace sb (Some err), Call_Fatalf err []}"
          by auto
        with before_finalization_no_stop [OF x(1,2,3), of e] show "\<not> is_StopCPUProfile e"
          by auto
      qed
      moreover from x(5) f have "fst (Execute env root d as) = Terminated" by simp
      moreover from False started_iff have "\<exists>e\<in>set ?tr. is_StartTrace e" by simp
      ultimately show ?thesis using Some by simp
    qed
  qed
qed

subsection \<open>The last event of a block that returns\<close>

text \<open>A block that returns has reported an error as its last event.\<close>

lemma sendSignal_last:
  "ret (sendSignal env d sb) \<noteq> None \<Longrightarrow>
     \<exists>es fmt as. out (sendSignal env d sb) = es @ [Call_Errorf fmt as]"
  by (auto simp: sendSignal_def falls_def Errorf_def Let_def split: option.splits if_splits)

lemma dumpStacks_last:
  "ret (dumpStacks env d sb) \<noteq> None \<Longrightarrow>
     \<exists>es fmt as. out (dumpStacks env d sb) = es @ [Call_Errorf fmt as]"
  by (auto simp: dumpStacks_def falls_def Errorf_def Let_def split: sum.splits if_splits)

lemma heapProfile_last:
  "ret (heapProfile env d sb) \<noteq> None \<Longrightarrow>
     \<exists>es fmt as. out (heapProfile env d sb) = es @ [Call_Errorf fmt as]"
  by (auto simp: heapProfile_def falls_def Errorf_def Let_def
      split: sum.splits option.splits if_splits)

lemma cpuProfile_last:
  "ret (cpuProfile env d sb) \<noteq> None \<Longrightarrow>
     \<exists>es fmt as. out (cpuProfile env d sb) = es @ [Call_Errorf fmt as]"
  by (auto simp: cpuProfile_def falls_def Errorf_def Let_def
      split: sum.splits option.splits if_splits)

lemma traceExecution_last:
  "ret (traceExecution env d sb) \<noteq> None \<Longrightarrow>
     \<exists>es fmt as. out (traceExecution env d sb) = es @ [Call_Errorf fmt as]"
  by (auto simp: traceExecution_def falls_def Errorf_def Let_def
      split: sum.splits option.splits if_splits)

lemma levelArgs_last:
  "levelArgs env d a = (Inl st, es) \<Longrightarrow> \<exists>fmt as. es = [Call_Errorf fmt as]"
  by (auto simp: levelArgs_def Let_def split: if_splits option.splits)

lemma packetsArgs_last:
  "packetsArgs d a = (Inl st, es) \<Longrightarrow> \<exists>fmt as. es = [Call_Errorf fmt as]"
  by (auto simp: packetsArgs_def Let_def split: if_splits sum.splits)

lemma changeLogging_last:
  assumes "ret (changeLogging env d sb) \<noteq> None"
  shows "\<exists>es fmt as. out (changeLogging env d sb) = es @ [Call_Errorf fmt as]"
proof (cases "strace d \<noteq> '''' \<or> length (logLevel d) \<noteq> 0 \<or> length (logPackets d) \<noteq> 0")
  case False
  with assms show ?thesis by (simp add: changeLogging_def falls_def)
next
  case True
  obtain a1 e1 where s: "straceArgs env d initialArgs = (a1, e1)"
    by (cases "straceArgs env d initialArgs")
  obtain r2 e2 where l: "levelArgs env d a1 = (r2, e2)" by (cases "levelArgs env d a1")
  show ?thesis
  proof (cases r2)
    case (Inl st)
    with levelArgs_last [of env d a1 st e2] l obtain fmt as where "e2 = [Call_Errorf fmt as]"
      by auto
    with True s l Inl show ?thesis by (auto simp: changeLogging_def)
  next
    case (Inr a2)
    obtain r3 e3 where p: "packetsArgs d a2 = (r3, e3)" by (cases "packetsArgs d a2")
    show ?thesis
    proof (cases r3)
      case (Inl st)
      with packetsArgs_last [of d a2 st e3] p obtain fmt as where "e3 = [Call_Errorf fmt as]"
        by auto
      with True s l \<open>r2 = Inr a2\<close> p Inl have
        "out (changeLogging env d sb) = (e1 @ e2) @ [Call_Errorf fmt as]"
        by (simp add: changeLogging_def)
      then show ?thesis by blast
    next
      case (Inr a3)
      show ?thesis
      proof (cases "ChangeLogging env sb a3")
        case None
        with True s l \<open>r2 = Inr a2\<close> p Inr assms show ?thesis
          by (simp add: changeLogging_def falls_def Let_def)
      next
        case (Some err)
        with True s l \<open>r2 = Inr a2\<close> p Inr have
          "out (changeLogging env d sb) =
             (e1 @ e2 @ e3 @ [Call_ChangeLogging sb a3 (Some err)]) @ [Call_Errorf err []]"
          by (simp add: changeLogging_def Errorf_def Let_def)
        then show ?thesis by blast
      qed
    qed
  qed
qed

lemma run_last:
  assumes "\<forall>b\<in>set bs. ret b \<noteq> None \<longrightarrow> (\<exists>es fmt as. out b = es @ [Call_Errorf fmt as])"
    and "ret (run bs) \<noteq> None"
  shows "\<exists>es fmt as. out (run bs) = es @ [Call_Errorf fmt as]"
  using assms
proof (induction bs)
  case Nil
  then show ?case by (simp add: falls_def)
next
  case (Cons b bs)
  show ?case
  proof (cases "ret b")
    case None
    with Cons.prems have "ret (run bs) \<noteq> None" by (simp add: Let_def)
    with Cons obtain es fmt as where "out (run bs) = es @ [Call_Errorf fmt as]" by auto
    with None have "out (run (b # bs)) = (out b @ es) @ [Call_Errorf fmt as]"
      by (simp add: Let_def)
    then show ?thesis by blast
  next
    case (Some st)
    with Cons.prems show ?thesis by simp
  qed
qed

lemma mainSequence_last:
  assumes "ret (mainSequence env d sb) \<noteq> None"
  shows "\<exists>es fmt as. out (mainSequence env d sb) = es @ [Call_Errorf fmt as]"
  using assms unfolding mainSequence_def
  by (rule run_last [rotated])
     (simp add: sendSignal_last dumpStacks_last heapProfile_last cpuProfile_last
        traceExecution_last changeLogging_last del: run.simps)

text \<open>A block that fell through with its flag given has deferred its cleanup.\<close>

lemma traceExecution_fell_through:
  assumes "ret (traceExecution env d sb) = None"
  shows "if trace d = '''' then defers (traceExecution env d sb) = []
         else \<exists>f. os_Create env (trace d) = Inr f \<and>
                  defers (traceExecution env d sb) = [TraceCleanup f]"
  using assms
  by (auto simp: traceExecution_def falls_def Errorf_def Let_def
      split: sum.splits option.splits if_splits)

lemma cpuProfile_fell_through:
  assumes "ret (cpuProfile env d sb) = None"
  shows "if profileCPU d = '''' then defers (cpuProfile env d sb) = []
         else \<exists>f. os_Create env (profileCPU d) = Inr f \<and>
                  defers (cpuProfile env d sb) = [CPUCleanup f]"
  using assms
  by (auto simp: cpuProfile_def falls_def Errorf_def Let_def
      split: sum.splits option.splits if_splits)

subsection \<open>Finalization after a failure and after the delay\<close>

lemma reported_main_failed:
  assumes "resolve env root d as = (Inr c, e0)" and "checkRunning env c = (Inr sb, e1)"
    and "body env d sb = (st, e2)"
    and "runDefers env d sb (defers (mainSequence env d sb)) = (fatal, e3)"
    and "\<exists>e\<in>set (e0 @ e1 @ e2 @ e3). is_Errorf e"
  shows "ret (mainSequence env d sb) \<noteq> None"
proof
  assume n: "ret (mainSequence env d sb) = None"
  from assms(5) obtain e where e: "e \<in> set e0 \<or> e \<in> set e1 \<or> e \<in> set e2 \<or> e \<in> set e3"
    "is_Errorf e" by auto
  have "e \<notin> set e0" using resolve_ok_quiet [OF assms(1), of e] e(2) by (cases e) auto
  moreover have "e \<notin> set e1" using checkRunning_ok_quiet [OF assms(2), of e] e(2) by (cases e) auto
  moreover have "e \<notin> set e3" using runDefers_kinds [OF assms(4), of e] e(2) by (cases e) auto
  ultimately have "e \<in> set e2" using e(1) by simp
  from body_events [OF assms(3) this] e(2) have "e \<in> set (out (mainSequence env d sb))" by auto
  with n e(2) mainSequence_ret [of env d sb] show False by auto
qed

lemma trace_failure_cleanup_at_once:
  assumes "Call_StartTrace sb g r \<in> set (snd (Execute env root d as))"
    and "\<exists>e\<in>set (snd (Execute env root d as)). is_Errorf e"
  shows "\<exists>pre fmt xs post. snd (Execute env root d as) =
            pre @ [Call_Errorf fmt xs, Call_Close g, Call_StopTrace sb (StopTrace env sb)] @ post \<and>
          Call_StartTrace sb g r \<in> set pre"
proof -
  from assms(1) obtain c e0 e1 st e2 fatal e3 where
    x: "resolve env root d as = (Inr c, e0)" "checkRunning env c = (Inr sb, e1)"
      "body env d sb = (st, e2)"
      "runDefers env d sb (defers (mainSequence env d sb)) = (fatal, e3)"
      "Execute env root d as = (if fatal then Terminated else Returned st, e0 @ e1 @ e2 @ e3)"
      "Call_StartTrace sb g r \<in> set (out (mainSequence env d sb))"
      "defers (mainSequence env d sb) =
         TraceCleanup g # defers (cpuProfile env d sb) @ defers (heapProfile env d sb)"
    by (rule trace_started_shape)
  from assms(2) x(5) have "\<exists>e\<in>set (e0 @ e1 @ e2 @ e3). is_Errorf e" by simp
  from reported_main_failed [OF x(1-4) this] obtain s where s: "ret (mainSequence env d sb) = Some s"
    by auto
  then obtain es fmt xs where m: "out (mainSequence env d sb) = es @ [Call_Errorf fmt xs]"
    using mainSequence_last [of env d sb] by auto
  from body_failed [OF s] x(3) m have e2: "e2 = es @ [Call_Errorf fmt xs]" by simp
  from x(4,7) runDefers_TraceCleanup [of env d sb g
      "defers (cpuProfile env d sb) @ defers (heapProfile env d sb)"]
  obtain rest where e3: "e3 = [Call_Close g, Call_StopTrace sb (StopTrace env sb)] @ rest"
    by auto
  from x(6) m have "Call_StartTrace sb g r \<in> set (e0 @ e1 @ es)" by auto
  moreover from x(5) e2 e3 have "snd (Execute env root d as) =
      (e0 @ e1 @ es) @ [Call_Errorf fmt xs, Call_Close g, Call_StopTrace sb (StopTrace env sb)] @ rest"
    by simp
  ultimately show ?thesis by blast
qed

lemma cpu_failure_cleanup_at_once:
  assumes "Call_StartCPUProfile sb f r \<in> set (snd (Execute env root d as))"
    and "\<forall>e\<in>set (snd (Execute env root d as)). \<not> is_StartTrace e"
    and "\<exists>e\<in>set (snd (Execute env root d as)). is_Errorf e"
  shows "\<exists>pre fmt xs post. snd (Execute env root d as) =
            pre @ [Call_Errorf fmt xs, Call_Close f,
                   Call_StopCPUProfile sb (StopCPUProfile env sb)] @ post \<and>
          Call_StartCPUProfile sb f r \<in> set pre"
proof -
  let ?dh = "defers (heapProfile env d sb)"
  from assms(1) obtain c e0 e1 st e2 fatal e3 X where
    x: "resolve env root d as = (Inr c, e0)" "checkRunning env c = (Inr sb, e1)"
      "body env d sb = (st, e2)"
      "runDefers env d sb (defers (mainSequence env d sb)) = (fatal, e3)"
      "Execute env root d as = (if fatal then Terminated else Returned st, e0 @ e1 @ e2 @ e3)"
      "Call_StartCPUProfile sb f r \<in> set (out (mainSequence env d sb))"
    and dm: "defers (mainSequence env d sb) = X @ CPUCleanup f # ?dh"
    and started_iff: "(\<exists>e\<in>set (snd (Execute env root d as)). is_StartTrace e) \<longleftrightarrow> X \<noteq> []"
    by (rule cpu_started_shape)
  from started_iff assms(2) have "X = []" by auto
  with dm x(4) runDefers_CPUCleanup [of env d sb f ?dh]
  obtain rest where e3: "e3 = [Call_Close f, Call_StopCPUProfile sb (StopCPUProfile env sb)] @ rest"
    by auto
  from assms(3) x(5) have "\<exists>e\<in>set (e0 @ e1 @ e2 @ e3). is_Errorf e" by simp
  from reported_main_failed [OF x(1-4) this] obtain s where s: "ret (mainSequence env d sb) = Some s"
    by auto
  then obtain es fmt xs where m: "out (mainSequence env d sb) = es @ [Call_Errorf fmt xs]"
    using mainSequence_last [of env d sb] by auto
  from body_failed [OF s] x(3) m have e2: "e2 = es @ [Call_Errorf fmt xs]" by simp
  from x(6) m have "Call_StartCPUProfile sb f r \<in> set (e0 @ e1 @ es)" by auto
  moreover from x(5) e2 e3 have "snd (Execute env root d as) =
      (e0 @ e1 @ es) @
      [Call_Errorf fmt xs, Call_Close f, Call_StopCPUProfile sb (StopCPUProfile env sb)] @ rest"
    by simp
  ultimately show ?thesis by blast
qed

lemma mainSequence_fell_through:
  assumes "ret (mainSequence env d sb) = None"
  shows "ret (sendSignal env d sb) = None" and "ret (dumpStacks env d sb) = None"
    and "ret (heapProfile env d sb) = None" and "ret (cpuProfile env d sb) = None"
    and "ret (traceExecution env d sb) = None" and "ret (changeLogging env d sb) = None"
proof -
  from assms have "\<forall>b\<in>set [sendSignal env d sb, dumpStacks env d sb, heapProfile env d sb,
      cpuProfile env d sb, traceExecution env d sb, changeLogging env d sb]. ret b = None"
    unfolding mainSequence_def by (rule run_None [THEN conjunct1])
  then show "ret (sendSignal env d sb) = None" and "ret (dumpStacks env d sb) = None"
    and "ret (heapProfile env d sb) = None" and "ret (cpuProfile env d sb) = None"
    and "ret (traceExecution env d sb) = None" and "ret (changeLogging env d sb) = None"
    by simp_all
qed

lemma success_Sleep_then_cleanup:
  assumes "profileCPU d \<noteq> '''' \<or> trace d \<noteq> ''''"
    and "\<forall>e\<in>set (snd (Execute env root d as)). \<not> is_Errorf e \<and> \<not> is_Usage e"
  shows "\<exists>sb pre post. snd (Execute env root d as) = pre @ Call_Sleep (sleepDuration d) # post \<and>
           (\<forall>e\<in>set pre. \<not> is_Sleep e \<and> \<not> is_Close e \<and> \<not> is_StopCPUProfile e \<and> \<not> is_StopTrace e) \<and>
           (\<forall>e\<in>set post. is_Close e \<or> is_StopCPUProfile e \<or> is_StopTrace e \<or> is_Fatalf e \<or>
                          is_Infof e) \<and>
           (if trace d \<noteq> ''''
            then \<exists>g rest. os_Create env (trace d) = Inr g \<and>
                   post = Call_Close g # Call_StopTrace sb (StopTrace env sb) # rest
            else \<exists>f rest. os_Create env (profileCPU d) = Inr f \<and>
                   post = Call_Close f # Call_StopCPUProfile sb (StopCPUProfile env sb) # rest)"
proof (cases rule: Execute_cases [of env root d as])
  case (resolve_failed st e0)
  with resolve_failed_reported [OF resolve_failed(1)] assms(2) show ?thesis by auto
next
  case (not_running c e0 st e1)
  with checkRunning_failed_reported [OF not_running(2)] assms(2) show ?thesis by auto
next
  case (ran c e0 sb e1 st e2 fatal e3)
  have m: "ret (mainSequence env d sb) = None"
  proof (rule ccontr)
    assume "ret (mainSequence env d sb) \<noteq> None"
    then obtain s where s: "ret (mainSequence env d sb) = Some s" by auto
    with mainSequence_ret [of env d sb] obtain e where
      "e \<in> set (out (mainSequence env d sb))" "is_Errorf e" by auto
    moreover from body_failed [OF s] ran(3) have "e2 = out (mainSequence env d sb)" by simp
    ultimately show False using assms(2) ran(5) by auto
  qed
  from body_ok [OF m] ran(3) assms(1)
  have e2: "e2 = out (mainSequence env d sb) @ [Call_Sleep (sleepDuration d)]" by auto
  let ?pre = "e0 @ e1 @ out (mainSequence env d sb)"
  have tr: "snd (Execute env root d as) = ?pre @ Call_Sleep (sleepDuration d) # e3"
    using ran(5) e2 by simp
  have pre: "\<not> is_Sleep e \<and> \<not> is_Close e \<and> \<not> is_StopCPUProfile e \<and> \<not> is_StopTrace e"
    if "e \<in> set ?pre" for e
  proof -
    from that have "e \<in> set e0 \<or> e \<in> set e1 \<or> e \<in> set (out (mainSequence env d sb))"
      by simp
    then have "is_Usage e \<or> is_List e \<or> is_Load e \<or> is_IsRunning e \<or> is_Infof e \<or>
        is_Errorf e \<or> is_Kill e \<or> is_Stacks e \<or> is_Create e \<or> is_HeapProfile e \<or>
        is_StartCPUProfile e \<or> is_StartTrace e \<or> is_ChangeLogging e"
      using resolve_kinds [OF ran(1), of e] checkRunning_kinds [OF ran(2), of e]
        mainSequence_kinds [of e env d sb]
      by blast
    then show ?thesis by (cases e) auto
  qed
  have post: "is_Close e \<or> is_StopCPUProfile e \<or> is_StopTrace e \<or> is_Fatalf e \<or> is_Infof e"
    if "e \<in> set e3" for e
    using runDefers_kinds [OF ran(4) that] .
  note rets = mainSequence_fell_through [OF m]
  have dm: "defers (mainSequence env d sb) =
      defers (traceExecution env d sb) @ defers (cpuProfile env d sb) @
      defers (heapProfile env d sb)"
    using mainSequence_defers_after_heap [of env d sb] rets by simp
  have fin: "if trace d \<noteq> ''''
            then \<exists>g rest. os_Create env (trace d) = Inr g \<and>
                   e3 = Call_Close g # Call_StopTrace sb (StopTrace env sb) # rest
            else \<exists>f rest. os_Create env (profileCPU d) = Inr f \<and>
                   e3 = Call_Close f # Call_StopCPUProfile sb (StopCPUProfile env sb) # rest"
  proof (cases "trace d = ''''")
    case False
    with traceExecution_fell_through [OF rets(5)] obtain g where
      g: "os_Create env (trace d) = Inr g" "defers (traceExecution env d sb) = [TraceCleanup g]"
      by auto
    with dm ran(4) runDefers_TraceCleanup [of env d sb g
        "defers (cpuProfile env d sb) @ defers (heapProfile env d sb)"]
    obtain rest where "e3 = Call_Close g # Call_StopTrace sb (StopTrace env sb) # rest" by auto
    with g(1) False show ?thesis by auto
  next
    case True
    with traceExecution_fell_through [OF rets(5)]
    have t: "defers (traceExecution env d sb) = []" by simp
    from True assms(1) cpuProfile_fell_through [OF rets(4)] obtain f where
      f: "os_Create env (profileCPU d) = Inr f" "defers (cpuProfile env d sb) = [CPUCleanup f]"
      by auto
    with dm t ran(4) runDefers_CPUCleanup [of env d sb f "defers (heapProfile env d sb)"]
    obtain rest where "e3 = Call_Close f # Call_StopCPUProfile sb (StopCPUProfile env sb) # rest"
      by auto
    with f(1) True show ?thesis by auto
  qed
  show ?thesis
    apply (rule exI [of _ sb], rule exI [of _ ?pre], rule exI [of _ e3])
    using tr pre post fin by blast
qed

subsection \<open>An execution that rejects the log level\<close>

lemma invalid_level_not_before:
  "Call_Errorf ''invalid log level %d'' [S x] \<notin> set (out (sendSignal env d sb))"
  "Call_Errorf ''invalid log level %d'' [S x] \<notin> set (out (dumpStacks env d sb))"
  "Call_Errorf ''invalid log level %d'' [S x] \<notin> set (out (heapProfile env d sb))"
  "Call_Errorf ''invalid log level %d'' [S x] \<notin> set (out (cpuProfile env d sb))"
  "Call_Errorf ''invalid log level %d'' [S x] \<notin> set (out (traceExecution env d sb))"
  by (auto simp: sendSignal_def dumpStacks_def heapProfile_def cpuProfile_def
        traceExecution_def falls_def Errorf_def Let_def
      split: sum.splits option.splits if_splits)

lemma levelArgs_invalid_event:
  "levelArgs env d a = (r, es) \<Longrightarrow> Call_Errorf ''invalid log level %d'' [S x] \<in> set es \<Longrightarrow>
     logLevel d \<noteq> '''' \<and> parseLevel (strings_ToLower env (logLevel d)) = None"
  by (auto simp: levelArgs_def Let_def split: if_splits option.splits)

lemma packetsArgs_no_invalid_level:
  "packetsArgs d a = (r, es) \<Longrightarrow> Call_Errorf ''invalid log level %d'' [S x] \<notin> set es"
  by (auto simp: packetsArgs_def Let_def split: if_splits sum.splits)

lemma straceArgs_no_invalid_level:
  "Call_Errorf ''invalid log level %d'' [S x] \<notin> set (snd (straceArgs env d a))"
  by (auto simp: straceArgs_def Let_def split: if_splits)

lemma changeLogging_invalid_event:
  assumes "Call_Errorf ''invalid log level %d'' [S x] \<in> set (out (changeLogging env d sb))"
  shows "logLevel d \<noteq> '''' \<and> parseLevel (strings_ToLower env (logLevel d)) = None"
proof (cases "strace d \<noteq> '''' \<or> length (logLevel d) \<noteq> 0 \<or> length (logPackets d) \<noteq> 0")
  case False
  with assms show ?thesis by (simp add: changeLogging_def falls_def)
next
  case True
  let ?e = "Call_Errorf ''invalid log level %d'' [S x]"
  obtain a1 e1 where s: "straceArgs env d initialArgs = (a1, e1)"
    by (cases "straceArgs env d initialArgs")
  have n1: "?e \<notin> set e1" using straceArgs_no_invalid_level [of x env d initialArgs] s by simp
  obtain r2 e2 where l: "levelArgs env d a1 = (r2, e2)" by (cases "levelArgs env d a1")
  show ?thesis
  proof (cases "?e \<in> set e2")
    case True
    from levelArgs_invalid_event [OF l this] show ?thesis .
  next
    case n2: False
    show ?thesis
    proof (cases r2)
      case (Inl st)
      with True s l assms n1 n2 show ?thesis by (auto simp: changeLogging_def)
    next
      case (Inr a2)
      obtain r3 e3 where p: "packetsArgs d a2 = (r3, e3)" by (cases "packetsArgs d a2")
      have n3: "?e \<notin> set e3" using packetsArgs_no_invalid_level [OF p] .
      from True s l Inr p assms n1 n2 n3 show ?thesis
        by (cases r3; cases "ChangeLogging env sb (projr r3)")
           (auto simp: changeLogging_def falls_def Errorf_def Let_def)
    qed
  qed
qed

lemma rejected_execution:
  assumes "logLevel d \<noteq> ''''" and "parseLevel (strings_ToLower env (logLevel d)) = None"
    and "resolve env root d as = (Inr c, e0)" and "checkRunning env c = (Inr sb, e1)"
    and "ret (sendSignal env d sb) = None" and "ret (dumpStacks env d sb) = None"
    and "ret (heapProfile env d sb) = None" and "ret (cpuProfile env d sb) = None"
    and "ret (traceExecution env d sb) = None"
  shows "Execute env root d as =
           (if fst (runDefers env d sb
                     (defers (traceExecution env d sb) @ defers (cpuProfile env d sb) @
                      defers (heapProfile env d sb)))
            then Terminated else Returned ExitFailure,
            e0 @ e1 @ out (sendSignal env d sb) @ out (dumpStacks env d sb) @
            out (heapProfile env d sb) @ out (cpuProfile env d sb) @
            out (traceExecution env d sb) @ snd (straceArgs env d initialArgs) @
            [Call_Errorf ''invalid log level %d'' [S (logLevel d)]] @
            snd (runDefers env d sb
                  (defers (traceExecution env d sb) @ defers (cpuProfile env d sb) @
                   defers (heapProfile env d sb))))"
proof -
  let ?ds = "defers (traceExecution env d sb) @ defers (cpuProfile env d sb) @
             defers (heapProfile env d sb)"
  have lg: "changeLogging env d sb =
           \<lparr>ret = Some ExitFailure,
            out = snd (straceArgs env d initialArgs) @
                  [Call_Errorf ''invalid log level %d'' [S (logLevel d)]],
            defers = [], setDelay = False\<rparr>"
    by (rule changeLogging_rejected [OF assms(1,2)])
  have m: "ret (mainSequence env d sb) = Some ExitFailure"
    "out (mainSequence env d sb) =
       out (sendSignal env d sb) @ out (dumpStacks env d sb) @ out (heapProfile env d sb) @
       out (cpuProfile env d sb) @ out (traceExecution env d sb) @
       snd (straceArgs env d initialArgs) @
       [Call_Errorf ''invalid log level %d'' [S (logLevel d)]]"
    "defers (mainSequence env d sb) = ?ds"
    using assms(5-9) by (simp_all add: mainSequence_def run_Cons_None run_Cons_Some lg del: run.simps)
  obtain fatal e3 where r: "runDefers env d sb ?ds = (fatal, e3)"
    by (cases "runDefers env d sb ?ds")
  from assms(3,4) m r body_failed [OF m(1)] show ?thesis
    by (cases fatal) (simp_all add: Execute_def)
qed

lemma rejected_only_after_actions:
  assumes "Call_Errorf ''invalid log level %d'' [S x] \<in> set (snd (Execute env root d as))"
  shows "\<exists>c e0 sb e1. resolve env root d as = (Inr c, e0) \<and> checkRunning env c = (Inr sb, e1) \<and>
           ret (sendSignal env d sb) = None \<and> ret (dumpStacks env d sb) = None \<and>
           ret (heapProfile env d sb) = None \<and> ret (cpuProfile env d sb) = None \<and>
           ret (traceExecution env d sb) = None \<and>
           logLevel d \<noteq> '''' \<and> parseLevel (strings_ToLower env (logLevel d)) = None"
proof (cases rule: Execute_cases [of env root d as])
  case (resolve_failed st e0)
  with assms resolve_formats [OF resolve_failed(1), of "''invalid log level %d''" "[S x]"]
  show ?thesis by simp
next
  case (not_running c e0 st e1)
  with assms resolve_formats [OF not_running(1), of "''invalid log level %d''" "[S x]"]
    checkRunning_formats [OF not_running(2), of "''invalid log level %d''" "[S x]"]
  show ?thesis by auto
next
  case (ran c e0 sb e1 st e2 fatal e3)
  let ?e = "Call_Errorf ''invalid log level %d'' [S x]"
  have "?e \<notin> set e0" using resolve_formats [OF ran(1), of "''invalid log level %d''" "[S x]"] by auto
  moreover have "?e \<notin> set e1"
    using checkRunning_formats [OF ran(2), of "''invalid log level %d''" "[S x]"] by auto
  moreover have "?e \<notin> set e3" using runDefers_kinds [OF ran(4), of ?e] by auto
  ultimately have "?e \<in> set e2" using assms ran(5) by auto
  from body_events [OF ran(3) this] have m: "?e \<in> set (out (mainSequence env d sb))" by auto
  note n = invalid_level_not_before [of x env d sb]
  have lg: "?e \<in> set (out (changeLogging env d sb))"
    using mainSequence_out [OF m] n by auto
  have 1: "ret (sendSignal env d sb) = None"
    using m n(1) by (cases "ret (sendSignal env d sb)") (auto simp: mainSequence_def)
  have 2: "ret (dumpStacks env d sb) = None"
    using m n(1,2) 1
    by (cases "ret (dumpStacks env d sb)") (auto simp: mainSequence_def Let_def)
  have 3: "ret (heapProfile env d sb) = None"
    using m n(1,2,3) 1 2
    by (cases "ret (heapProfile env d sb)") (auto simp: mainSequence_def Let_def)
  have 4: "ret (cpuProfile env d sb) = None"
    using m n(1,2,3,4) 1 2 3
    by (cases "ret (cpuProfile env d sb)") (auto simp: mainSequence_def Let_def)
  have 5: "ret (traceExecution env d sb) = None"
    using m n 1 2 3 4
    by (cases "ret (traceExecution env d sb)") (auto simp: mainSequence_def Let_def)
  from changeLogging_invalid_event [OF lg] ran(1,2) 1 2 3 4 5 show ?thesis by blast
qed

subsection \<open>Executions with a trace in the concrete world\<close>

lemma run_trace_level_bogus:
  "Execute okEnv ''/run/a'' (noFlags\<lparr>trace := ''/tmp/trace'', logLevel := ''bogus''\<rparr>) [''abc''] =
     (Returned ExitFailure,
      [Call_Load ''/run/a'' ''abc'' (Inr \<lparr>Sandbox = Some sandbox_abc\<rparr>),
       Call_IsRunning sandbox_abc True,
       Call_Infof ''Found sandbox %q, PID: %d'' [S ''abc'', I 42],
       Call_Create ''/tmp/trace'' (Inr 5),
       Call_StartTrace sandbox_abc 5 None,
       Call_Infof ''Tracing started for %d sec, writing to %q'' [I 5, S ''/tmp/trace''],
       Call_Errorf ''invalid log level %d'' [S ''bogus''],
       Call_Close 5,
       Call_StopTrace sandbox_abc None,
       Call_Infof ''Trace written to %q'' [S ''/tmp/trace'']])"
  by (simp add: exec_defs okEnv_def noFlags_def sandbox_abc_def ToLower_examples)

lemma run_cpu_trace_stop_fails:
  "Execute traceStopFails ''/run/a'' (noFlags\<lparr>profileCPU := ''/tmp/cpu'', trace := ''/tmp/trace''\<rparr>) [''abc''] =
     (Terminated,
      [Call_Load ''/run/a'' ''abc'' (Inr \<lparr>Sandbox = Some sandbox_abc\<rparr>),
       Call_IsRunning sandbox_abc True,
       Call_Infof ''Found sandbox %q, PID: %d'' [S ''abc'', I 42],
       Call_Create ''/tmp/cpu'' (Inr 4),
       Call_StartCPUProfile sandbox_abc 4 None,
       Call_Infof ''CPU profile started for %d sec, writing to %q'' [I 5, S ''/tmp/cpu''],
       Call_Create ''/tmp/trace'' (Inr 5),
       Call_StartTrace sandbox_abc 5 None,
       Call_Infof ''Tracing started for %d sec, writing to %q'' [I 5, S ''/tmp/trace''],
       Call_Sleep 5000000000,
       Call_Close 5,
       Call_StopTrace sandbox_abc (Some ''tracing not started''),
       Call_Fatalf ''tracing not started'' []])"
  by (simp add: exec_defs traceStopFails_def okEnv_def noFlags_def sandbox_abc_def)

lemma run_trace_level_bogus_stop_fails:
  "Execute traceStopFails ''/run/a'' (noFlags\<lparr>trace := ''/tmp/trace'', logLevel := ''bogus''\<rparr>) [''abc''] =
     (Terminated,
      [Call_Load ''/run/a'' ''abc'' (Inr \<lparr>Sandbox = Some sandbox_abc\<rparr>),
       Call_IsRunning sandbox_abc True,
       Call_Infof ''Found sandbox %q, PID: %d'' [S ''abc'', I 42],
       Call_Create ''/tmp/trace'' (Inr 5),
       Call_StartTrace sandbox_abc 5 None,
       Call_Infof ''Tracing started for %d sec, writing to %q'' [I 5, S ''/tmp/trace''],
       Call_Errorf ''invalid log level %d'' [S ''bogus''],
       Call_Close 5,
       Call_StopTrace sandbox_abc (Some ''tracing not started''),
       Call_Fatalf ''tracing not started'' []])"
  by (simp add: exec_defs traceStopFails_def okEnv_def noFlags_def sandbox_abc_def ToLower_examples)

subsection \<open>The order of close and stop\<close>

text \<open>
  C2, as the code has it.  The cleanup of a session is deferred just before its start
  request, so a start request in an execution marks a session whose cleanup is
  registered.  For a trace that was given its start request, the execution always
  closes the trace file and issues the stop request right after the close.  For a
  CPU profile that was given its start request, the execution closes the profile
  file and issues the stop request right after the close, unless a trace was started
  too and its stop request fails: the process is then ended before the cleanup of
  the CPU profile runs, and no stop of the profile is issued.  Conversely each stop
  request in an execution comes immediately after the close of the file that was
  created for that session.
\<close>

theorem close_then_stop:
  "(snd (Execute env root d as) = pre @ e # post \<and> (is_StopCPUProfile e \<or> is_StopTrace e) \<longrightarrow>
      (\<exists>pre' f'. pre = pre' @ [Call_Close f'] \<and>
         (is_StopCPUProfile e \<longrightarrow> os_Create env (profileCPU d) = Inr f') \<and>
         (is_StopTrace e \<longrightarrow> os_Create env (trace d) = Inr f'))) \<and>
   (Call_StartTrace sb g rt \<in> set (snd (Execute env root d as)) \<longrightarrow>
      (\<exists>p q. snd (Execute env root d as) =
                p @ [Call_Close g, Call_StopTrace sb (StopTrace env sb)] @ q \<and>
              Call_StartTrace sb g rt \<in> set p)) \<and>
   (Call_StartCPUProfile sb f rc \<in> set (snd (Execute env root d as)) \<longrightarrow>
      (if (\<exists>x\<in>set (snd (Execute env root d as)). is_StartTrace x) \<and> StopTrace env sb \<noteq> None
       then fst (Execute env root d as) = Terminated \<and>
            filter is_StopCPUProfile (snd (Execute env root d as)) = []
       else (\<exists>p q. snd (Execute env root d as) =
                p @ [Call_Close f, Call_StopCPUProfile sb (StopCPUProfile env sb)] @ q \<and>
              Call_StartCPUProfile sb f rc \<in> set p)))"
proof (intro conjI impI)
  assume "snd (Execute env root d as) = pre @ e # post \<and> (is_StopCPUProfile e \<or> is_StopTrace e)"
  then show "\<exists>pre' f'. pre = pre' @ [Call_Close f'] \<and>
         (is_StopCPUProfile e \<longrightarrow> os_Create env (profileCPU d) = Inr f') \<and>
         (is_StopTrace e \<longrightarrow> os_Create env (trace d) = Inr f')"
    using stop_follows_close [of env root d as pre e post] by blast
next
  assume "Call_StartTrace sb g rt \<in> set (snd (Execute env root d as))"
  then show "\<exists>p q. snd (Execute env root d as) =
                p @ [Call_Close g, Call_StopTrace sb (StopTrace env sb)] @ q \<and>
              Call_StartTrace sb g rt \<in> set p"
    by (rule trace_cleanup_runs)
next
  assume "Call_StartCPUProfile sb f rc \<in> set (snd (Execute env root d as))"
  then show "if (\<exists>x\<in>set (snd (Execute env root d as)). is_StartTrace x) \<and> StopTrace env sb \<noteq> None
       then fst (Execute env root d as) = Terminated \<and>
            filter is_StopCPUProfile (snd (Execute env root d as)) = []
       else (\<exists>p q. snd (Execute env root d as) =
                p @ [Call_Close f, Call_StopCPUProfile sb (StopCPUProfile env sb)] @ q \<and>
              Call_StartCPUProfile sb f rc \<in> set p)"
    by (rule cpu_cleanup_runs)
qed

theorem close_then_stop_witness:
  "Call_StartTrace sandbox_abc 5 None \<in> set (snd (Execute okEnv ''/run/a'' (noFlags\<lparr>profileCPU := ''/tmp/cpu'', trace := ''/tmp/trace''\<rparr>) [''abc''])) \<and>
   snd (Execute okEnv ''/run/a'' (noFlags\<lparr>profileCPU := ''/tmp/cpu'', trace := ''/tmp/trace''\<rparr>) [''abc'']) =
     [Call_Load ''/run/a'' ''abc'' (Inr \<lparr>Sandbox = Some sandbox_abc\<rparr>),
       Call_IsRunning sandbox_abc True,
       Call_Infof ''Found sandbox %q, PID: %d'' [S ''abc'', I 42],
       Call_Create ''/tmp/cpu'' (Inr 4),
       Call_StartCPUProfile sandbox_abc 4 None,
       Call_Infof ''CPU profile started for %d sec, writing to %q'' [I 5, S ''/tmp/cpu''],
       Call_Create ''/tmp/trace'' (Inr 5),
       Call_StartTrace sandbox_abc 5 None,
       Call_Infof ''Tracing started for %d sec, writing to %q'' [I 5, S ''/tmp/trace''],
       Call_Sleep 5000000000] @
     [Call_Close 5, Call_StopTrace sandbox_abc (StopTrace okEnv sandbox_abc)] @
     [Call_Infof ''Trace written to %q'' [S ''/tmp/trace''],
       Call_Close 4,
       Call_StopCPUProfile sandbox_abc None,
       Call_Infof ''CPU profile written to %q'' [S ''/tmp/cpu'']] \<and>
   is_StopTrace (Call_StopTrace sandbox_abc None) \<and>
   os_Create okEnv (trace (noFlags\<lparr>profileCPU := ''/tmp/cpu'', trace := ''/tmp/trace''\<rparr>)) = Inr 5 \<and>
   Call_StartCPUProfile sandbox_abc 4 None \<in> set (snd (Execute okEnv ''/run/a'' (noFlags\<lparr>profileCPU := ''/tmp/cpu'', trace := ''/tmp/trace''\<rparr>) [''abc''])) \<and>
   StopTrace okEnv sandbox_abc = None \<and>
   snd (Execute okEnv ''/run/a'' (noFlags\<lparr>profileCPU := ''/tmp/cpu'', trace := ''/tmp/trace''\<rparr>) [''abc'']) =
     [Call_Load ''/run/a'' ''abc'' (Inr \<lparr>Sandbox = Some sandbox_abc\<rparr>),
       Call_IsRunning sandbox_abc True,
       Call_Infof ''Found sandbox %q, PID: %d'' [S ''abc'', I 42],
       Call_Create ''/tmp/cpu'' (Inr 4),
       Call_StartCPUProfile sandbox_abc 4 None,
       Call_Infof ''CPU profile started for %d sec, writing to %q'' [I 5, S ''/tmp/cpu''],
       Call_Create ''/tmp/trace'' (Inr 5),
       Call_StartTrace sandbox_abc 5 None,
       Call_Infof ''Tracing started for %d sec, writing to %q'' [I 5, S ''/tmp/trace''],
       Call_Sleep 5000000000,
       Call_Close 5,
       Call_StopTrace sandbox_abc None,
       Call_Infof ''Trace written to %q'' [S ''/tmp/trace'']] @
     [Call_Close 4, Call_StopCPUProfile sandbox_abc (StopCPUProfile okEnv sandbox_abc)] @
     [Call_Infof ''CPU profile written to %q'' [S ''/tmp/cpu'']] \<and>
   is_StopCPUProfile (Call_StopCPUProfile sandbox_abc None) \<and>
   os_Create okEnv (profileCPU (noFlags\<lparr>profileCPU := ''/tmp/cpu'', trace := ''/tmp/trace''\<rparr>)) = Inr 4 \<and>
   Call_StartCPUProfile sandbox_abc 4 None \<in> set (snd (Execute traceStopFails ''/run/a'' (noFlags\<lparr>profileCPU := ''/tmp/cpu'', trace := ''/tmp/trace''\<rparr>) [''abc''])) \<and>
   Call_StartTrace sandbox_abc 5 None \<in> set (snd (Execute traceStopFails ''/run/a'' (noFlags\<lparr>profileCPU := ''/tmp/cpu'', trace := ''/tmp/trace''\<rparr>) [''abc''])) \<and>
   is_StartTrace (Call_StartTrace sandbox_abc 5 None) \<and>
   StopTrace traceStopFails sandbox_abc = Some ''tracing not started'' \<and>
   fst (Execute traceStopFails ''/run/a'' (noFlags\<lparr>profileCPU := ''/tmp/cpu'', trace := ''/tmp/trace''\<rparr>) [''abc'']) = Terminated \<and>
   filter is_StopCPUProfile (snd (Execute traceStopFails ''/run/a'' (noFlags\<lparr>profileCPU := ''/tmp/cpu'', trace := ''/tmp/trace''\<rparr>) [''abc''])) = []"
proof -
  have s: "StopTrace okEnv sandbox_abc = None" "StopCPUProfile okEnv sandbox_abc = None"
    "StopTrace traceStopFails sandbox_abc = Some ''tracing not started''"
    by (simp_all add: okEnv_def traceStopFails_def)
  have t: "snd (Execute okEnv ''/run/a'' (noFlags\<lparr>profileCPU := ''/tmp/cpu'', trace := ''/tmp/trace''\<rparr>) [''abc'']) =
     ([Call_Load ''/run/a'' ''abc'' (Inr \<lparr>Sandbox = Some sandbox_abc\<rparr>),
       Call_IsRunning sandbox_abc True,
       Call_Infof ''Found sandbox %q, PID: %d'' [S ''abc'', I 42],
       Call_Create ''/tmp/cpu'' (Inr 4),
       Call_StartCPUProfile sandbox_abc 4 None,
       Call_Infof ''CPU profile started for %d sec, writing to %q'' [I 5, S ''/tmp/cpu''],
       Call_Create ''/tmp/trace'' (Inr 5),
       Call_StartTrace sandbox_abc 5 None,
       Call_Infof ''Tracing started for %d sec, writing to %q'' [I 5, S ''/tmp/trace''],
       Call_Sleep 5000000000] @ [Call_Close 5]) @ Call_StopTrace sandbox_abc None #
     [Call_Infof ''Trace written to %q'' [S ''/tmp/trace''],
       Call_Close 4,
       Call_StopCPUProfile sandbox_abc None,
       Call_Infof ''CPU profile written to %q'' [S ''/tmp/cpu'']]"
    and c: "snd (Execute okEnv ''/run/a'' (noFlags\<lparr>profileCPU := ''/tmp/cpu'', trace := ''/tmp/trace''\<rparr>) [''abc'']) =
     ([Call_Load ''/run/a'' ''abc'' (Inr \<lparr>Sandbox = Some sandbox_abc\<rparr>),
       Call_IsRunning sandbox_abc True,
       Call_Infof ''Found sandbox %q, PID: %d'' [S ''abc'', I 42],
       Call_Create ''/tmp/cpu'' (Inr 4),
       Call_StartCPUProfile sandbox_abc 4 None,
       Call_Infof ''CPU profile started for %d sec, writing to %q'' [I 5, S ''/tmp/cpu''],
       Call_Create ''/tmp/trace'' (Inr 5),
       Call_StartTrace sandbox_abc 5 None,
       Call_Infof ''Tracing started for %d sec, writing to %q'' [I 5, S ''/tmp/trace''],
       Call_Sleep 5000000000,
       Call_Close 5,
       Call_StopTrace sandbox_abc None,
       Call_Infof ''Trace written to %q'' [S ''/tmp/trace'']] @ [Call_Close 4]) @ Call_StopCPUProfile sandbox_abc None #
     [Call_Infof ''CPU profile written to %q'' [S ''/tmp/cpu'']]"
    by (simp_all add: run_cpu_trace)
  have i: "Call_StartCPUProfile sandbox_abc 4 None \<in> set (snd (Execute traceStopFails ''/run/a'' (noFlags\<lparr>profileCPU := ''/tmp/cpu'', trace := ''/tmp/trace''\<rparr>) [''abc'']))"
    "Call_StartTrace sandbox_abc 5 None \<in> set (snd (Execute traceStopFails ''/run/a'' (noFlags\<lparr>profileCPU := ''/tmp/cpu'', trace := ''/tmp/trace''\<rparr>) [''abc'']))"
    by (simp_all add: run_cpu_trace_stop_fails)
  from i(2) have x: "\<exists>x\<in>set (snd (Execute traceStopFails ''/run/a'' (noFlags\<lparr>profileCPU := ''/tmp/cpu'', trace := ''/tmp/trace''\<rparr>) [''abc''])). is_StartTrace x"
    by (rule rev_bexI) simp
  note a = close_then_stop [where env = okEnv and root = "''/run/a''" and as = "[''abc'']"
      and d = "noFlags\<lparr>profileCPU := ''/tmp/cpu'', trace := ''/tmp/trace''\<rparr>" and sb = sandbox_abc and g = 5 and rt = None and f = 4 and rc = None
      and e = "Call_StopTrace sandbox_abc None" and post = "[Call_Infof ''Trace written to %q'' [S ''/tmp/trace''],
       Call_Close 4,
       Call_StopCPUProfile sandbox_abc None,
       Call_Infof ''CPU profile written to %q'' [S ''/tmp/cpu'']]"
      and pre = "[Call_Load ''/run/a'' ''abc'' (Inr \<lparr>Sandbox = Some sandbox_abc\<rparr>),
       Call_IsRunning sandbox_abc True,
       Call_Infof ''Found sandbox %q, PID: %d'' [S ''abc'', I 42],
       Call_Create ''/tmp/cpu'' (Inr 4),
       Call_StartCPUProfile sandbox_abc 4 None,
       Call_Infof ''CPU profile started for %d sec, writing to %q'' [I 5, S ''/tmp/cpu''],
       Call_Create ''/tmp/trace'' (Inr 5),
       Call_StartTrace sandbox_abc 5 None,
       Call_Infof ''Tracing started for %d sec, writing to %q'' [I 5, S ''/tmp/trace''],
       Call_Sleep 5000000000] @ [Call_Close 5]"]
  note b = close_then_stop [where env = traceStopFails and root = "''/run/a''"
      and as = "[''abc'']" and d = "noFlags\<lparr>profileCPU := ''/tmp/cpu'', trace := ''/tmp/trace''\<rparr>" and sb = sandbox_abc and f = 4 and rc = None]
  from b i(1) x s(3) have 1: "fst (Execute traceStopFails ''/run/a'' (noFlags\<lparr>profileCPU := ''/tmp/cpu'', trace := ''/tmp/trace''\<rparr>) [''abc'']) = Terminated"
    "filter is_StopCPUProfile (snd (Execute traceStopFails ''/run/a'' (noFlags\<lparr>profileCPU := ''/tmp/cpu'', trace := ''/tmp/trace''\<rparr>) [''abc''])) = []"
    by simp_all
  from a have 2: "os_Create okEnv (trace (noFlags\<lparr>profileCPU := ''/tmp/cpu'', trace := ''/tmp/trace''\<rparr>)) = Inr 5"
    using t by simp
  have 3: "os_Create okEnv ''/tmp/cpu'' = Inr 4"
    by (simp add: okEnv_def)
  from 1 2 3 i s show ?thesis
    by (simp add: run_cpu_trace)
qed

text \<open>
  C2 as stated asks for the stop request before the close.  In this execution of a
  CPU profile, no stop request precedes the first close: the file is closed, then
  the profile is stopped.
\<close>

theorem stop_then_close_counterexample:
  "Execute okEnv ''/run/a'' (noFlags\<lparr>profileCPU := ''/tmp/cpu''\<rparr>) [''abc''] =
     (Returned ExitSuccess,
      [Call_Load ''/run/a'' ''abc'' (Inr \<lparr>Sandbox = Some sandbox_abc\<rparr>),
       Call_IsRunning sandbox_abc True,
       Call_Infof ''Found sandbox %q, PID: %d'' [S ''abc'', I 42],
       Call_Create ''/tmp/cpu'' (Inr 4),
       Call_StartCPUProfile sandbox_abc 4 None,
       Call_Infof ''CPU profile started for %d sec, writing to %q'' [I 5, S ''/tmp/cpu''],
       Call_Sleep 5000000000,
       Call_Close 4,
       Call_StopCPUProfile sandbox_abc None,
       Call_Infof ''CPU profile written to %q'' [S ''/tmp/cpu'']]) \<and>
   filter is_StopCPUProfile (takeWhile (Not \<circ> is_Close) (snd (Execute okEnv ''/run/a'' (noFlags\<lparr>profileCPU := ''/tmp/cpu''\<rparr>) [''abc'']))) = []"
  by (simp add: run_cpu)

subsection \<open>The delay and the finalization\<close>

text \<open>
  C3, as the code has it.  The command sleeps only at the end of a main sequence in
  which no step failed.  When neither a CPU profile nor a trace is requested, it
  never sleeps.  When an execution reports an error or a usage error, it does not
  sleep, and finalization runs at once: right after the error report the file of
  the trace is closed and the trace stopped, when a trace was given its start
  request; the same holds for the CPU profile when no trace was started after it.
  When a CPU profile or a trace is requested and nothing is reported as an error,
  the execution sleeps once, for the delay of the flags; no file is closed and no
  session is stopped before the sleep, and right after the sleep comes the
  finalization, which begins with the close of the file and the stop request of
  the trace, or of the CPU profile when no trace was requested.  A delay between 0
  and 9223372036 seconds is slept in full.
\<close>

theorem delay_then_finalize:
  "(profileCPU d = '''' \<and> trace d = '''' \<longrightarrow>
      filter is_Sleep (snd (Execute env root d as)) = []) \<and>
   ((\<exists>e\<in>set (snd (Execute env root d as)). is_Errorf e \<or> is_Usage e) \<longrightarrow>
      filter is_Sleep (snd (Execute env root d as)) = []) \<and>
   (Call_StartTrace sb g rt \<in> set (snd (Execute env root d as)) \<and>
    (\<exists>e\<in>set (snd (Execute env root d as)). is_Errorf e) \<longrightarrow>
      (\<exists>pre fmt xs post. snd (Execute env root d as) =
           pre @ [Call_Errorf fmt xs, Call_Close g, Call_StopTrace sb (StopTrace env sb)] @ post \<and>
         Call_StartTrace sb g rt \<in> set pre)) \<and>
   (Call_StartCPUProfile sb f rc \<in> set (snd (Execute env root d as)) \<and>
    (\<forall>e\<in>set (snd (Execute env root d as)). \<not> is_StartTrace e) \<and>
    (\<exists>e\<in>set (snd (Execute env root d as)). is_Errorf e) \<longrightarrow>
      (\<exists>pre fmt xs post. snd (Execute env root d as) =
           pre @ [Call_Errorf fmt xs, Call_Close f,
                  Call_StopCPUProfile sb (StopCPUProfile env sb)] @ post \<and>
         Call_StartCPUProfile sb f rc \<in> set pre)) \<and>
   ((profileCPU d \<noteq> '''' \<or> trace d \<noteq> '''') \<and>
    (\<forall>e\<in>set (snd (Execute env root d as)). \<not> is_Errorf e \<and> \<not> is_Usage e) \<longrightarrow>
      (\<exists>sb' pre post. snd (Execute env root d as) = pre @ Call_Sleep (sleepDuration d) # post \<and>
         (\<forall>e\<in>set pre. \<not> is_Sleep e \<and> \<not> is_Close e \<and> \<not> is_StopCPUProfile e \<and>
                       \<not> is_StopTrace e) \<and>
         (\<forall>e\<in>set post. is_Close e \<or> is_StopCPUProfile e \<or> is_StopTrace e \<or> is_Fatalf e \<or>
                        is_Infof e) \<and>
         (if trace d \<noteq> ''''
          then \<exists>g' rest. os_Create env (trace d) = Inr g' \<and>
                 post = Call_Close g' # Call_StopTrace sb' (StopTrace env sb') # rest
          else \<exists>f' rest. os_Create env (profileCPU d) = Inr f' \<and>
                 post = Call_Close f' # Call_StopCPUProfile sb' (StopCPUProfile env sb') # rest))) \<and>
   (0 \<le> profileDelay d \<and> profileDelay d \<le> 9223372036 \<longrightarrow>
      sleepDuration d = profileDelay d * 1000000000)"
  using no_delay_no_Sleep [of d env root as] failure_no_Sleep [of env root d as]
    trace_failure_cleanup_at_once [of sb g rt env root d as]
    cpu_failure_cleanup_at_once [of sb f rc env root d as]
    success_Sleep_then_cleanup [of d env root as] sleepDuration_seconds [of d]
  by (intro conjI impI) blast+

theorem delay_then_finalize_witness:
  "profileCPU (noFlags\<lparr>stacks := True, profileHeap := ''/tmp/heap''\<rparr>) = '''' \<and> trace (noFlags\<lparr>stacks := True, profileHeap := ''/tmp/heap''\<rparr>) = '''' \<and>
   filter is_Sleep (snd (Execute okEnv ''/run/a'' (noFlags\<lparr>stacks := True, profileHeap := ''/tmp/heap''\<rparr>) [''abc''])) = [] \<and>
   Call_Errorf ''invalid log level %d'' [S ''bogus'']
     \<in> set (snd (Execute okEnv ''/run/a'' (noFlags\<lparr>profileCPU := ''/tmp/cpu'', logLevel := ''bogus''\<rparr>) [''abc''])) \<and>
   filter is_Sleep (snd (Execute okEnv ''/run/a'' (noFlags\<lparr>profileCPU := ''/tmp/cpu'', logLevel := ''bogus''\<rparr>) [''abc''])) = [] \<and>
   Call_StartCPUProfile sandbox_abc 4 None \<in> set (snd (Execute okEnv ''/run/a'' (noFlags\<lparr>profileCPU := ''/tmp/cpu'', logLevel := ''bogus''\<rparr>) [''abc''])) \<and>
   filter is_StartTrace (snd (Execute okEnv ''/run/a'' (noFlags\<lparr>profileCPU := ''/tmp/cpu'', logLevel := ''bogus''\<rparr>) [''abc''])) = [] \<and>
   snd (Execute okEnv ''/run/a'' (noFlags\<lparr>profileCPU := ''/tmp/cpu'', logLevel := ''bogus''\<rparr>) [''abc'']) =
     [Call_Load ''/run/a'' ''abc'' (Inr \<lparr>Sandbox = Some sandbox_abc\<rparr>),
       Call_IsRunning sandbox_abc True,
       Call_Infof ''Found sandbox %q, PID: %d'' [S ''abc'', I 42],
       Call_Create ''/tmp/cpu'' (Inr 4),
       Call_StartCPUProfile sandbox_abc 4 None,
       Call_Infof ''CPU profile started for %d sec, writing to %q'' [I 5, S ''/tmp/cpu'']] @
     [Call_Errorf ''invalid log level %d'' [S ''bogus''], Call_Close 4,
      Call_StopCPUProfile sandbox_abc (StopCPUProfile okEnv sandbox_abc)] @
     [Call_Infof ''CPU profile written to %q'' [S ''/tmp/cpu'']] \<and>
   Call_StartTrace sandbox_abc 5 None \<in> set (snd (Execute okEnv ''/run/a'' (noFlags\<lparr>trace := ''/tmp/trace'', logLevel := ''bogus''\<rparr>) [''abc''])) \<and>
   Call_Errorf ''invalid log level %d'' [S ''bogus'']
     \<in> set (snd (Execute okEnv ''/run/a'' (noFlags\<lparr>trace := ''/tmp/trace'', logLevel := ''bogus''\<rparr>) [''abc''])) \<and>
   snd (Execute okEnv ''/run/a'' (noFlags\<lparr>trace := ''/tmp/trace'', logLevel := ''bogus''\<rparr>) [''abc'']) =
     [Call_Load ''/run/a'' ''abc'' (Inr \<lparr>Sandbox = Some sandbox_abc\<rparr>),
       Call_IsRunning sandbox_abc True,
       Call_Infof ''Found sandbox %q, PID: %d'' [S ''abc'', I 42],
       Call_Create ''/tmp/trace'' (Inr 5),
       Call_StartTrace sandbox_abc 5 None,
       Call_Infof ''Tracing started for %d sec, writing to %q'' [I 5, S ''/tmp/trace'']] @
     [Call_Errorf ''invalid log level %d'' [S ''bogus''], Call_Close 5,
      Call_StopTrace sandbox_abc (StopTrace okEnv sandbox_abc)] @
     [Call_Infof ''Trace written to %q'' [S ''/tmp/trace'']] \<and>
   profileCPU (noFlags\<lparr>profileCPU := ''/tmp/cpu'', trace := ''/tmp/trace''\<rparr>) \<noteq> '''' \<and>
   filter is_Errorf (snd (Execute okEnv ''/run/a'' (noFlags\<lparr>profileCPU := ''/tmp/cpu'', trace := ''/tmp/trace''\<rparr>) [''abc''])) = [] \<and>
   filter is_Usage (snd (Execute okEnv ''/run/a'' (noFlags\<lparr>profileCPU := ''/tmp/cpu'', trace := ''/tmp/trace''\<rparr>) [''abc''])) = [] \<and>
   snd (Execute okEnv ''/run/a'' (noFlags\<lparr>profileCPU := ''/tmp/cpu'', trace := ''/tmp/trace''\<rparr>) [''abc'']) =
     [Call_Load ''/run/a'' ''abc'' (Inr \<lparr>Sandbox = Some sandbox_abc\<rparr>),
       Call_IsRunning sandbox_abc True,
       Call_Infof ''Found sandbox %q, PID: %d'' [S ''abc'', I 42],
       Call_Create ''/tmp/cpu'' (Inr 4),
       Call_StartCPUProfile sandbox_abc 4 None,
       Call_Infof ''CPU profile started for %d sec, writing to %q'' [I 5, S ''/tmp/cpu''],
       Call_Create ''/tmp/trace'' (Inr 5),
       Call_StartTrace sandbox_abc 5 None,
       Call_Infof ''Tracing started for %d sec, writing to %q'' [I 5, S ''/tmp/trace'']] @ Call_Sleep (sleepDuration (noFlags\<lparr>profileCPU := ''/tmp/cpu'', trace := ''/tmp/trace''\<rparr>)) #
     [Call_Close 5,
       Call_StopTrace sandbox_abc None,
       Call_Infof ''Trace written to %q'' [S ''/tmp/trace''],
       Call_Close 4,
       Call_StopCPUProfile sandbox_abc None,
       Call_Infof ''CPU profile written to %q'' [S ''/tmp/cpu'']] \<and>
   0 \<le> profileDelay (noFlags\<lparr>profileCPU := ''/tmp/cpu'', trace := ''/tmp/trace''\<rparr>) \<and> profileDelay (noFlags\<lparr>profileCPU := ''/tmp/cpu'', trace := ''/tmp/trace''\<rparr>) \<le> 9223372036 \<and>
   sleepDuration (noFlags\<lparr>profileCPU := ''/tmp/cpu'', trace := ''/tmp/trace''\<rparr>) = 5000000000"
proof -
  note t1 = delay_then_finalize [where d = "noFlags\<lparr>stacks := True, profileHeap := ''/tmp/heap''\<rparr>" and env = okEnv and root = "''/run/a''"
      and as = "[''abc'']"]
  note t2 = delay_then_finalize [where d = "noFlags\<lparr>profileCPU := ''/tmp/cpu'', logLevel := ''bogus''\<rparr>" and env = okEnv and root = "''/run/a''"
      and as = "[''abc'']" and sb = sandbox_abc and f = 4 and rc = None]
  note t3 = delay_then_finalize [where d = "noFlags\<lparr>profileCPU := ''/tmp/cpu'', trace := ''/tmp/trace''\<rparr>" and env = okEnv and root = "''/run/a''"
      and as = "[''abc'']"]
  have e: "Call_Errorf ''invalid log level %d'' [S ''bogus'']
     \<in> set (snd (Execute okEnv ''/run/a'' (noFlags\<lparr>profileCPU := ''/tmp/cpu'', logLevel := ''bogus''\<rparr>) [''abc'']))"
    by (simp add: run_cpu_level_bogus)
  have s: "sleepDuration (noFlags\<lparr>profileCPU := ''/tmp/cpu'', trace := ''/tmp/trace''\<rparr>) = 5000000000"
    using t3 by simp
  from t1 have 1: "filter is_Sleep (snd (Execute okEnv ''/run/a'' (noFlags\<lparr>stacks := True, profileHeap := ''/tmp/heap''\<rparr>) [''abc''])) = []"
    by simp
  from e have "\<exists>x\<in>set (snd (Execute okEnv ''/run/a'' (noFlags\<lparr>profileCPU := ''/tmp/cpu'', logLevel := ''bogus''\<rparr>) [''abc''])). is_Errorf x \<or> is_Usage x"
    by (rule rev_bexI) simp
  with t2 have 2: "filter is_Sleep (snd (Execute okEnv ''/run/a'' (noFlags\<lparr>profileCPU := ''/tmp/cpu'', logLevel := ''bogus''\<rparr>) [''abc''])) = []"
    by blast
  have o: "StopTrace okEnv sandbox_abc = None" "StopCPUProfile okEnv sandbox_abc = None"
    by (simp_all add: okEnv_def)
  from 1 2 e s o show ?thesis
    by (simp add: run_cpu_trace run_cpu_level_bogus run_trace_level_bogus)
qed

text \<open>
  C3 as stated has the delay regardless of the outcome of the other steps.  Here the
  CPU profile is started, the log level is then rejected, and the profile is
  stopped with no sleep in the execution.
\<close>

theorem delay_skipped_counterexample:
  "Execute okEnv ''/run/a'' (noFlags\<lparr>profileCPU := ''/tmp/cpu'', logLevel := ''bogus''\<rparr>) [''abc''] =
     (Returned ExitFailure,
      [Call_Load ''/run/a'' ''abc'' (Inr \<lparr>Sandbox = Some sandbox_abc\<rparr>),
       Call_IsRunning sandbox_abc True,
       Call_Infof ''Found sandbox %q, PID: %d'' [S ''abc'', I 42],
       Call_Create ''/tmp/cpu'' (Inr 4),
       Call_StartCPUProfile sandbox_abc 4 None,
       Call_Infof ''CPU profile started for %d sec, writing to %q'' [I 5, S ''/tmp/cpu''],
       Call_Errorf ''invalid log level %d'' [S ''bogus''],
       Call_Close 4,
       Call_StopCPUProfile sandbox_abc None,
       Call_Infof ''CPU profile written to %q'' [S ''/tmp/cpu'']]) \<and>
   filter is_Sleep (snd (Execute okEnv ''/run/a'' (noFlags\<lparr>profileCPU := ''/tmp/cpu'', logLevel := ''bogus''\<rparr>) [''abc''])) = []"
  by (simp add: run_cpu_level_bogus)

subsection \<open>The parsing of the log level\<close>

text \<open>
  C6, as the code has it.  A log level that is given is accepted when its lower-case
  form is \<open>warning\<close> or \<open>0\<close> (level Warning), \<open>info\<close> or \<open>1\<close> (Info),
  \<open>debug\<close> or \<open>2\<close> (Debug).  Any other value makes the logging block report an
  invalid log level and return the failure status, and no logging change is sent in
  that execution.  Every logging change that is sent carries the level flag and the
  level the value stands for.  When the container is loaded, its sandbox runs and
  the five actions before the logging block fall through, the execution of a
  rejected level is the events of the resolution, of those five actions and of the
  strace part, then the report, then the deferred cleanups; the command returns
  the failure status, unless a stop request of the cleanups fails and ends the
  process.  The report occurs in no other execution: it comes after the container
  was loaded, its sandbox found running and the earlier actions done, not before
  every outside call.
\<close>

theorem log_level_parsing:
  assumes "logLevel d \<noteq> ''''"
  shows
    "(strings_ToLower env (logLevel d) \<in> {''warning'', ''0''} \<longrightarrow>
        fst (levelArgs env d a) = Inr (a\<lparr>SetLevel := True, Level := Warning\<rparr>)) \<and>
     (strings_ToLower env (logLevel d) \<in> {''info'', ''1''} \<longrightarrow>
        fst (levelArgs env d a) = Inr (a\<lparr>SetLevel := True, Level := Info\<rparr>)) \<and>
     (strings_ToLower env (logLevel d) \<in> {''debug'', ''2''} \<longrightarrow>
        fst (levelArgs env d a) = Inr (a\<lparr>SetLevel := True, Level := Debug\<rparr>)) \<and>
     (strings_ToLower env (logLevel d) \<notin> {''warning'', ''0'', ''info'', ''1'', ''debug'', ''2''} \<longrightarrow>
        levelArgs env d a =
          (Inl ExitFailure, [Call_Errorf ''invalid log level %d'' [S (logLevel d)]]) \<and>
        ret (changeLogging env d sb) = Some ExitFailure \<and>
        last (out (changeLogging env d sb)) =
          Call_Errorf ''invalid log level %d'' [S (logLevel d)] \<and>
        filter is_ChangeLogging (snd (Execute env root d as)) = []) \<and>
     (\<forall>sb' args r. Call_ChangeLogging sb' args r \<in> set (snd (Execute env root d as)) \<longrightarrow>
        SetLevel args \<and>
        fst (levelArgs env d a) = Inr (a\<lparr>SetLevel := True, Level := Level args\<rparr>)) \<and>
     (strings_ToLower env (logLevel d) \<notin> {''warning'', ''0'', ''info'', ''1'', ''debug'', ''2''} \<and>
        resolve env root d as = (Inr c, e0) \<and> checkRunning env c = (Inr sb, e1) \<and>
        ret (sendSignal env d sb) = None \<and> ret (dumpStacks env d sb) = None \<and>
        ret (heapProfile env d sb) = None \<and> ret (cpuProfile env d sb) = None \<and>
        ret (traceExecution env d sb) = None \<longrightarrow>
        Execute env root d as =
          (if fst (runDefers env d sb
                    (defers (traceExecution env d sb) @ defers (cpuProfile env d sb) @
                     defers (heapProfile env d sb)))
           then Terminated else Returned ExitFailure,
           e0 @ e1 @ out (sendSignal env d sb) @ out (dumpStacks env d sb) @
           out (heapProfile env d sb) @ out (cpuProfile env d sb) @
           out (traceExecution env d sb) @ snd (straceArgs env d initialArgs) @
           [Call_Errorf ''invalid log level %d'' [S (logLevel d)]] @
           snd (runDefers env d sb
                 (defers (traceExecution env d sb) @ defers (cpuProfile env d sb) @
                  defers (heapProfile env d sb))))) \<and>
     (Call_Errorf ''invalid log level %d'' [S (logLevel d)] \<in> set (snd (Execute env root d as)) \<longrightarrow>
        strings_ToLower env (logLevel d) \<notin> {''warning'', ''0'', ''info'', ''1'', ''debug'', ''2''} \<and>
        (\<exists>c e0 sb e1.
           resolve env root d as = (Inr c, e0) \<and> checkRunning env c = (Inr sb, e1) \<and>
        ret (sendSignal env d sb) = None \<and> ret (dumpStacks env d sb) = None \<and>
        ret (heapProfile env d sb) = None \<and> ret (cpuProfile env d sb) = None \<and>
        ret (traceExecution env d sb) = None \<and>
           Execute env root d as =
             (if fst (runDefers env d sb
                    (defers (traceExecution env d sb) @ defers (cpuProfile env d sb) @
                     defers (heapProfile env d sb)))
           then Terminated else Returned ExitFailure,
           e0 @ e1 @ out (sendSignal env d sb) @ out (dumpStacks env d sb) @
           out (heapProfile env d sb) @ out (cpuProfile env d sb) @
           out (traceExecution env d sb) @ snd (straceArgs env d initialArgs) @
           [Call_Errorf ''invalid log level %d'' [S (logLevel d)]] @
           snd (runDefers env d sb
                 (defers (traceExecution env d sb) @ defers (cpuProfile env d sb) @
                  defers (heapProfile env d sb))))))"
proof (intro conjI impI allI)
  assume "strings_ToLower env (logLevel d) \<in> {''warning'', ''0''}"
  then show "fst (levelArgs env d a) = Inr (a\<lparr>SetLevel := True, Level := Warning\<rparr>)"
    using levelArgs_accepted [OF assms, of env Warning a] by (simp add: parseLevel_iff)
next
  assume "strings_ToLower env (logLevel d) \<in> {''info'', ''1''}"
  then show "fst (levelArgs env d a) = Inr (a\<lparr>SetLevel := True, Level := Info\<rparr>)"
    using levelArgs_accepted [OF assms, of env Info a] by (simp add: parseLevel_iff)
next
  assume "strings_ToLower env (logLevel d) \<in> {''debug'', ''2''}"
  then show "fst (levelArgs env d a) = Inr (a\<lparr>SetLevel := True, Level := Debug\<rparr>)"
    using levelArgs_accepted [OF assms, of env Debug a] by (simp add: parseLevel_iff)
next
  assume "strings_ToLower env (logLevel d) \<notin> {''warning'', ''0'', ''info'', ''1'', ''debug'', ''2''}"
  then have n: "parseLevel (strings_ToLower env (logLevel d)) = None"
    using parseLevel_iff(4) [of "strings_ToLower env (logLevel d)"] by blast
  show "levelArgs env d a =
          (Inl ExitFailure, [Call_Errorf ''invalid log level %d'' [S (logLevel d)]])"
    by (rule levelArgs_rejected [OF assms n])
  show "ret (changeLogging env d sb) = Some ExitFailure"
    by (simp add: changeLogging_rejected [OF assms n])
  show "last (out (changeLogging env d sb)) =
          Call_Errorf ''invalid log level %d'' [S (logLevel d)]"
    by (simp add: changeLogging_rejected [OF assms n])
  show "filter is_ChangeLogging (snd (Execute env root d as)) = []"
    by (rule rejected_nothing_sent [OF assms n])
next
  fix sb' args r
  assume "Call_ChangeLogging sb' args r \<in> set (snd (Execute env root d as))"
  then have s: "Call_ChangeLogging sb' args r \<in> set (out (changeLogging env d sb'))"
    by (rule Execute_ChangeLogging)
  from changeLogging_sent(6) [OF s] assms show "SetLevel args" by simp
  from changeLogging_sent(7) [OF s assms]
  show "fst (levelArgs env d a) = Inr (a\<lparr>SetLevel := True, Level := Level args\<rparr>)"
    using levelArgs_accepted [OF assms, of env "Level args" a] by simp
next
  assume h: "strings_ToLower env (logLevel d) \<notin> {''warning'', ''0'', ''info'', ''1'', ''debug'', ''2''} \<and>
        resolve env root d as = (Inr c, e0) \<and> checkRunning env c = (Inr sb, e1) \<and>
        ret (sendSignal env d sb) = None \<and> ret (dumpStacks env d sb) = None \<and>
        ret (heapProfile env d sb) = None \<and> ret (cpuProfile env d sb) = None \<and>
        ret (traceExecution env d sb) = None"
  then have n: "parseLevel (strings_ToLower env (logLevel d)) = None"
    using parseLevel_iff(4) [of "strings_ToLower env (logLevel d)"] by blast
  from h show "Execute env root d as =
          (if fst (runDefers env d sb
                    (defers (traceExecution env d sb) @ defers (cpuProfile env d sb) @
                     defers (heapProfile env d sb)))
           then Terminated else Returned ExitFailure,
           e0 @ e1 @ out (sendSignal env d sb) @ out (dumpStacks env d sb) @
           out (heapProfile env d sb) @ out (cpuProfile env d sb) @
           out (traceExecution env d sb) @ snd (straceArgs env d initialArgs) @
           [Call_Errorf ''invalid log level %d'' [S (logLevel d)]] @
           snd (runDefers env d sb
                 (defers (traceExecution env d sb) @ defers (cpuProfile env d sb) @
                  defers (heapProfile env d sb))))"
    using rejected_execution [OF assms n, of root as c e0 sb e1] by blast
next
  assume e: "Call_Errorf ''invalid log level %d'' [S (logLevel d)]
    \<in> set (snd (Execute env root d as))"
  from rejected_only_after_actions [OF e] obtain c e0 sb e1 where
    r: "resolve env root d as = (Inr c, e0) \<and> checkRunning env c = (Inr sb, e1) \<and>
        ret (sendSignal env d sb) = None \<and> ret (dumpStacks env d sb) = None \<and>
        ret (heapProfile env d sb) = None \<and> ret (cpuProfile env d sb) = None \<and>
        ret (traceExecution env d sb) = None"
    and n: "parseLevel (strings_ToLower env (logLevel d)) = None"
    by blast
  from n show "strings_ToLower env (logLevel d) \<notin> {''warning'', ''0'', ''info'', ''1'', ''debug'', ''2''}"
    using parseLevel_iff(4) [of "strings_ToLower env (logLevel d)"] by blast
  from r have "Execute env root d as =
             (if fst (runDefers env d sb
                    (defers (traceExecution env d sb) @ defers (cpuProfile env d sb) @
                     defers (heapProfile env d sb)))
           then Terminated else Returned ExitFailure,
           e0 @ e1 @ out (sendSignal env d sb) @ out (dumpStacks env d sb) @
           out (heapProfile env d sb) @ out (cpuProfile env d sb) @
           out (traceExecution env d sb) @ snd (straceArgs env d initialArgs) @
           [Call_Errorf ''invalid log level %d'' [S (logLevel d)]] @
           snd (runDefers env d sb
                 (defers (traceExecution env d sb) @ defers (cpuProfile env d sb) @
                  defers (heapProfile env d sb))))"
    using rejected_execution [OF assms n, of root as c e0 sb e1] by blast
  with r show "\<exists>c e0 sb e1.
           resolve env root d as = (Inr c, e0) \<and> checkRunning env c = (Inr sb, e1) \<and>
        ret (sendSignal env d sb) = None \<and> ret (dumpStacks env d sb) = None \<and>
        ret (heapProfile env d sb) = None \<and> ret (cpuProfile env d sb) = None \<and>
        ret (traceExecution env d sb) = None \<and>
           Execute env root d as =
             (if fst (runDefers env d sb
                    (defers (traceExecution env d sb) @ defers (cpuProfile env d sb) @
                     defers (heapProfile env d sb)))
           then Terminated else Returned ExitFailure,
           e0 @ e1 @ out (sendSignal env d sb) @ out (dumpStacks env d sb) @
           out (heapProfile env d sb) @ out (cpuProfile env d sb) @
           out (traceExecution env d sb) @ snd (straceArgs env d initialArgs) @
           [Call_Errorf ''invalid log level %d'' [S (logLevel d)]] @
           snd (runDefers env d sb
                 (defers (traceExecution env d sb) @ defers (cpuProfile env d sb) @
                  defers (heapProfile env d sb))))"
    by blast
qed

theorem log_level_parsing_witness:
  "logLevel (noFlags\<lparr>logLevel := ''DEBUG''\<rparr>) \<noteq> '''' \<and>
   strings_ToLower okEnv (logLevel (noFlags\<lparr>logLevel := ''DEBUG''\<rparr>)) \<in> {''debug'', ''2''} \<and>
   fst (levelArgs okEnv (noFlags\<lparr>logLevel := ''DEBUG''\<rparr>) initialArgs) =
     Inr (initialArgs\<lparr>SetLevel := True, Level := Debug\<rparr>) \<and>
   Call_ChangeLogging sandbox_abc
     \<lparr>SetLevel = True, Level = Debug, SetLogPackets = False, LogPackets = False,
          SetStrace = True, EnableStrace = False, StraceWhitelist = []\<rparr> None
     \<in> set (snd (Execute okEnv ''/run/a'' (noFlags\<lparr>logLevel := ''DEBUG''\<rparr>) [''abc''])) \<and>
   logLevel (noFlags\<lparr>logLevel := ''info''\<rparr>) \<noteq> '''' \<and>
   strings_ToLower okEnv (logLevel (noFlags\<lparr>logLevel := ''info''\<rparr>)) \<in> {''info'', ''1''} \<and>
   fst (levelArgs okEnv (noFlags\<lparr>logLevel := ''info''\<rparr>) initialArgs) =
     Inr (initialArgs\<lparr>SetLevel := True, Level := Info\<rparr>) \<and>
   logLevel (noFlags\<lparr>logLevel := ''0''\<rparr>) \<noteq> '''' \<and>
   strings_ToLower okEnv (logLevel (noFlags\<lparr>logLevel := ''0''\<rparr>)) \<in> {''warning'', ''0''} \<and>
   fst (levelArgs okEnv (noFlags\<lparr>logLevel := ''0''\<rparr>) initialArgs) =
     Inr (initialArgs\<lparr>SetLevel := True, Level := Warning\<rparr>) \<and>
   logLevel (noFlags\<lparr>trace := ''/tmp/trace'', logLevel := ''bogus''\<rparr>) \<noteq> '''' \<and>
   strings_ToLower okEnv (logLevel (noFlags\<lparr>trace := ''/tmp/trace'', logLevel := ''bogus''\<rparr>)) \<notin> {''warning'', ''0'', ''info'', ''1'', ''debug'', ''2''} \<and>
   ret (changeLogging okEnv (noFlags\<lparr>trace := ''/tmp/trace'', logLevel := ''bogus''\<rparr>) sandbox_abc) = Some ExitFailure \<and>
   resolve okEnv ''/run/a'' (noFlags\<lparr>trace := ''/tmp/trace'', logLevel := ''bogus''\<rparr>) [''abc''] =
     (Inr \<lparr>Sandbox = Some sandbox_abc\<rparr>,
      [Call_Load ''/run/a'' ''abc'' (Inr \<lparr>Sandbox = Some sandbox_abc\<rparr>)]) \<and>
   checkRunning okEnv \<lparr>Sandbox = Some sandbox_abc\<rparr> =
     (Inr sandbox_abc,
      [Call_IsRunning sandbox_abc True,
       Call_Infof ''Found sandbox %q, PID: %d'' [S ''abc'', I 42]]) \<and>
   ret (sendSignal okEnv (noFlags\<lparr>trace := ''/tmp/trace'', logLevel := ''bogus''\<rparr>) sandbox_abc) = None \<and>
   ret (dumpStacks okEnv (noFlags\<lparr>trace := ''/tmp/trace'', logLevel := ''bogus''\<rparr>) sandbox_abc) = None \<and>
   ret (heapProfile okEnv (noFlags\<lparr>trace := ''/tmp/trace'', logLevel := ''bogus''\<rparr>) sandbox_abc) = None \<and>
   ret (cpuProfile okEnv (noFlags\<lparr>trace := ''/tmp/trace'', logLevel := ''bogus''\<rparr>) sandbox_abc) = None \<and>
   ret (traceExecution okEnv (noFlags\<lparr>trace := ''/tmp/trace'', logLevel := ''bogus''\<rparr>) sandbox_abc) = None \<and>
   Execute okEnv ''/run/a'' (noFlags\<lparr>trace := ''/tmp/trace'', logLevel := ''bogus''\<rparr>) [''abc''] =
     (Returned ExitFailure,
      [Call_Load ''/run/a'' ''abc'' (Inr \<lparr>Sandbox = Some sandbox_abc\<rparr>),
       Call_IsRunning sandbox_abc True,
       Call_Infof ''Found sandbox %q, PID: %d'' [S ''abc'', I 42],
       Call_Create ''/tmp/trace'' (Inr 5),
       Call_StartTrace sandbox_abc 5 None,
       Call_Infof ''Tracing started for %d sec, writing to %q'' [I 5, S ''/tmp/trace''],
       Call_Errorf ''invalid log level %d'' [S ''bogus''],
       Call_Close 5,
       Call_StopTrace sandbox_abc None,
       Call_Infof ''Trace written to %q'' [S ''/tmp/trace'']]) \<and>
   filter is_ChangeLogging (snd (Execute okEnv ''/run/a'' (noFlags\<lparr>trace := ''/tmp/trace'', logLevel := ''bogus''\<rparr>) [''abc''])) = [] \<and>
   Execute traceStopFails ''/run/a'' (noFlags\<lparr>trace := ''/tmp/trace'', logLevel := ''bogus''\<rparr>) [''abc''] =
     (Terminated,
      [Call_Load ''/run/a'' ''abc'' (Inr \<lparr>Sandbox = Some sandbox_abc\<rparr>),
       Call_IsRunning sandbox_abc True,
       Call_Infof ''Found sandbox %q, PID: %d'' [S ''abc'', I 42],
       Call_Create ''/tmp/trace'' (Inr 5),
       Call_StartTrace sandbox_abc 5 None,
       Call_Infof ''Tracing started for %d sec, writing to %q'' [I 5, S ''/tmp/trace''],
       Call_Errorf ''invalid log level %d'' [S ''bogus''],
       Call_Close 5,
       Call_StopTrace sandbox_abc (Some ''tracing not started''),
       Call_Fatalf ''tracing not started'' []]) \<and>
   Call_Errorf ''invalid log level %d'' [S (logLevel (noFlags\<lparr>logLevel := ''bogus''\<rparr>))]
     \<in> set (snd (Execute okEnv ''/run/a'' (noFlags\<lparr>logLevel := ''bogus''\<rparr>) [''x''])) \<and>
   fst (Execute okEnv ''/run/a'' (noFlags\<lparr>logLevel := ''bogus''\<rparr>) [''x'']) = Returned ExitFailure"
proof -
  note t1 = log_level_parsing [where d = "noFlags\<lparr>logLevel := ''DEBUG''\<rparr>" and env = okEnv and a = initialArgs
      and root = "''/run/a''" and as = "[''abc'']" and sb = sandbox_abc]
  note t2 = log_level_parsing [where d = "noFlags\<lparr>logLevel := ''info''\<rparr>" and env = okEnv and a = initialArgs
      and root = "''/run/a''" and as = "[''abc'']" and sb = sandbox_abc]
  note t3 = log_level_parsing [where d = "noFlags\<lparr>logLevel := ''0''\<rparr>" and env = okEnv
      and a = initialArgs and root = "''/run/a''" and as = "[''abc'']" and sb = sandbox_abc]
  note t4 = log_level_parsing [where d = "noFlags\<lparr>trace := ''/tmp/trace'', logLevel := ''bogus''\<rparr>" and env = okEnv and a = initialArgs
      and root = "''/run/a''" and as = "[''abc'']" and sb = sandbox_abc
      and c = "\<lparr>Sandbox = Some sandbox_abc\<rparr>"
      and ?e0.0 = "[Call_Load ''/run/a'' ''abc'' (Inr \<lparr>Sandbox = Some sandbox_abc\<rparr>)]"
      and ?e1.0 = "[Call_IsRunning sandbox_abc True,
                    Call_Infof ''Found sandbox %q, PID: %d'' [S ''abc'', I 42]]"]
  have r: "resolve okEnv ''/run/a'' (noFlags\<lparr>trace := ''/tmp/trace'', logLevel := ''bogus''\<rparr>) [''abc''] =
     (Inr \<lparr>Sandbox = Some sandbox_abc\<rparr>,
      [Call_Load ''/run/a'' ''abc'' (Inr \<lparr>Sandbox = Some sandbox_abc\<rparr>)])"
    by (simp add: resolve_def okEnv_def sandbox_abc_def)
  have k: "checkRunning okEnv \<lparr>Sandbox = Some sandbox_abc\<rparr> =
     (Inr sandbox_abc,
      [Call_IsRunning sandbox_abc True,
       Call_Infof ''Found sandbox %q, PID: %d'' [S ''abc'', I 42]])"
    by (simp add: checkRunning_def okEnv_def sandbox_abc_def)
  have b: "ret (sendSignal okEnv (noFlags\<lparr>trace := ''/tmp/trace'', logLevel := ''bogus''\<rparr>) sandbox_abc) = None"
    "ret (dumpStacks okEnv (noFlags\<lparr>trace := ''/tmp/trace'', logLevel := ''bogus''\<rparr>) sandbox_abc) = None"
    "ret (heapProfile okEnv (noFlags\<lparr>trace := ''/tmp/trace'', logLevel := ''bogus''\<rparr>) sandbox_abc) = None"
    "ret (cpuProfile okEnv (noFlags\<lparr>trace := ''/tmp/trace'', logLevel := ''bogus''\<rparr>) sandbox_abc) = None"
    "ret (traceExecution okEnv (noFlags\<lparr>trace := ''/tmp/trace'', logLevel := ''bogus''\<rparr>) sandbox_abc) = None"
    by (simp_all add: sendSignal_def dumpStacks_def heapProfile_def cpuProfile_def
        traceExecution_def falls_def okEnv_def)
  have n: "strings_ToLower okEnv (logLevel (noFlags\<lparr>trace := ''/tmp/trace'', logLevel := ''bogus''\<rparr>)) \<notin> {''warning'', ''0'', ''info'', ''1'', ''debug'', ''2''}"
    by (simp add: ToLower_examples)
  from t1 have 1: "fst (levelArgs okEnv (noFlags\<lparr>logLevel := ''DEBUG''\<rparr>) initialArgs) =
     Inr (initialArgs\<lparr>SetLevel := True, Level := Debug\<rparr>)"
    by (simp add: ToLower_examples)
  from t2 have 2: "fst (levelArgs okEnv (noFlags\<lparr>logLevel := ''info''\<rparr>) initialArgs) =
     Inr (initialArgs\<lparr>SetLevel := True, Level := Info\<rparr>)"
    by (simp add: ToLower_examples)
  from t3 have 3: "fst (levelArgs okEnv (noFlags\<lparr>logLevel := ''0''\<rparr>) initialArgs) =
     Inr (initialArgs\<lparr>SetLevel := True, Level := Warning\<rparr>)"
    by (simp add: ToLower_examples)
  have l: "logLevel (noFlags\<lparr>trace := ''/tmp/trace'', logLevel := ''bogus''\<rparr>) \<noteq> ''''"
    by simp
  note c4 = t4 [OF l, THEN conjunct2, THEN conjunct2, THEN conjunct2, THEN conjunct1,
      rule_format, OF n]
  note c6 = t4 [OF l, THEN conjunct2, THEN conjunct2, THEN conjunct2, THEN conjunct2,
      THEN conjunct2, THEN conjunct1, rule_format]
  from c4 have 4: "ret (changeLogging okEnv (noFlags\<lparr>trace := ''/tmp/trace'', logLevel := ''bogus''\<rparr>) sandbox_abc) = Some ExitFailure"
    "filter is_ChangeLogging (snd (Execute okEnv ''/run/a'' (noFlags\<lparr>trace := ''/tmp/trace'', logLevel := ''bogus''\<rparr>) [''abc''])) = []"
    by (rule conjunct2 [THEN conjunct1], rule conjunct2 [THEN conjunct2, THEN conjunct2])
  have h: "strings_ToLower okEnv (logLevel (noFlags\<lparr>trace := ''/tmp/trace'', logLevel := ''bogus''\<rparr>)) \<notin> {''warning'', ''0'', ''info'', ''1'', ''debug'', ''2''} \<and>
      resolve okEnv ''/run/a'' (noFlags\<lparr>trace := ''/tmp/trace'', logLevel := ''bogus''\<rparr>) [''abc''] =
        (Inr \<lparr>Sandbox = Some sandbox_abc\<rparr>,
         [Call_Load ''/run/a'' ''abc'' (Inr \<lparr>Sandbox = Some sandbox_abc\<rparr>)]) \<and>
      checkRunning okEnv \<lparr>Sandbox = Some sandbox_abc\<rparr> =
        (Inr sandbox_abc,
         [Call_IsRunning sandbox_abc True,
          Call_Infof ''Found sandbox %q, PID: %d'' [S ''abc'', I 42]]) \<and>
      ret (sendSignal okEnv (noFlags\<lparr>trace := ''/tmp/trace'', logLevel := ''bogus''\<rparr>) sandbox_abc) = None \<and>
      ret (dumpStacks okEnv (noFlags\<lparr>trace := ''/tmp/trace'', logLevel := ''bogus''\<rparr>) sandbox_abc) = None \<and>
      ret (heapProfile okEnv (noFlags\<lparr>trace := ''/tmp/trace'', logLevel := ''bogus''\<rparr>) sandbox_abc) = None \<and>
      ret (cpuProfile okEnv (noFlags\<lparr>trace := ''/tmp/trace'', logLevel := ''bogus''\<rparr>) sandbox_abc) = None \<and>
      ret (traceExecution okEnv (noFlags\<lparr>trace := ''/tmp/trace'', logLevel := ''bogus''\<rparr>) sandbox_abc) = None"
    by (intro conjI n r k b)
  have 5: "Execute okEnv ''/run/a'' (noFlags\<lparr>trace := ''/tmp/trace'', logLevel := ''bogus''\<rparr>) [''abc''] =
     (Returned ExitFailure,
      [Call_Load ''/run/a'' ''abc'' (Inr \<lparr>Sandbox = Some sandbox_abc\<rparr>),
       Call_IsRunning sandbox_abc True,
       Call_Infof ''Found sandbox %q, PID: %d'' [S ''abc'', I 42],
       Call_Create ''/tmp/trace'' (Inr 5),
       Call_StartTrace sandbox_abc 5 None,
       Call_Infof ''Tracing started for %d sec, writing to %q'' [I 5, S ''/tmp/trace''],
       Call_Errorf ''invalid log level %d'' [S ''bogus''],
       Call_Close 5,
       Call_StopTrace sandbox_abc None,
       Call_Infof ''Trace written to %q'' [S ''/tmp/trace'']])"
    unfolding c6 [OF h]
    by (simp add: sendSignal_def dumpStacks_def heapProfile_def cpuProfile_def
        traceExecution_def straceArgs_def initialArgs_def falls_def okEnv_def)
  from 1 2 3 4 5 r k b show ?thesis
    by (simp add: ToLower_examples run_level_debug run_level_bogus
        run_trace_level_bogus_stop_fails)
qed

text \<open>
  C6 as stated, through the scenario of the spec, has the failure returned before
  any outside call.  In that scenario the container is loaded and its sandbox is
  asked whether it runs before the level is looked at.
\<close>

theorem invalid_level_after_calls_counterexample:
  "Execute okEnv ''/run/a'' (noFlags\<lparr>logLevel := ''bogus''\<rparr>) [''x''] =
     (Returned ExitFailure,
      [Call_Load ''/run/a'' ''x'' (Inr \<lparr>Sandbox = Some \<lparr>ID = ''x'', Pid = 7\<rparr>\<rparr>),
       Call_IsRunning \<lparr>ID = ''x'', Pid = 7\<rparr> True,
       Call_Infof ''Found sandbox %q, PID: %d'' [S ''x'', I 7],
       Call_Errorf ''invalid log level %d'' [S ''bogus'']]) \<and>
   takeWhile (Not \<circ> is_Errorf) (snd (Execute okEnv ''/run/a'' (noFlags\<lparr>logLevel := ''bogus''\<rparr>) [''x''])) =
     [Call_Load ''/run/a'' ''x'' (Inr \<lparr>Sandbox = Some \<lparr>ID = ''x'', Pid = 7\<rparr>\<rparr>),
      Call_IsRunning \<lparr>ID = ''x'', Pid = 7\<rparr> True,
      Call_Infof ''Found sandbox %q, PID: %d'' [S ''x'', I 7]]"
  by (simp add: run_level_bogus)

end
